theory Spec2Isabelle
  imports Main "HOL-Library.Word"
begin

section \<open>JavaScript values\<close>

text \<open>
  The client and the service are TypeScript; what they handle at run time are JavaScript
  values whose declared types (\<open>any\<close> for every response body) promise nothing. The model
  therefore works on one type of values, \<open>json\<close>: what \<open>JSON.parse\<close> can deliver, and
  \<open>undefined\<close>. A string is its sequence of UTF-16 code units, as in JavaScript; a number is
  an integer (identifiers and status codes; \<open>String(n)\<close> is its decimal notation, which holds
  for integers below \<open>10^21\<close>). An object is the list of its own properties in enumeration
  order, with distinct keys; a lookup takes the first entry of a key.
\<close>

type_synonym jsstring = "16 word list"

definition js :: "string \<Rightarrow> jsstring" where
  "js s = map (\<lambda>c. of_nat (of_char c)) s"

datatype json =
    JUndefined
  | JNull
  | JBool bool
  | JNum int
  | JStr jsstring
  | JArr "json list"
  | JObj "(jsstring \<times> json) list"

text \<open>
  A thrown value. Everything this code can throw is an \<open>Error\<close> object created by the
  engine (a \<open>TypeError\<close> for a property read on \<open>null\<close>/\<open>undefined\<close> or a call of something
  that is no function, a \<open>URIError\<close> of \<open>encodeURIComponent\<close>); \<open>message\<close> is its
  \<open>.message\<close>. The message texts are V8's.
\<close>

datatype exn = TypeError jsstring | URIError jsstring

fun message :: "exn \<Rightarrow> jsstring" where
  "message (TypeError m) = m"
| "message (URIError m) = m"

fun truthy :: "json \<Rightarrow> bool" where
  "truthy JUndefined = False"
| "truthy JNull = False"
| "truthy (JBool b) = b"
| "truthy (JNum n) = (n \<noteq> 0)"
| "truthy (JStr s) = (s \<noteq> [])"
| "truthy (JArr xs) = True"
| "truthy (JObj kvs) = True"

fun nullish :: "json \<Rightarrow> bool" where
  "nullish JUndefined = True"
| "nullish JNull = True"
| "nullish v = False"

definition js_or :: "json \<Rightarrow> json \<Rightarrow> json" where
  \<comment> \<open>\<open>a || b\<close>\<close>
  "js_or a b = (if truthy a then a else b)"

fun type_name :: "json \<Rightarrow> string" where
  "type_name JUndefined = ''undefined''"
| "type_name JNull = ''null''"
| "type_name v = ''''"

definition read_of_nullish :: "json \<Rightarrow> string \<Rightarrow> exn" where
  "read_of_nullish v p =
     TypeError (js ''Cannot read properties of '' @ js (type_name v) @ js '' (reading '' @ [39]
                @ js p @ [39] @ js '')'')"

definition own :: "(jsstring \<times> json) list \<Rightarrow> string \<Rightarrow> json" where
  "own kvs p = (case map_of kvs (js p) of Some v \<Rightarrow> v | None \<Rightarrow> JUndefined)"

text \<open>
  \<open>v.p\<close> for a \<open>v\<close> that is neither \<open>null\<close> nor \<open>undefined\<close>, and for the property
  names this code reads (\<open>message\<close>, \<open>response\<close>, \<open>data\<close>, \<open>status\<close>, \<open>id\<close>, \<open>name\<close>,
  \<open>account_name\<close>, \<open>vault_rows\<close>, \<open>new_row_id\<close>): none of them is a property of a
  string, a number, a boolean, an array or \<open>Object.prototype\<close>.
\<close>

fun getp :: "json \<Rightarrow> string \<Rightarrow> json" where
  "getp (JObj kvs) p = own kvs p"
| "getp v p = JUndefined"

definition get_prop :: "json \<Rightarrow> string \<Rightarrow> exn + json" where
  \<comment> \<open>\<open>v.p\<close>: a \<open>TypeError\<close> on \<open>null\<close> and \<open>undefined\<close>\<close>
  "get_prop v p = (if nullish v then Inl (read_of_nullish v p) else Inr (getp v p))"

definition opt_prop :: "json \<Rightarrow> string \<Rightarrow> json" where
  \<comment> \<open>\<open>v?.p\<close>\<close>
  "opt_prop v p = (if nullish v then JUndefined else getp v p)"

subsection \<open>Conversion to a string\<close>

definition digit :: "nat \<Rightarrow> 16 word" where
  "digit n = of_nat (48 + n)"

function show_nat :: "nat \<Rightarrow> jsstring" where
  "show_nat n = (if n < 10 then [digit n] else show_nat (n div 10) @ [digit (n mod 10)])"
  by pat_completeness auto
termination
  by (relation "measure id") auto

declare show_nat.simps [simp del]

definition show_int :: "int \<Rightarrow> jsstring" where
  "show_int i = (if i < 0 then js ''-'' @ show_nat (nat (- i)) else show_nat (nat i))"

definition not_primitive :: exn where
  "not_primitive = TypeError (js ''Cannot convert object to primitive value'')"

text \<open>
  \<open>String(v)\<close>, which is also what a template literal and a property key apply. An array is
  joined with commas, \<open>null\<close> and \<open>undefined\<close> elements giving the empty string. An object
  gives \<open>[object Object]\<close> through \<open>Object.prototype.toString\<close>, unless an own property
  \<open>toString\<close> shadows it: a parsed value is never a function, \<open>Object.prototype.valueOf\<close>
  returns the object itself, and the conversion throws. A number is an integer of magnitude
  below \<open>10^21\<close>, for which \<open>String\<close> gives the decimal digits; from \<open>10^21\<close> on JavaScript
  writes an exponent, which is not modelled.
\<close>

fun to_string :: "json \<Rightarrow> exn + jsstring"
  and join :: "json list \<Rightarrow> exn + jsstring" where
  "to_string JUndefined = Inr (js ''undefined'')"
| "to_string JNull = Inr (js ''null'')"
| "to_string (JBool b) = Inr (if b then js ''true'' else js ''false'')"
| "to_string (JNum n) = Inr (show_int n)"
| "to_string (JStr s) = Inr s"
| "to_string (JArr xs) = join xs"
| "to_string (JObj kvs) =
     (if js ''toString'' \<in> fst ` set kvs then Inl not_primitive
      else Inr (js ''[object Object]''))"
| "join [] = Inr []"
| "join (x # xs) =
     (case (if nullish x then Inr [] else to_string x) of
        Inl e \<Rightarrow> Inl e
      | Inr s \<Rightarrow>
          (if xs = [] then Inr s
           else (case join xs of Inl e \<Rightarrow> Inl e | Inr t \<Rightarrow> Inr (s @ js '','' @ t))))"

definition method_toString :: "json \<Rightarrow> string \<Rightarrow> exn + jsstring" where
  \<comment> \<open>\<open>v.toString()\<close> for a truthy \<open>v\<close> read from the variable \<open>what\<close>\<close>
  "method_toString v what =
     (case v of
        JObj kvs \<Rightarrow>
          (if js ''toString'' \<in> fst ` set kvs
           then Inl (TypeError (js what @ js ''.toString is not a function''))
           else Inr (js ''[object Object]''))
      | _ \<Rightarrow> to_string v)"

section \<open>Percent-encoding\<close>

text \<open>
  \<open>encodeURIComponent\<close> and \<open>decodeURIComponent\<close> are built into the language
  (ECMAScript, \<open>Encode\<close> and \<open>Decode\<close>), and \<open>URLSearchParams\<close> into the platform (the URL
  standard, the \<open>application/x-www-form-urlencoded\<close> serializer). The URL builder is
  defined by what they compute, so they are modelled here as their standards define them.
\<close>

definition is_alnum :: "16 word \<Rightarrow> bool" where
  "is_alnum c = ((48 \<le> c \<and> c \<le> 57) \<or> (65 \<le> c \<and> c \<le> 90) \<or> (97 \<le> c \<and> c \<le> 122))"

definition uri_unescaped :: "16 word \<Rightarrow> bool" where
  \<comment> \<open>letters, digits and \<open>- _ . ! ~ * ' ( )\<close>\<close>
  "uri_unescaped c = (is_alnum c \<or> c \<in> {45, 95, 46, 33, 126, 42, 39, 40, 41})"

definition hex_digit :: "nat \<Rightarrow> 16 word" where
  "hex_digit n = of_nat (if n < 10 then 48 + n else 55 + n)"

definition pct :: "nat \<Rightarrow> jsstring" where
  \<comment> \<open>\<open>%XX\<close>, in upper case\<close>
  "pct b = [37, hex_digit (b div 16), hex_digit (b mod 16)]"

definition hex_value :: "16 word \<Rightarrow> nat option" where
  "hex_value c =
     (if 48 \<le> c \<and> c \<le> 57 then Some (unat c - 48)
      else if 65 \<le> c \<and> c \<le> 70 then Some (unat c - 55)
      else if 97 \<le> c \<and> c \<le> 102 then Some (unat c - 87)
      else None)"

definition is_lead :: "16 word \<Rightarrow> bool" where
  "is_lead c = (0xD800 \<le> c \<and> c \<le> 0xDBFF)"

definition is_trail :: "16 word \<Rightarrow> bool" where
  "is_trail c = (0xDC00 \<le> c \<and> c \<le> 0xDFFF)"

definition pair_code_point :: "16 word \<Rightarrow> 16 word \<Rightarrow> nat" where
  "pair_code_point c d = (unat c - 0xD800) * 0x400 + (unat d - 0xDC00) + 0x10000"

definition utf16_encode :: "nat \<Rightarrow> jsstring" where
  "utf16_encode cp =
     (if cp < 0x10000 then [of_nat cp]
      else [of_nat ((cp - 0x10000) div 0x400 + 0xD800), of_nat ((cp - 0x10000) mod 0x400 + 0xDC00)])"

definition utf8_encode :: "nat \<Rightarrow> nat list" where
  "utf8_encode cp =
     (if cp < 0x80 then [cp]
      else if cp < 0x800 then [0xC0 + cp div 64, 0x80 + cp mod 64]
      else if cp < 0x10000 then [0xE0 + cp div 4096, 0x80 + cp div 64 mod 64, 0x80 + cp mod 64]
      else [0xF0 + cp div 262144, 0x80 + cp div 4096 mod 64, 0x80 + cp div 64 mod 64,
            0x80 + cp mod 64])"

definition is_cont :: "nat \<Rightarrow> bool" where
  "is_cont b = (0x80 \<le> b \<and> b < 0xC0)"

definition utf8_length :: "nat \<Rightarrow> nat" where
  \<comment> \<open>the number of leading 1 bits of an octet (5 stands for five or more)\<close>
  "utf8_length b =
     (if b < 0x80 then 0 else if b < 0xC0 then 1 else if b < 0xE0 then 2
      else if b < 0xF0 then 3 else if b < 0xF8 then 4 else 5)"

definition utf8_decode :: "nat list \<Rightarrow> nat option" where
  \<comment> \<open>the code point of a well-formed UTF-8 sequence of two to four octets: every
      continuation octet in \<open>80..BF\<close>, no overlong form, no surrogate, at most \<open>10FFFF\<close>\<close>
  "utf8_decode bs =
     (case bs of
        [a, b] \<Rightarrow>
          (let cp = (a - 0xC0) * 64 + (b - 0x80)
           in if is_cont b \<and> 0x80 \<le> cp then Some cp else None)
      | [a, b, c] \<Rightarrow>
          (let cp = (a - 0xE0) * 4096 + (b - 0x80) * 64 + (c - 0x80)
           in if is_cont b \<and> is_cont c \<and> 0x800 \<le> cp \<and> \<not> (0xD800 \<le> cp \<and> cp < 0xE000)
              then Some cp else None)
      | [a, b, c, d] \<Rightarrow>
          (let cp = (a - 0xF0) * 262144 + (b - 0x80) * 4096 + (c - 0x80) * 64 + (d - 0x80)
           in if is_cont b \<and> is_cont c \<and> is_cont d \<and> 0x10000 \<le> cp \<and> cp < 0x110000
              then Some cp else None)
      | _ \<Rightarrow> None)"

definition uri_malformed :: exn where
  "uri_malformed = URIError (js ''URI malformed'')"

definition prepend :: "jsstring \<Rightarrow> exn + jsstring \<Rightarrow> exn + jsstring" where
  "prepend s r = (case r of Inl e \<Rightarrow> Inl e | Inr t \<Rightarrow> Inr (s @ t))"

definition pct_utf8 :: "nat \<Rightarrow> jsstring" where
  "pct_utf8 cp = concat (map pct (utf8_encode cp))"

text \<open>
  \<open>encodeURIComponent\<close>: an unescaped code unit stands for itself; any other code point is
  written as the \<open>%XX\<close> of its UTF-8 octets; a surrogate without its partner is a
  \<open>URIError\<close>.
\<close>

fun encodeURIComponent :: "jsstring \<Rightarrow> exn + jsstring" where
  "encodeURIComponent [] = Inr []"
| "encodeURIComponent (c # cs) =
     (if uri_unescaped c then prepend [c] (encodeURIComponent cs)
      else if is_trail c then Inl uri_malformed
      else if is_lead c then
        (case cs of
           [] \<Rightarrow> Inl uri_malformed
         | d # ds \<Rightarrow>
             (if is_trail d then prepend (pct_utf8 (pair_code_point c d)) (encodeURIComponent ds)
              else Inl uri_malformed))
      else prepend (pct_utf8 (unat c)) (encodeURIComponent cs))"

fun read_octet :: "jsstring \<Rightarrow> (nat \<times> jsstring) option" where
  "read_octet (p # h # l # s) =
     (case (hex_value h, hex_value l) of
        (Some a, Some b) \<Rightarrow> (if p = 37 then Some (16 * a + b, s) else None)
      | _ \<Rightarrow> None)"
| "read_octet s = None"

fun read_octets :: "nat \<Rightarrow> jsstring \<Rightarrow> (nat list \<times> jsstring) option" where
  "read_octets 0 s = Some ([], s)"
| "read_octets (Suc n) s =
     (case read_octet s of
        None \<Rightarrow> None
      | Some (b, r) \<Rightarrow>
          (case read_octets n r of None \<Rightarrow> None | Some (bs, r') \<Rightarrow> Some (b # bs, r')))"

lemma read_octet_shorter: "read_octet s = Some (b, r) \<Longrightarrow> length r < length s"
  by (induction s rule: read_octet.induct) (auto split: option.splits if_splits)

lemma read_octets_shorter: "read_octets n s = Some (bs, r) \<Longrightarrow> length r \<le> length s"
proof (induction n arbitrary: s bs r)
  case 0
  then show ?case by simp
next
  case (Suc n)
  then show ?case
    by (fastforce split: option.splits dest: read_octet_shorter)
qed

text \<open>
  \<open>decodeURIComponent\<close>: \<open>%XX\<close> with an octet below \<open>80\<close> is that character; an octet
  with \<open>n\<close> leading 1 bits, \<open>n\<close> from two to four, starts a sequence of \<open>n\<close> escaped octets
  that has to be well-formed UTF-8; everything else after \<open>%\<close> is a \<open>URIError\<close>.
\<close>

function decodeURIComponent :: "jsstring \<Rightarrow> exn + jsstring" where
  "decodeURIComponent [] = Inr []"
| "decodeURIComponent (c # cs) =
     (if c \<noteq> 37 then prepend [c] (decodeURIComponent cs)
      else
        (case read_octet (c # cs) of
           None \<Rightarrow> Inl uri_malformed
         | Some (b, rest) \<Rightarrow>
             (if b < 0x80 then prepend [of_nat b] (decodeURIComponent rest)
              else if utf8_length b = 1 \<or> 4 < utf8_length b then Inl uri_malformed
              else
                (case read_octets (utf8_length b - 1) rest of
                   None \<Rightarrow> Inl uri_malformed
                 | Some (bs, rest') \<Rightarrow>
                     (case utf8_decode (b # bs) of
                        None \<Rightarrow> Inl uri_malformed
                      | Some cp \<Rightarrow> prepend (utf16_encode cp) (decodeURIComponent rest'))))))"
  by pat_completeness auto
termination
proof (relation "measure length")
  show "wf (measure length)" by simp
next
  fix c :: "16 word" and cs :: jsstring
  show "(cs, c # cs) \<in> measure length" by simp
next
  fix c :: "16 word" and cs :: jsstring and x2 b rest
  assume "read_octet (c # cs) = Some x2" and "(b, rest) = x2"
  then have "length rest < length (c # cs)"
    using read_octet_shorter [of "c # cs" b rest] by simp
  then show "(rest, c # cs) \<in> measure length" by simp
next
  fix c :: "16 word" and cs :: jsstring and x2 b rest x2a bs rest' x2b
  assume "read_octet (c # cs) = Some x2" and "(b, rest) = x2"
    and "read_octets (utf8_length b - 1) rest = Some x2a" and "(bs, rest') = x2a"
  then have "length rest < length (c # cs)" and "length rest' \<le> length rest"
    using read_octet_shorter [of "c # cs" b rest]
      read_octets_shorter [of "utf8_length b - 1" rest bs rest'] by simp_all
  then show "(rest', c # cs) \<in> measure length" by simp
qed

subsection \<open>URLSearchParams\<close>

text \<open>
  A \<open>URLSearchParams\<close> object is its list of name-value pairs. Names and values are
  converted to scalar value strings on the way in (a surrogate without its partner becomes
  \<open>U+FFFD\<close>). \<open>set\<close> gives the first pair of the name the new value and removes the other
  pairs of that name, or appends a pair. \<open>toString\<close> is the
  \<open>application/x-www-form-urlencoded\<close> serializer: the UTF-8 octets of a name or a value
  stand for themselves when they are letters, digits or one of \<open>* - . _\<close>, a space becomes
  \<open>+\<close>, every other octet \<open>%XX\<close>; pairs are \<open>name=value\<close>, joined by \<open>&\<close>.
\<close>

fun code_points :: "jsstring \<Rightarrow> nat list" where
  "code_points [] = []"
| "code_points (c # cs) =
     (if is_lead c then
        (case cs of
           [] \<Rightarrow> [0xFFFD]
         | d # ds \<Rightarrow>
             (if is_trail d then pair_code_point c d # code_points ds
              else 0xFFFD # code_points cs))
      else if is_trail c then 0xFFFD # code_points cs
      else unat c # code_points cs)"

definition usv :: "jsstring \<Rightarrow> jsstring" where
  "usv s = concat (map utf16_encode (code_points s))"

definition form_octet :: "nat \<Rightarrow> jsstring" where
  "form_octet b =
     (if b = 32 then [43]
      else if b < 128 \<and> (is_alnum (of_nat b) \<or> b \<in> {42, 45, 46, 95}) then [of_nat b]
      else pct b)"

definition form_urlencode :: "jsstring \<Rightarrow> jsstring" where
  "form_urlencode s = concat (map form_octet (concat (map utf8_encode (code_points s))))"

type_synonym search_params = "(jsstring \<times> jsstring) list"

fun replace_first :: "jsstring \<Rightarrow> jsstring \<Rightarrow> search_params \<Rightarrow> search_params" where
  "replace_first n v [] = []"
| "replace_first n v ((k, w) # ps) =
     (if k = n then (k, v) # filter (\<lambda>kv. fst kv \<noteq> n) ps else (k, w) # replace_first n v ps)"

definition sp_set :: "jsstring \<Rightarrow> jsstring \<Rightarrow> search_params \<Rightarrow> search_params" where
  "sp_set name val ps =
     (if usv name \<in> fst ` set ps then replace_first (usv name) (usv val) ps
      else ps @ [(usv name, usv val)])"

fun join_amp :: "jsstring list \<Rightarrow> jsstring" where
  "join_amp [] = []"
| "join_amp [x] = x"
| "join_amp (x # y # zs) = x @ [38] @ join_amp (y # zs)"

definition sp_toString :: "search_params \<Rightarrow> jsstring" where
  "sp_toString ps =
     join_amp (map (\<lambda>kv. form_urlencode (fst kv) @ [61] @ form_urlencode (snd kv)) ps)"

section \<open>The client (\<open>FdxClient\<close>)\<close>

text \<open>
  The client holds an axios instance, its token, the active database and its settings. A
  call of the instance either resolves with a response or rejects with some value; which
  of the two, and with what, is up to the remote side, so it is a parameter of the model:
  a \<open>server\<close> answers a request, given the requests sent before it. The session is the
  client's fields together with the requests sent so far. What the code writes to the
  console (\<open>logVerbose\<close>, the response interceptor) is not part of the session.
\<close>

record request =
  http_method :: jsstring
  url :: jsstring
  body :: json
  config :: json

record response =
  resp_status :: int
  resp_data :: json

datatype outcome = Resolved response | Rejected json

type_synonym server = "request list \<Rightarrow> request \<Rightarrow> outcome"

record client =
  apiToken :: jsstring
  dbId :: "jsstring option"
  baseUrl :: jsstring
  timeout :: nat
  verbose :: bool

record session =
  cl :: client
  sent :: "request list"

text \<open>\<open>ServiceResponse\<close>: an absent field is \<open>undefined\<close>.\<close>

record envelope =
  success :: bool
  data :: json
  error :: json
  status :: json

type_synonym 'a prog = "session \<Rightarrow> (exn + 'a) \<times> session"

definition with_str :: "json \<Rightarrow> (jsstring \<Rightarrow> 'a prog) \<Rightarrow> 'a prog" where
  \<comment> \<open>a template literal that interpolates \<open>v\<close>\<close>
  "with_str v f s = (case to_string v of Inl e \<Rightarrow> (Inl e, s) | Inr t \<Rightarrow> f t s)"

record fdx_config =
  cfg_apiToken :: jsstring
  cfg_dbId :: "jsstring option"
  cfg_baseUrl :: "jsstring option"
  cfg_timeout :: "nat option"
  cfg_verbose :: "bool option"

definition new_FdxClient :: "fdx_config option \<Rightarrow> jsstring + client" where
  \<comment> \<open>the constructor; \<open>Inl\<close> is the message of the \<open>Error\<close> it throws\<close>
  "new_FdxClient cfg =
     (case cfg of
        None \<Rightarrow> Inl (js ''Config is required'')
      | Some c \<Rightarrow>
          (if cfg_apiToken c = [] then Inl (js ''API key is required'')
           else Inr \<lparr>apiToken = cfg_apiToken c, dbId = cfg_dbId c,
                     baseUrl = (case cfg_baseUrl c of
                                  None \<Rightarrow> js ''https://meta.feedonomics.com/api.php''
                                | Some b \<Rightarrow> if b = [] then js ''https://meta.feedonomics.com/api.php'' else b),
                     timeout = (case cfg_timeout c of None \<Rightarrow> 60000
                                | Some t \<Rightarrow> if t = 0 then 60000 else t),
                     verbose = (case cfg_verbose c of None \<Rightarrow> False | Some v \<Rightarrow> v)\<rparr>))"

definition processResponse :: "response \<Rightarrow> envelope" where
  "processResponse r =
     (if 200 \<le> resp_status r \<and> resp_status r < 300
      then \<lparr>success = True, data = resp_data r, error = JUndefined,
            status = JNum (resp_status r)\<rparr>
      else \<lparr>success = False, data = JUndefined,
            error = js_or (opt_prop (resp_data r) ''message'') (JStr (js ''Unknown error'')),
            status = JNum (resp_status r)\<rparr>)"

definition request :: "server \<Rightarrow> jsstring \<Rightarrow> jsstring \<Rightarrow> json \<Rightarrow> json \<Rightarrow> envelope prog" where
  "request srv m u d cfg s =
     (let req = \<lparr>http_method = m, url = u, body = d, config = cfg\<rparr>;
          s' = s\<lparr>sent := sent s @ [req]\<rparr>
      in case srv (sent s) req of
           Resolved r \<Rightarrow> (Inr (processResponse r), s')
         | Rejected err \<Rightarrow>
             (case get_prop err ''response'' of
                Inl e \<Rightarrow> (Inl e, s')
              | Inr resp \<Rightarrow>
                  (if truthy resp
                   then (Inr \<lparr>success = False, data = JUndefined,
                               error = js_or (opt_prop (getp resp ''data'') ''message'')
                                         (JStr (js ''API error'')),
                               status = getp resp ''status''\<rparr>, s')
                   else (Inr \<lparr>success = False, data = JUndefined,
                               error = js_or (getp err ''message'') (JStr (js ''Network error'')),
                               status = JUndefined\<rparr>, s'))))"

definition db_required :: envelope where
  "db_required =
     \<lparr>success = False, data = JUndefined,
      error = JStr (js ''Database ID is required. Please set it using setDbId() first.''),
      status = JUndefined\<rparr>"

definition no_dbId :: "session \<Rightarrow> bool" where
  \<comment> \<open>\<open>!this.dbId\<close>\<close>
  "no_dbId s = (case dbId (cl s) of None \<Rightarrow> True | Some d \<Rightarrow> d = [])"

definition dbs_path :: "session \<Rightarrow> jsstring" where
  \<comment> \<open>\<open>/dbs/${this.dbId}\<close>\<close>
  "dbs_path s = js ''/dbs/'' @ (case dbId (cl s) of None \<Rightarrow> js ''undefined'' | Some d \<Rightarrow> d)"

definition setDbId :: "jsstring \<Rightarrow> session \<Rightarrow> session" where
  "setDbId d s = s\<lparr>cl := (cl s)\<lparr>dbId := Some d\<rparr>\<rparr>"

definition getDbId :: "session \<Rightarrow> jsstring option" where
  "getDbId s = dbId (cl s)"

subsection \<open>Users and builds\<close>

definition invitePrimaryUser :: "server \<Rightarrow> json \<Rightarrow> jsstring \<Rightarrow> envelope prog" where
  "invitePrimaryUser srv accountId email =
     with_str accountId (\<lambda>a.
       request srv (js ''POST'') (js ''/accounts/'' @ a @ js ''/user_account_permissions'')
         (JObj [(js ''permissions'', JStr (js ''primary'')), (js ''username'', JStr email)])
         JUndefined)"

definition applyAutomateBuildTemplate :: "server \<Rightarrow> json \<Rightarrow> jsstring \<Rightarrow> envelope prog" where
  "applyAutomateBuildTemplate srv importId templateName s =
     (if no_dbId s then (Inr db_required, s)
      else request srv (js ''POST'') (dbs_path s @ js ''/apply_automate_build_template'')
             (JObj [(js ''import_id'', importId), (js ''template_name'', JStr templateName)])
             JUndefined s)"

definition feedBuild :: "server \<Rightarrow> json \<Rightarrow> envelope prog" where
  "feedBuild srv buildId s =
     (if no_dbId s then (Inr db_required, s)
      else with_str buildId (\<lambda>b.
             request srv (js ''GET'') (dbs_path s @ js ''/builds/'' @ b) JUndefined JUndefined) s)"

definition cancelBuild :: "server \<Rightarrow> json \<Rightarrow> envelope prog" where
  "cancelBuild srv buildId s =
     (if no_dbId s then (Inr db_required, s)
      else with_str buildId (\<lambda>b.
             request srv (js ''POST'') (dbs_path s @ js ''/builds/'' @ b @ js ''/cancel'')
               JUndefined JUndefined) s)"

subsection \<open>Accounts, databases, vault\<close>

definition accounts :: "server \<Rightarrow> envelope prog" where
  "accounts srv = request srv (js ''GET'') (js ''/user/accounts'') JUndefined JUndefined"

definition dbs :: "server \<Rightarrow> json \<Rightarrow> envelope prog" where
  "dbs srv accountId =
     with_str accountId (\<lambda>a.
       request srv (js ''GET'') (js ''/accounts/'' @ a @ js ''/dbs'') JUndefined JUndefined)"

definition createDb :: "server \<Rightarrow> json \<Rightarrow> jsstring \<Rightarrow> envelope prog" where
  "createDb srv accountId dbName =
     with_str accountId (\<lambda>a.
       request srv (js ''POST'') (js ''/accounts/'' @ a @ js ''/dbs'')
         (JObj [(js ''name'', JStr dbName)]) JUndefined)"

definition deleteDb :: "server \<Rightarrow> json \<Rightarrow> envelope prog" where
  "deleteDb srv d =
     with_str d (\<lambda>a. request srv (js ''DELETE'') (js ''/dbs/'' @ a) JUndefined JUndefined)"

definition vault :: "server \<Rightarrow> envelope prog" where
  "vault srv = request srv (js ''GET'') (js ''/vault'') JUndefined JUndefined"

definition createVault :: "server \<Rightarrow> json \<Rightarrow> envelope prog" where
  "createVault srv entry = request srv (js ''POST'') (js ''/vault'') entry JUndefined"

definition updateVault :: "server \<Rightarrow> json \<Rightarrow> json \<Rightarrow> envelope prog" where
  "updateVault srv i entry =
     with_str i (\<lambda>a. request srv (js ''PUT'') (js ''/vault/'' @ a) entry JUndefined)"

definition deleteVault :: "server \<Rightarrow> json \<Rightarrow> envelope prog" where
  "deleteVault srv i =
     with_str i (\<lambda>a. request srv (js ''DELETE'') (js ''/vault/'' @ a) JUndefined JUndefined)"

subsection \<open>FTP, imports, exports, transformers, fields, join imports\<close>

definition ftpAccounts :: "server \<Rightarrow> envelope prog" where
  "ftpAccounts srv s =
     (if no_dbId s then (Inr db_required, s)
      else request srv (js ''GET'') (dbs_path s @ js ''/ftp'') JUndefined JUndefined s)"

definition createFtpAccounts :: "server \<Rightarrow> json \<Rightarrow> envelope prog" where
  "createFtpAccounts srv d s =
     (if no_dbId s then (Inr db_required, s)
      else request srv (js ''POST'') (dbs_path s @ js ''/ftp'') d JUndefined s)"

definition imports_fdx :: "server \<Rightarrow> envelope prog" where
  "imports_fdx srv s =
     (if no_dbId s then (Inr db_required, s)
      else request srv (js ''GET'') (dbs_path s @ js ''/imports'') JUndefined JUndefined s)"

definition createImport :: "server \<Rightarrow> json \<Rightarrow> envelope prog" where
  "createImport srv importConfig s =
     (if no_dbId s then (Inr db_required, s)
      else request srv (js ''POST'') (dbs_path s @ js ''/imports'') importConfig JUndefined s)"

definition updateImport :: "server \<Rightarrow> json \<Rightarrow> json \<Rightarrow> envelope prog" where
  "updateImport srv importId importConfig s =
     (if no_dbId s then (Inr db_required, s)
      else with_str importId (\<lambda>i.
             request srv (js ''PUT'') (dbs_path s @ js ''/imports/'' @ i) importConfig
               JUndefined) s)"

definition updateImportSchedule :: "server \<Rightarrow> json \<Rightarrow> json \<Rightarrow> envelope prog" where
  "updateImportSchedule srv importId schedule s =
     (if no_dbId s then (Inr db_required, s)
      else with_str importId (\<lambda>i.
             request srv (js ''PUT'') (dbs_path s @ js ''/imports/'' @ i @ js ''/schedule'')
               schedule JUndefined) s)"

definition exports :: "server \<Rightarrow> envelope prog" where
  "exports srv s =
     (if no_dbId s then (Inr db_required, s)
      else request srv (js ''GET'') (dbs_path s @ js ''/exports'') JUndefined JUndefined s)"

definition createExport :: "server \<Rightarrow> json \<Rightarrow> envelope prog" where
  "createExport srv exportConfig s =
     (if no_dbId s then (Inr db_required, s)
      else request srv (js ''POST'') (dbs_path s @ js ''/exports'') exportConfig JUndefined s)"

definition updateExport :: "server \<Rightarrow> json \<Rightarrow> json \<Rightarrow> envelope prog" where
  "updateExport srv exportId exportConfig s =
     (if no_dbId s then (Inr db_required, s)
      else with_str exportId (\<lambda>i.
             request srv (js ''PUT'') (dbs_path s @ js ''/exports/'' @ i) exportConfig
               JUndefined) s)"

definition scheduleExport :: "server \<Rightarrow> json \<Rightarrow> json \<Rightarrow> envelope prog" where
  "scheduleExport srv exportId schedule s =
     (if no_dbId s then (Inr db_required, s)
      else with_str exportId (\<lambda>i.
             request srv (js ''POST'') (dbs_path s @ js ''/exports/'' @ i @ js ''/schedule'')
               schedule JUndefined) s)"

definition transformers :: "server \<Rightarrow> envelope prog" where
  "transformers srv s =
     (if no_dbId s then (Inr db_required, s)
      else request srv (js ''GET'') (dbs_path s @ js ''/transformers'') JUndefined JUndefined s)"

definition createTransformer :: "server \<Rightarrow> json \<Rightarrow> envelope prog" where
  "createTransformer srv transformer s =
     (if no_dbId s then (Inr db_required, s)
      else request srv (js ''POST'') (dbs_path s @ js ''/transformers'') transformer
             JUndefined s)"

definition updateTransformer :: "server \<Rightarrow> json \<Rightarrow> json \<Rightarrow> envelope prog" where
  "updateTransformer srv transformerId transformer s =
     (if no_dbId s then (Inr db_required, s)
      else with_str transformerId (\<lambda>i.
             request srv (js ''PUT'') (dbs_path s @ js ''/transformers/'' @ i) transformer
               JUndefined) s)"

definition updateDbFields :: "server \<Rightarrow> json \<Rightarrow> envelope prog" where
  "updateDbFields srv d s =
     (if no_dbId s then (Inr db_required, s)
      else request srv (js ''PUT'') (dbs_path s @ js ''/fields'') d JUndefined s)"

definition createJoinImport :: "server \<Rightarrow> json \<Rightarrow> envelope prog" where
  "createJoinImport srv joinImportConfig s =
     (if no_dbId s then (Inr db_required, s)
      else request srv (js ''POST'') (dbs_path s @ js ''/join_imports'') joinImportConfig
             JUndefined s)"

definition joinImports :: "server \<Rightarrow> envelope prog" where
  "joinImports srv s =
     (if no_dbId s then (Inr db_required, s)
      else request srv (js ''GET'') (dbs_path s @ js ''/join_imports'') JUndefined JUndefined s)"

subsection \<open>Groups, login, account creation\<close>

definition groups :: "server \<Rightarrow> json \<Rightarrow> envelope prog" where
  "groups srv accountId =
     with_str accountId (\<lambda>a.
       request srv (js ''GET'') (js ''/accounts/'' @ a @ js ''/groups'') JUndefined JUndefined)"

definition createGroup :: "server \<Rightarrow> jsstring \<Rightarrow> envelope prog" where
  "createGroup srv groupName =
     request srv (js ''POST'') (js ''/groups'') (JObj [(js ''name'', JStr groupName)]) JUndefined"

definition moveDbToGroup :: "server \<Rightarrow> json \<Rightarrow> envelope prog" where
  \<comment> \<open>the payload is an object, so \<open>payload.group_id\<close> does not throw\<close>
  "moveDbToGroup srv payload =
     with_str (getp payload ''group_id'') (\<lambda>g.
       request srv (js ''POST'') (js ''/groups/'' @ g @ js ''/dbs'') payload JUndefined)"

definition login :: "server \<Rightarrow> jsstring \<Rightarrow> jsstring \<Rightarrow> jsstring \<Rightarrow> envelope prog" where
  "login srv username password name =
     request srv (js ''POST'') (js ''/login'')
       (JObj [(js ''username'', JStr username), (js ''password'', JStr password),
              (js ''method'', JStr (js ''token'')), (js ''name'', JStr name)])
       JUndefined"

definition createBigCommerceAccount :: "server \<Rightarrow> jsstring \<Rightarrow> envelope prog" where
  "createBigCommerceAccount srv name =
     request srv (js ''POST'') (js ''/bigcommerce/account'') (JObj [(js ''name'', JStr name)])
       JUndefined"

definition moveDbintoNewDbGroup :: "server \<Rightarrow> json \<Rightarrow> jsstring \<Rightarrow> envelope prog" where
  "moveDbintoNewDbGroup srv d targetGroupName =
     with_str d (\<lambda>a.
       request srv (js ''POST'') (js ''/dbs/'' @ a @ js ''/move_db_to_db_group'')
         (JObj [(js ''source_db_group_id'', JNum 0), (js ''target_db_group_id'', JNum (- 1)),
                (js ''target_db_group_name'', JStr targetGroupName)])
         JUndefined)"

definition moveDbFromSourceToTargetDbGroup ::
  "server \<Rightarrow> json \<Rightarrow> int \<Rightarrow> int \<Rightarrow> jsstring \<Rightarrow> envelope prog" where
  "moveDbFromSourceToTargetDbGroup srv d sourceGroupId targetGroupId targetGroupName =
     with_str d (\<lambda>a.
       request srv (js ''POST'') (js ''/dbs/'' @ a @ js ''/move_db_to_db_group'')
         (JObj [(js ''source_db_group_id'', JNum sourceGroupId),
                (js ''target_db_group_id'', JNum targetGroupId),
                (js ''target_db_group_name'', JStr targetGroupName)])
         JUndefined)"

definition addDbVaultEntry :: "server \<Rightarrow> json \<Rightarrow> json \<Rightarrow> envelope prog" where
  "addDbVaultEntry srv d entry =
     with_str d (\<lambda>a. request srv (js ''POST'') (js ''/dbs/'' @ a @ js ''/vault'') entry JUndefined)"

definition dbFields :: "server \<Rightarrow> json \<Rightarrow> envelope prog" where
  "dbFields srv d =
     with_str d (\<lambda>a.
       request srv (js ''GET'') (js ''/dbs/'' @ a @ js ''/fields'') JUndefined JUndefined)"

definition deleteDbField :: "server \<Rightarrow> json \<Rightarrow> json \<Rightarrow> envelope prog" where
  "deleteDbField srv d fieldId =
     with_str d (\<lambda>a. with_str fieldId (\<lambda>f.
       request srv (js ''DELETE'') (js ''/dbs/'' @ a @ js ''/fields/'' @ f) JUndefined
         JUndefined))"

subsection \<open>The preprocessor URL\<close>

definition and_then :: "exn + 'a \<Rightarrow> ('a \<Rightarrow> exn + 'b) \<Rightarrow> exn + 'b" where
  "and_then r f = (case r of Inl e \<Rightarrow> Inl e | Inr x \<Rightarrow> f x)"

definition double_encode :: "json \<Rightarrow> exn + jsstring" where
  \<comment> \<open>\<open>encodeURIComponent(encodeURIComponent(String(value)))\<close>\<close>
  "double_encode v =
     and_then (to_string v) (\<lambda>s. and_then (encodeURIComponent s) encodeURIComponent)"

definition addParam :: "string \<Rightarrow> jsstring \<Rightarrow> json \<Rightarrow> search_params \<Rightarrow> exn + search_params" where
  "addParam prefix key v sp =
     (if nullish v then Inr sp
      else and_then (double_encode v) (\<lambda>encodedValue.
             Inr (sp_set (js prefix @ js ''['' @ key @ js '']'') encodedValue sp)))"

definition addNestedParam ::
  "string \<Rightarrow> jsstring \<Rightarrow> jsstring \<Rightarrow> json \<Rightarrow> search_params \<Rightarrow> exn + search_params" where
  "addNestedParam prefix key subKey v sp =
     (if nullish v then Inr sp
      else and_then (double_encode v) (\<lambda>encodedValue.
             Inr (sp_set (js prefix @ js ''['' @ key @ js '']['' @ subKey @ js '']'')
                    encodedValue sp)))"

fun entries :: "json \<Rightarrow> (jsstring \<times> json) list" where
  \<comment> \<open>\<open>Object.entries\<close> of an object or an array\<close>
  "entries (JObj kvs) = kvs"
| "entries (JArr xs) = zip (map show_nat [0..<length xs]) xs"
| "entries v = []"

fun is_object :: "json \<Rightarrow> bool" where
  \<comment> \<open>\<open>typeof value === 'object'\<close>, for a value that is not \<open>null\<close>\<close>
  "is_object (JObj kvs) = True"
| "is_object (JArr xs) = True"
| "is_object v = False"

fun add_nested :: "jsstring \<Rightarrow> (jsstring \<times> json) list \<Rightarrow> search_params \<Rightarrow> exn + search_params" where
  "add_nested key [] sp = Inr sp"
| "add_nested key ((subKey, subValue) # rest) sp =
     and_then (if nullish subValue then Inr sp
               else addNestedParam ''connection_info'' key subKey subValue sp)
       (add_nested key rest)"

fun add_connection_info :: "(jsstring \<times> json) list \<Rightarrow> search_params \<Rightarrow> exn + search_params" where
  "add_connection_info [] sp = Inr sp"
| "add_connection_info ((key, v) # rest) sp =
     and_then (if nullish v then Inr sp
               else if is_object v then add_nested key (entries v) sp
               else addParam ''connection_info'' key v sp)
       (add_connection_info rest)"

fun add_file_info :: "(jsstring \<times> json) list \<Rightarrow> search_params \<Rightarrow> exn + search_params" where
  "add_file_info [] sp = Inr sp"
| "add_file_info ((key, v) # rest) sp =
     and_then (if nullish v then Inr sp else addParam ''file_info'' key v sp)
       (add_file_info rest)"

definition preprocessor_base :: jsstring where
  "preprocessor_base = js ''https://preprocess.proxy.feedonomics.com/preprocess/run_preprocess.php''"

definition preprocessor_params ::
  "(jsstring \<times> json) list \<Rightarrow> (jsstring \<times> json) list option \<Rightarrow> exn + search_params" where
  \<comment> \<open>\<open>searchParams\<close> when the loops are through\<close>
  "preprocessor_params connection_info file_info =
     and_then (addParam ''connection_info'' (js ''client'') (JStr (js ''bigcommerce'')) [])
       (\<lambda>sp0.
     and_then (addParam ''connection_info'' (js ''protocol'') (JStr (js ''api'')) sp0)
       (\<lambda>sp1.
     and_then (add_connection_info connection_info sp1)
       (\<lambda>sp2.
     (case file_info of None \<Rightarrow> Inr sp2 | Some fi \<Rightarrow> add_file_info fi sp2))))"

definition generateBigCommercePreprocessorUrl ::
  "(jsstring \<times> json) list \<Rightarrow> (jsstring \<times> json) list option \<Rightarrow> exn + jsstring" where
  \<comment> \<open>the arguments are the entries of \<open>params.connection_info\<close> and of \<open>params.file_info\<close>\<close>
  "generateBigCommercePreprocessorUrl connection_info file_info =
     and_then (preprocessor_params connection_info file_info)
       (\<lambda>sp. Inr (preprocessor_base @ js ''?'' @ sp_toString sp))"

subsection \<open>Reading the query of a URL\<close>

text \<open>
  How a consumer reads a parameter back: \<open>new URLSearchParams(new URL(u).search).get(name)\<close>.
  The URL standard defines it: the query of \<open>u\<close> is what stands between the first \<open>?\<close> and
  the first \<open>#\<close>, with the code points of the query percent-encode set of a special scheme
  percent-encoded; the parser of \<open>application/x-www-form-urlencoded\<close> splits its octets at
  \<open>&\<close> and at the first \<open>=\<close>, turns \<open>+\<close> into a space, percent-decodes, and decodes UTF-8,
  an ill-formed sequence giving U+FFFD.
\<close>

definition utf8_bytes :: "jsstring \<Rightarrow> nat list" where
  "utf8_bytes s = concat (map utf8_encode (code_points s))"

definition utf8_start :: "nat \<times> nat \<times> nat \<times> nat \<times> nat" where
  \<comment> \<open>code point, octets seen, octets needed, lower and upper boundary\<close>
  "utf8_start = (0, 0, 0, 0x80, 0xBF)"

function utf8_decode_lossy :: "nat \<times> nat \<times> nat \<times> nat \<times> nat \<Rightarrow> nat list \<Rightarrow> nat list" where
  "utf8_decode_lossy (cp, seen, needed, lower, upper) [] = (if needed \<noteq> 0 then [0xFFFD] else [])"
| "utf8_decode_lossy (cp, seen, needed, lower, upper) (b # bs) =
     (if needed = 0 then
        (if b < 0x80 then b # utf8_decode_lossy utf8_start bs
         else if 0xC2 \<le> b \<and> b \<le> 0xDF
           then utf8_decode_lossy (b mod 32, 0, 1, 0x80, 0xBF) bs
         else if 0xE0 \<le> b \<and> b \<le> 0xEF
           then utf8_decode_lossy (b mod 16, 0, 2, if b = 0xE0 then 0xA0 else 0x80,
                  if b = 0xED then 0x9F else 0xBF) bs
         else if 0xF0 \<le> b \<and> b \<le> 0xF4
           then utf8_decode_lossy (b mod 8, 0, 3, if b = 0xF0 then 0x90 else 0x80,
                  if b = 0xF4 then 0x8F else 0xBF) bs
         else 0xFFFD # utf8_decode_lossy utf8_start bs)
      else if b < lower \<or> upper < b then 0xFFFD # utf8_decode_lossy utf8_start (b # bs)
      else if Suc seen = needed then (cp * 64 + b mod 64) # utf8_decode_lossy utf8_start bs
      else utf8_decode_lossy (cp * 64 + b mod 64, Suc seen, needed, 0x80, 0xBF) bs)"
  by pat_completeness auto
termination
  by (relation "measure (\<lambda>(st, bs). 2 * length bs + (if fst (snd (snd st)) = 0 then 0 else 1))")
    (auto simp: utf8_start_def)

fun percent_decode :: "nat list \<Rightarrow> nat list" where
  "percent_decode (p # h # l # bs) =
     (case (if p = 37 then hex_value (of_nat h) else None, hex_value (of_nat l)) of
        (Some a, Some b) \<Rightarrow> (16 * a + b) # percent_decode bs
      | _ \<Rightarrow> p # percent_decode (h # l # bs))"
| "percent_decode (p # bs) = p # percent_decode bs"
| "percent_decode [] = []"

fun split_at :: "nat \<Rightarrow> nat list \<Rightarrow> nat list list" where
  \<comment> \<open>the pieces between the octets \<open>x\<close>\<close>
  "split_at x [] = [[]]"
| "split_at x (b # bs) =
     (if b = x then [] # split_at x bs
      else (b # hd (split_at x bs)) # tl (split_at x bs))"

definition plus_to_space :: "nat \<Rightarrow> nat" where
  "plus_to_space b = (if b = 43 then 32 else b)"

definition decode_component :: "nat list \<Rightarrow> jsstring" where
  "decode_component bs =
     concat (map utf16_encode
       (utf8_decode_lossy utf8_start (percent_decode (map plus_to_space bs))))"

definition parse_pair :: "nat list \<Rightarrow> jsstring \<times> jsstring" where
  "parse_pair bs =
     (decode_component (takeWhile (\<lambda>b. b \<noteq> 61) bs),
      decode_component (drop 1 (dropWhile (\<lambda>b. b \<noteq> 61) bs)))"

definition urlencoded_parse :: "nat list \<Rightarrow> search_params" where
  "urlencoded_parse bs = map parse_pair (filter (\<lambda>p. p \<noteq> []) (split_at 38 bs))"

definition new_URLSearchParams :: "jsstring \<Rightarrow> search_params" where
  \<comment> \<open>\<open>new URLSearchParams(init)\<close> for a string\<close>
  "new_URLSearchParams init =
     urlencoded_parse (utf8_bytes (case usv init of [] \<Rightarrow> [] | c # cs \<Rightarrow> if c = 63 then cs else c # cs))"

definition sp_get :: "jsstring \<Rightarrow> search_params \<Rightarrow> jsstring option" where
  \<comment> \<open>\<open>get(name)\<close>, \<open>None\<close> being \<open>null\<close>\<close>
  "sp_get name ps = map_of ps (usv name)"

definition in_query_set :: "nat \<Rightarrow> bool" where
  \<comment> \<open>the special-query percent-encode set: C0 controls, space, \<open>" # < > '\<close>, and all above \<open>~\<close>\<close>
  "in_query_set cp = (cp \<le> 0x20 \<or> 0x7E < cp \<or> cp \<in> {0x22, 0x23, 0x3C, 0x3E, 0x27})"

definition query_encode :: "jsstring \<Rightarrow> jsstring" where
  "query_encode q =
     concat (map (\<lambda>cp. if in_query_set cp then pct_utf8 cp else utf16_encode cp) (code_points q))"

definition trim_c0 :: "jsstring \<Rightarrow> jsstring" where
  \<comment> \<open>without the leading and trailing C0 controls and spaces\<close>
  "trim_c0 s = rev (dropWhile (\<lambda>c. c \<le> 0x20) (rev (dropWhile (\<lambda>c. c \<le> 0x20) s)))"

definition url_search :: "jsstring \<Rightarrow> jsstring" where
  \<comment> \<open>\<open>new URL(u).search\<close>, for a \<open>u\<close> whose scheme, host and path are those of an
      \<open>https\<close> URL; the URL parser first trims \<open>u\<close> and drops its tabs and newlines\<close>
  "url_search u =
     (let t = filter (\<lambda>c. c \<notin> {9, 10, 13}) (trim_c0 (usv u));
          q = dropWhile (\<lambda>c. c \<noteq> 63) (takeWhile (\<lambda>c. c \<noteq> 35) t)
      in if length q \<le> 1 then [] else 63 # query_encode (tl q))"

definition query_value :: "jsstring \<Rightarrow> jsstring \<Rightarrow> jsstring option" where
  "query_value u name = sp_get name (new_URLSearchParams (url_search u))"

definition scalar_value :: "nat \<Rightarrow> bool" where
  \<comment> \<open>a Unicode scalar value: a code point that is not a surrogate\<close>
  "scalar_value cp = (cp < 0x110000 \<and> \<not> (0xD800 \<le> cp \<and> cp < 0xE000))"

fun well_formed_utf16 :: "jsstring \<Rightarrow> bool" where
  \<comment> \<open>\<open>isWellFormed()\<close>: no surrogate without its partner\<close>
  "well_formed_utf16 [] = True"
| "well_formed_utf16 (c # cs) =
     (if is_lead c then (case cs of [] \<Rightarrow> False | d # ds \<Rightarrow> is_trail d \<and> well_formed_utf16 ds)
      else \<not> is_trail c \<and> well_formed_utf16 cs)"

definition form_safe :: "16 word \<Rightarrow> bool" where
  \<comment> \<open>the code units the serializer of \<open>application/x-www-form-urlencoded\<close> writes\<close>
  "form_safe c = (is_alnum c \<or> c \<in> {37, 42, 43, 45, 46, 95})"

section \<open>The service (\<open>FdxService\<close>)\<close>

text \<open>
  The service calls the client and nothing else. Three things it uses are neither its own
  nor the client's: \<open>JSON.stringify\<close>, the clock (the expiration date of a vault entry is
  one year from now) and the comparison \<open>x > 0\<close> on something that is no number. They
  are parameters of the model, together with the server.
\<close>

record platform =
  remote :: server
  stringify :: "json \<Rightarrow> jsstring"
  expiration :: jsstring
  string_gt0 :: "jsstring \<Rightarrow> bool"

definition await :: "'a prog \<Rightarrow> ('a \<Rightarrow> 'b prog) \<Rightarrow> 'b prog" where
  \<comment> \<open>\<open>const x = await m; ...\<close>: what \<open>m\<close> throws is thrown on\<close>
  "await m f s = (case m s of (Inl e, s') \<Rightarrow> (Inl e, s') | (Inr x, s') \<Rightarrow> f x s')"

definition ret :: "'a \<Rightarrow> 'a prog" where
  "ret x s = (Inr x, s)"

definition compute :: "exn + 'a \<Rightarrow> 'a prog" where
  \<comment> \<open>an expression that sends nothing and may throw\<close>
  "compute r s = (r, s)"

definition succeeded :: "json \<Rightarrow> envelope" where
  \<comment> \<open>\<open>{success: true, data: d}\<close>\<close>
  "succeeded d = \<lparr>success = True, data = d, error = JUndefined, status = JUndefined\<rparr>"

definition failure :: "jsstring \<Rightarrow> envelope" where
  \<comment> \<open>\<open>{success: false, error: m}\<close>\<close>
  "failure m = \<lparr>success = False, data = JUndefined, error = JStr m, status = JUndefined\<rparr>"

definition failed :: "string \<Rightarrow> json \<Rightarrow> envelope prog" where
  \<comment> \<open>\<open>return {success: false, error: `label${err}`}\<close>\<close>
  "failed label err = await (compute (to_string err)) (\<lambda>m. ret (failure (js label @ m)))"

definition MAIN_IMPORT_NAME :: string where
  "MAIN_IMPORT_NAME = ''BigCommerceImport''"

definition JOIN_IMPORT_NAME :: string where
  "JOIN_IMPORT_NAME = ''Extra Google Fields''"

definition EXPORT_NAME :: string where
  "EXPORT_NAME = ''Export Google''"

definition ACCOUNT_PREFIX :: string where
  "ACCOUNT_PREFIX = ''BC-''"

definition not_a_function :: "string \<Rightarrow> exn" where
  "not_a_function what = TypeError (js what @ js '' is not a function'')"

fun lookup :: "(jsstring \<times> json) list \<Rightarrow> jsstring \<Rightarrow> json" where
  "lookup [] k = JUndefined"
| "lookup ((k', v) # kvs) k = (if k' = k then v else lookup kvs k)"

fun obj_set :: "(jsstring \<times> json) list \<Rightarrow> jsstring \<Rightarrow> json \<Rightarrow> (jsstring \<times> json) list" where
  \<comment> \<open>\<open>acc[k] = v\<close> on a plain object, for keys other than \<open>__proto__\<close> (which sets the
      prototype) and the integer-like keys (which JavaScript lists first): those two are
      taken as any other key here\<close>
  "obj_set [] k v = [(k, v)]"
| "obj_set ((k', w) # kvs) k v = (if k' = k then (k', v) # kvs else (k', w) # obj_set kvs k v)"

fun find_named :: "string \<Rightarrow> json list \<Rightarrow> exn + json" where
  \<comment> \<open>\<open>xs.find(x => x.name === nm)\<close>\<close>
  "find_named nm [] = Inr JUndefined"
| "find_named nm (x # xs) =
     and_then (get_prop x ''name'')
       (\<lambda>n. if n = JStr (js nm) then Inr x else find_named nm xs)"

definition opt_find_named :: "string \<Rightarrow> string \<Rightarrow> json \<Rightarrow> exn + json" where
  \<comment> \<open>\<open>d?.find(x => x.name === nm)\<close>, \<open>what\<close> being the text of \<open>d?.find\<close>\<close>
  "opt_find_named what nm d =
     (if nullish d then Inr JUndefined
      else (case d of JArr xs \<Rightarrow> find_named nm xs | _ \<Rightarrow> Inl (not_a_function what)))"

subsection \<open>Accounts\<close>

fun by_name :: "(jsstring \<times> json) list \<Rightarrow> json list \<Rightarrow> exn + (jsstring \<times> json) list" where
  \<comment> \<open>the \<open>reduce\<close> of \<open>retrieveAccounts\<close>\<close>
  "by_name acc [] = Inr acc"
| "by_name acc (account # rest) =
     and_then (get_prop account ''account_name'')
       (\<lambda>n. and_then (to_string n) (\<lambda>k. by_name (obj_set acc k account) rest))"

definition accounts_by_name :: "json \<Rightarrow> exn + json" where
  \<comment> \<open>\<open>result.data?.reduce(...) || {}\<close>\<close>
  "accounts_by_name d =
     (if nullish d then Inr (JObj [])
      else (case d of
              JArr xs \<Rightarrow> and_then (by_name [] xs) (\<lambda>acc. Inr (JObj acc))
            | _ \<Rightarrow> Inl (not_a_function ''result.data?.reduce'')))"

definition retrieveAccounts :: "platform \<Rightarrow> envelope prog" where
  "retrieveAccounts pf =
     await (accounts (remote pf)) (\<lambda>result.
       if \<not> success result then failed ''Error getting accounts: '' (error result)
       else await (compute (accounts_by_name (data result))) (\<lambda>accs. ret (succeeded accs)))"

definition createAccount :: "platform \<Rightarrow> jsstring \<Rightarrow> envelope prog" where
  "createAccount pf accountName =
     await (createBigCommerceAccount (remote pf) accountName) (\<lambda>result.
       if \<not> success result then failed ''Error creating account: '' (error result)
       else ret (succeeded (data result)))"

definition getAccountName :: "json \<Rightarrow> exn + jsstring" where
  "getAccountName storeId = and_then (to_string storeId) (\<lambda>i. Inr (js ACCOUNT_PREFIX @ i))"

definition getOrCreateAccount :: "platform \<Rightarrow> json \<Rightarrow> envelope prog" where
  "getOrCreateAccount pf storeId =
     await (compute (getAccountName storeId)) (\<lambda>accountName.
     await (retrieveAccounts pf) (\<lambda>accountsResult.
       if \<not> success accountsResult then ret accountsResult
       else
         (let account = (case data accountsResult of JObj kvs \<Rightarrow> lookup kvs accountName
                         | _ \<Rightarrow> JUndefined)
          in if truthy account then ret (succeeded account)
             else createAccount pf accountName)))"

subsection \<open>Groups\<close>

definition starts_with_prefix :: "json \<Rightarrow> exn + bool" where
  \<comment> \<open>\<open>group.name.startsWith(FdxService.ACCOUNT_PREFIX)\<close>\<close>
  "starts_with_prefix g =
     and_then (get_prop g ''name'')
       (\<lambda>n. case n of
              JStr s \<Rightarrow> Inr (take (length ACCOUNT_PREFIX) s = js ACCOUNT_PREFIX)
            | _ \<Rightarrow> if nullish n then Inl (read_of_nullish n ''startsWith'')
                   else Inl (not_a_function ''group.name.startsWith''))"

fun find_prefixed :: "json list \<Rightarrow> exn + json" where
  "find_prefixed [] = Inr JUndefined"
| "find_prefixed (g # gs) =
     and_then (starts_with_prefix g) (\<lambda>b. if b then Inr g else find_prefixed gs)"

definition findGroup :: "platform \<Rightarrow> json \<Rightarrow> envelope prog" where
  "findGroup pf accountId =
     await (groups (remote pf) accountId) (\<lambda>result.
       if \<not> success result then failed ''Error getting db groups: '' (error result)
       else await (compute
               (if nullish (data result) then Inr JUndefined
                else (case data result of
                        JArr gs \<Rightarrow> find_prefixed gs
                      | _ \<Rightarrow> Inl (not_a_function ''result.data?.find''))))
             (\<lambda>accountName. ret (succeeded accountName)))"

definition service_moveDbToGroup :: "platform \<Rightarrow> json \<Rightarrow> jsstring \<Rightarrow> envelope prog" where
  "service_moveDbToGroup pf accountId accountName =
     await (findGroup pf accountId) (\<lambda>existingGroupResult.
       if \<not> success existingGroupResult then ret existingGroupResult
       else
         await (if truthy (data existingGroupResult)
                then moveDbToGroup (remote pf)
                       (JObj [(js ''db_id'', JNum 0),
                              (js ''group_id'', getp (data existingGroupResult) ''id''),
                              (js ''group_name'', JStr accountName)])
                else createGroup (remote pf) accountName)
           (\<lambda>result.
              if \<not> success result then failed ''Error moving db to group: '' (error result)
              else ret (succeeded (data result))))"

subsection \<open>Vault entries\<close>

definition deleteOldEntry :: "platform \<Rightarrow> json \<Rightarrow> envelope option prog" where
  "deleteOldEntry pf ents =
     await (compute (opt_find_named ''entries.find'' ''BigCommerce Credentials'' ents))
       (\<lambda>oldEntry.
          if \<not> truthy oldEntry then ret None
          else await (deleteVault (remote pf) (getp oldEntry ''id'')) (\<lambda>result.
                 if \<not> success result
                 then await (failed ''Error deleting vault: '' (error result)) (\<lambda>e. ret (Some e))
                 else ret (Some (succeeded (data result)))))"

definition createOrUpdateVaultEntry :: "platform \<Rightarrow> json \<Rightarrow> jsstring \<Rightarrow> envelope prog" where
  "createOrUpdateVaultEntry pf ents accessToken =
     await (compute (opt_find_named ''entries.find'' ''bc_credentials'' ents)) (\<lambda>entry.
       let entryPayload =
             JObj [(js ''name'', JStr (js ''bc_credentials'')),
                   (js ''expiration'', JStr (expiration pf)),
                   (js ''credentials_type'', JStr (js ''none'')),
                   (js ''credentials'',
                    JStr (stringify pf (JObj [(js ''access_token'', JStr accessToken)])))]
       in await (if truthy entry then updateVault (remote pf) (getp entry ''id'') entryPayload
                 else createVault (remote pf) entryPayload)
            (\<lambda>result.
               if \<not> success result
               then failed ''Error creating vault: ''
                      (js_or (error result) (JStr (js ''Unknown error'')))
               else ret (succeeded (data result))))"

definition updateVaultEntries :: "platform \<Rightarrow> jsstring \<Rightarrow> envelope prog" where
  "updateVaultEntries pf accessToken =
     await (vault (remote pf)) (\<lambda>vaultResult.
       if \<not> success vaultResult then failed ''Error getting vaults: '' (error vaultResult)
       else
         (let ents = js_or (opt_prop (opt_prop (data vaultResult) ''data'') ''vault_rows'')
                       (JArr [])
          in await (deleteOldEntry pf ents) (\<lambda>deleteResult.
               case deleteResult of
                 None \<Rightarrow> createOrUpdateVaultEntry pf ents accessToken
               | Some r \<Rightarrow>
                   if \<not> success r then ret r
                   else createOrUpdateVaultEntry pf ents accessToken)))"

subsection \<open>FTP credentials and databases\<close>

definition length_gt0 :: "platform \<Rightarrow> json \<Rightarrow> exn + bool" where
  \<comment> \<open>\<open>d.length > 0\<close> for a truthy \<open>d\<close>\<close>
  "length_gt0 pf d =
     (case d of
        JArr xs \<Rightarrow> Inr (xs \<noteq> [])
      | JStr s \<Rightarrow> Inr (s \<noteq> [])
      | JObj kvs \<Rightarrow>
          (case own kvs ''length'' of
             JNum n \<Rightarrow> Inr (0 < n)
           | JBool b \<Rightarrow> Inr b
           | JStr s \<Rightarrow> Inr (string_gt0 pf s)
           | JUndefined \<Rightarrow> Inr False
           | JNull \<Rightarrow> Inr False
           | v \<Rightarrow> and_then (to_string v) (\<lambda>s. Inr (string_gt0 pf s)))
      | _ \<Rightarrow> Inr False)"

definition getFtpCredentials :: "platform \<Rightarrow> envelope prog" where
  "getFtpCredentials pf =
     await (ftpAccounts (remote pf)) (\<lambda>ftpResponse.
       if \<not> success ftpResponse then failed ''Error getting credentials: '' (error ftpResponse)
       else
         await (compute (if truthy (data ftpResponse) then length_gt0 pf (data ftpResponse)
                         else Inr False))
           (\<lambda>has.
              if has then ret (succeeded (data ftpResponse))
              else await (createFtpAccounts (remote pf) (JObj [])) (\<lambda>createFtpResponse.
                     if \<not> success createFtpResponse
                     then failed ''Error creating FTP credentials: '' (error createFtpResponse)
                     else ret (succeeded (data createFtpResponse)))))"

definition service_deleteDb :: "platform \<Rightarrow> json \<Rightarrow> envelope prog" where
  "service_deleteDb pf d =
     await (deleteDb (remote pf) d) (\<lambda>result.
       if \<not> success result then failed ''Error deleting db: '' (error result)
       else ret (succeeded (data result)))"

definition service_createDb :: "platform \<Rightarrow> json \<Rightarrow> jsstring \<Rightarrow> envelope prog" where
  "service_createDb pf accountId dbName =
     await (createDb (remote pf) accountId dbName) (\<lambda>result.
       if \<not> success result then failed ''Error creating db: '' (error result)
       else ret (succeeded (data result)))"

subsection \<open>Imports\<close>

record store_user =
  user_id :: json
  user_storeHash :: jsstring

definition retrieveImport :: "platform \<Rightarrow> envelope prog" where
  "retrieveImport pf =
     await (imports_fdx (remote pf)) (\<lambda>imports.
       if \<not> success imports then failed ''Error getting imports: '' (error imports)
       else await (compute (opt_find_named ''imports.data?.find'' MAIN_IMPORT_NAME (data imports)))
              (\<lambda>found. ret (succeeded (js_or found JNull))))"

definition buildConnectionInfo :: "store_user \<Rightarrow> json \<Rightarrow> string \<Rightarrow> (jsstring \<times> json) list" where
  "buildConnectionInfo user channelIds mode =
     [(js ''access_token'', JStr (js ''{{feedonomics::vault::bc_credentials::access_token}}'')),
      (js ''client_id'', user_id user),
      (js ''store_hash'', JStr (user_storeHash user)),
      (js ''store_url'',
       JStr (js ''https://store-'' @ user_storeHash user @ js ''.mybigcommerce.com'')),
      (js ''channel_ids'', channelIds),
      (js ''filters'', JObj [(js ''is_visible'', JNum 1)]),
      (js ''include'', JStr (js ''products'')),
      (js ''additional_parent_fields'', JStr (js ''price,sale_price'')),
      (js ''additional_variant_fields'', JStr (js ''price,sale_price'')),
      (js ''pull_sample'', JNum (if mode = ''create'' then 1 else 0))]"

definition buildImportUrl :: "store_user \<Rightarrow> json \<Rightarrow> string \<Rightarrow> exn + jsstring" where
  "buildImportUrl user channelId mode =
     generateBigCommercePreprocessorUrl (buildConnectionInfo user (JArr [channelId]) mode)
       (Some [(js ''request_type'', JStr (js ''get''))])"

definition buildImportConfig :: "store_user \<Rightarrow> json \<Rightarrow> bool \<Rightarrow> exn + json" where
  "buildImportConfig user channelId isCreate =
     (let mode = (if isCreate then ''create'' else ''update'');
          connectionInfo = buildConnectionInfo user (JArr [channelId]) mode
      in and_then (buildImportUrl user channelId mode) (\<lambda>u.
           Inr (JObj ([(js ''name'', JStr (js MAIN_IMPORT_NAME)),
                       (js ''additional_options'', JStr (js ''google_field,category_tree'')),
                       (js ''url'', JStr u),
                       (js ''preprocess_info'',
                        JObj [(js ''connection_info'', JObj connectionInfo)])]
                      @ (if isCreate then [] else [(js ''do_import'', JBool False)])))))"

definition createOrUpdateImport :: "platform \<Rightarrow> store_user \<Rightarrow> json \<Rightarrow> bool \<Rightarrow> envelope prog" where
  "createOrUpdateImport pf user channelId isCreate =
     await (compute (buildImportConfig user channelId isCreate)) (\<lambda>importConfig.
     await (retrieveImport pf) (\<lambda>existingImport.
       if success existingImport \<and> truthy (data existingImport)
       then await (updateImport (remote pf) (getp (data existingImport) ''id'') importConfig)
              (\<lambda>result.
                 if \<not> success result then failed ''Error updating import: '' (error result)
                 else ret (succeeded (data existingImport)))
       else await (createImport (remote pf) importConfig) (\<lambda>result.
              if \<not> success result then failed ''Error creating import: '' (error result)
              else ret (succeeded (data result)))))"

definition schedule_object :: "jsstring \<Rightarrow> jsstring \<Rightarrow> jsstring \<Rightarrow> json" where
  "schedule_object d h m = JObj [(js ''day'', JStr d), (js ''hour'', JStr h), (js ''minute'', JStr m)]"

definition service_updateImportSchedule ::
  "platform \<Rightarrow> json \<Rightarrow> jsstring \<Rightarrow> jsstring \<Rightarrow> jsstring \<Rightarrow> envelope prog" where
  "service_updateImportSchedule pf importId d h m =
     await (updateImportSchedule (remote pf) importId (schedule_object d h m)) (\<lambda>result.
       if \<not> success result then failed ''Error updating import schedule: '' (error result)
       else ret (succeeded (data result)))"

subsection \<open>Exports\<close>

record ftp_credentials =
  ftp_host :: jsstring
  ftp_username :: jsstring
  ftp_password :: jsstring

record time_slot =
  slot_hour :: jsstring
  slot_minutes :: jsstring

definition exportFieldMap :: "(string \<times> string) list" where
  "exportFieldMap =
     [(''id'', ''id''), (''title'', ''title''), (''description'', ''description''),
      (''product_type'', ''category_ancestors''), (''link'', ''product_url''),
      (''image_link'', ''image_link''),
      (''additional_image_link'', ''additional_image_link_zoom''),
      (''condition'', ''condition''), (''availability'', ''availability''),
      (''price'', ''price_parent''), (''sale_price'', ''sale_price_parent''),
      (''brand'', ''brand''), (''gtin'', ''gtin''), (''mpn'', ''mpn''),
      (''item_group_id'', ''item_group_id''), (''currency'', ''currency''),
      (''storefront_url'', ''storefront_url''), (''country'', ''country''),
      (''language'', ''language''), (''product_url'', ''product_url''),
      (''weight_unit'', ''weight_unit'')]"

definition getExportFields :: "json list" where
  "getExportFields =
     map (\<lambda>ef. JObj [(js ''field_name'', JStr (js (snd ef))),
                      (js ''export_field_name'', JStr (js (fst ef))),
                      (js ''required'', JStr [])]) exportFieldMap"

definition buildExportConfig :: "ftp_credentials \<Rightarrow> jsstring \<Rightarrow> json" where
  "buildExportConfig ftpCredentials filename =
     JObj [(js ''name'', JStr (js EXPORT_NAME)),
           (js ''file_name'', JStr filename),
           (js ''protocol'', JStr (js ''sftp'')),
           (js ''host'', JStr (ftp_host ftpCredentials)),
           (js ''username'', JStr (ftp_username ftpCredentials)),
           (js ''password'', JStr (ftp_password ftpCredentials)),
           (js ''export_fields'', JArr getExportFields),
           (js ''export_selector'', JStr (js ''[can_export] equal '' @ [39] @ js ''true'' @ [39])),
           (js ''tags'', JArr [JObj [(js ''tag'', JStr (js ''export_template'')),
                                     (js ''value'', JStr (js ''google_shopping''))]])]"

definition getExistingExport :: "platform \<Rightarrow> envelope prog" where
  "getExistingExport pf =
     await (exports (remote pf)) (\<lambda>exps.
       if \<not> success exps then failed ''Error getting exports: '' (error exps)
       else await (compute (opt_find_named ''exports.data?.find'' EXPORT_NAME (data exps)))
              (\<lambda>found. ret (succeeded (js_or found JNull))))"

definition handleExistingExport ::
  "platform \<Rightarrow> json \<Rightarrow> ftp_credentials \<Rightarrow> jsstring \<Rightarrow> envelope prog" where
  "handleExistingExport pf existingExport ftpCredentials filename =
     (let exportConfig = buildExportConfig ftpCredentials filename
      in if truthy existingExport
         then await (updateExport (remote pf) (getp existingExport ''id'') exportConfig)
                (\<lambda>result.
                   if \<not> success result then failed ''Error updating exports: '' (error result)
                   else ret (succeeded existingExport))
         else await (createExport (remote pf) exportConfig) (\<lambda>result.
                if \<not> success result then failed ''Error creating exports: '' (error result)
                else ret (succeeded (data result))))"

definition runExportSchedule :: "platform \<Rightarrow> json \<Rightarrow> time_slot \<Rightarrow> envelope prog" where
  "runExportSchedule pf export timeSlot =
     await (compute (get_prop export ''id'')) (\<lambda>i.
     await (scheduleExport (remote pf) i
              (schedule_object (js ''*'') (slot_hour timeSlot) (slot_minutes timeSlot)))
       (\<lambda>result.
          if \<not> success result
          then ret (failure (js ''Error setting running export schedule in FDX''))
          else ret (succeeded export)))"

definition createOrUpdateExport ::
  "platform \<Rightarrow> ftp_credentials \<Rightarrow> jsstring \<Rightarrow> time_slot option \<Rightarrow> envelope prog" where
  "createOrUpdateExport pf ftpCredentials filename timeSlot =
     await (getExistingExport pf) (\<lambda>currentExportResponse.
       if \<not> success currentExportResponse
       then failed ''Getting existing export: '' (error currentExportResponse)
       else
         await (handleExistingExport pf (data currentExportResponse) ftpCredentials filename)
           (\<lambda>exp.
              if \<not> success exp then failed ''Creating or updating exports: '' (error exp)
              else (case timeSlot of
                      Some ts \<Rightarrow> runExportSchedule pf (data exp) ts
                    | None \<Rightarrow> ret exp)))"

subsection \<open>Transformers, fields, join imports, runs\<close>

fun create_each :: "platform \<Rightarrow> json list \<Rightarrow> json list \<Rightarrow> envelope prog" where
  \<comment> \<open>the loop of \<open>createTransformers\<close>, \<open>results\<close> first\<close>
  "create_each pf results [] = ret (succeeded (JArr results))"
| "create_each pf results (transformer # rest) =
     await (createTransformer (remote pf) transformer) (\<lambda>result.
       if \<not> success result then failed ''Error creating transformer: '' (error result)
       else create_each pf (results @ [data result]) rest)"

definition createTransformers :: "platform \<Rightarrow> json list \<Rightarrow> envelope prog" where
  "createTransformers pf ts = create_each pf [] ts"

fun update_each :: "platform \<Rightarrow> json list \<Rightarrow> json list \<Rightarrow> envelope prog" where
  \<comment> \<open>the loop of \<open>updateDbFields\<close>, \<open>results\<close> first\<close>
  "update_each pf results [] = ret (succeeded (JArr results))"
| "update_each pf results (field # rest) =
     await (updateDbFields (remote pf) field) (\<lambda>result.
       if \<not> success result then failed ''Error updating db fields: '' (error result)
       else update_each pf (results @ [data result]) rest)"

definition service_updateDbFields :: "platform \<Rightarrow> json list \<Rightarrow> envelope prog" where
  "service_updateDbFields pf fs = update_each pf [] fs"

definition service_createJoinImport ::
  "platform \<Rightarrow> ftp_credentials \<Rightarrow> jsstring \<Rightarrow> envelope prog" where
  "service_createJoinImport pf ftpCredentials fileName =
     await (createJoinImport (remote pf)
              (JObj [(js ''name'', JStr (js JOIN_IMPORT_NAME)),
                     (js ''file_name'', JStr fileName),
                     (js ''host'', JStr (ftp_host ftpCredentials)),
                     (js ''username'', JStr (ftp_username ftpCredentials)),
                     (js ''password'', JStr (ftp_password ftpCredentials))]))
       (\<lambda>result.
          if \<not> success result then failed ''Error creating join import: '' (error result)
          else ret (succeeded (data result)))"

definition runImport :: "platform \<Rightarrow> jsstring \<Rightarrow> envelope prog" where
  "runImport pf importId s =
     (if no_dbId s then (Inr (failure (js ''No database selected'')), s)
      else await (request (remote pf) (js ''POST'')
                    (dbs_path s @ js ''/imports/'' @ importId @ js ''/run'') (JObj [])
                    JUndefined)
             (\<lambda>result.
                if \<not> success result then failed ''Error running import: '' (error result)
                else ret (succeeded (data result))) s)"

definition runExport :: "platform \<Rightarrow> jsstring \<Rightarrow> envelope prog" where
  "runExport pf exportId s =
     (if no_dbId s then (Inr (failure (js ''No database selected'')), s)
      else await (request (remote pf) (js ''POST'')
                    (dbs_path s @ js ''/exports/'' @ exportId @ js ''/run'') (JObj [])
                    JUndefined)
             (\<lambda>result.
                if \<not> success result then failed ''Error running export: '' (error result)
                else ret (succeeded (data result))) s)"

subsection \<open>The integration setup\<close>

record import_schedule =
  sched_day :: jsstring
  sched_hour :: jsstring
  sched_minute :: jsstring

text \<open>\<open>BigCommerceSetupParams\<close>; an optional field is \<open>None\<close> when it is left out.\<close>

record setup_params =
  accountName :: jsstring
  storeHash :: jsstring
  storeUrl :: "jsstring option"
  accessToken :: jsstring
  storeId :: "jsstring option"
  clientId :: "jsstring option"
  channelId :: json
  userEmail :: "jsstring option"
  vaultEntryName :: "jsstring option"
  dbName :: "jsstring option"
  groupName :: "jsstring option"
  importSchedule :: "import_schedule option"
  buildTemplate :: "jsstring option"

definition given :: "jsstring option \<Rightarrow> bool" where
  \<comment> \<open>an optional string that is truthy\<close>
  "given x = (case x of None \<Rightarrow> False | Some s \<Rightarrow> s \<noteq> [])"

definition or_else :: "jsstring option \<Rightarrow> jsstring \<Rightarrow> jsstring" where
  \<comment> \<open>\<open>x || d\<close> for an optional string\<close>
  "or_else x d = (case x of None \<Rightarrow> d | Some s \<Rightarrow> if s = [] then d else s)"

definition opt_json :: "jsstring option \<Rightarrow> json" where
  "opt_json x = (case x of None \<Rightarrow> JUndefined | Some s \<Rightarrow> JStr s)"

definition setup_summary :: "setup_params \<Rightarrow> json \<Rightarrow> json \<Rightarrow> json \<Rightarrow> json \<Rightarrow> envelope" where
  "setup_summary params accountId db importId vaultId =
     succeeded (JObj [(js ''success'', JBool True), (js ''accountId'', accountId),
                      (js ''dbId'', db), (js ''importId'', importId),
                      (js ''vaultEntryId'', vaultId),
                      (js ''primaryUserEmail'', opt_json (userEmail params))])"

definition setup_step8 ::
  "platform \<Rightarrow> setup_params \<Rightarrow> json \<Rightarrow> json \<Rightarrow> json \<Rightarrow> json \<Rightarrow> envelope prog" where
  \<comment> \<open>Step 8: apply the build template if one is given, and return the summary\<close>
  "setup_step8 pf params accountId db vaultId importId =
     (if given (buildTemplate params)
      then await (applyAutomateBuildTemplate (remote pf) importId
                    (or_else (buildTemplate params) []))
             (\<lambda>buildResult.
                if \<not> success buildResult
                then failed ''Failed to apply build template: '' (error buildResult)
                else ret (setup_summary params accountId db importId vaultId))
      else ret (setup_summary params accountId db importId vaultId))"

definition setup_step7 ::
  "platform \<Rightarrow> setup_params \<Rightarrow> json \<Rightarrow> json \<Rightarrow> json \<Rightarrow> json \<Rightarrow> envelope prog" where
  \<comment> \<open>Step 7: set the import schedule if one is given\<close>
  "setup_step7 pf params accountId db vaultId importId =
     (case importSchedule params of
        Some sch \<Rightarrow>
          await (updateImportSchedule (remote pf) importId
                   (schedule_object (or_else (Some (sched_day sch)) (js ''*''))
                      (or_else (Some (sched_hour sch)) (js ''*''))
                      (or_else (Some (sched_minute sch)) (js ''0''))))
            (\<lambda>scheduleResult.
               if \<not> success scheduleResult
               then failed ''Failed to update import schedule: '' (error scheduleResult)
               else setup_step8 pf params accountId db vaultId importId)
      | None \<Rightarrow> setup_step8 pf params accountId db vaultId importId)"

definition setup_connection_info :: "setup_params \<Rightarrow> (jsstring \<times> json) list" where
  "setup_connection_info params =
     [(js ''client'', JStr (js ''bigcommerce'')),
      (js ''protocol'', JStr (js ''api'')),
      (js ''access_token'', JStr (accessToken params)),
      (js ''client_id'', JStr (or_else (clientId params) [])),
      (js ''include'', JStr (js ''products,category_tree'')),
      (js ''filters'', JObj []),
      (js ''price_list'', JObj [(js ''currencies'', JStr []), (js ''ids'', JStr [])]),
      (js ''location_inventory'', JObj [(js ''ids'', JStr [])]),
      (js ''store_hash'', JStr (storeHash params)),
      (js ''store_url'',
       JStr (or_else (storeUrl params)
               (js ''https://store-'' @ storeHash params @ js ''.mybigcommerce.com/''))),
      (js ''show_empty_fields'', JStr []),
      (js ''additional_image_sizes'', JBool False),
      (js ''additional_options'', JStr []),
      (js ''additional_parent_fields'', JStr []),
      (js ''additional_variant_fields'', JStr []),
      (js ''to_columns'', JStr []),
      (js ''to_columns_keep_both'', JBool False)]"

definition setup_file_info :: "(jsstring \<times> json) list" where
  "setup_file_info = [(js ''request_type'', JStr (js ''get'')), (js ''output_compressed'', JBool True)]"

definition setup_import_config :: "setup_params \<Rightarrow> jsstring \<Rightarrow> json" where
  "setup_import_config params u =
     JObj [(js ''file_location'', JStr (js ''preprocess_script'')),
           (js ''join_type'', JStr (js ''product_feed'')),
           (js ''name'', JStr (js ''BC Product Import'')),
           (js ''tags'', JObj [(js ''platform'', JStr (js ''Bigcommerce''))]),
           (js ''timeout'', JStr (js ''1800'')),
           (js ''do_import'', JBool False),
           (js ''do_notify'', JBool False),
           (js ''notification_email'', JNull),
           (js ''cron'', JStr (js ''0 * * * *'')),
           (js ''url'', JStr u),
           (js ''preprocess_info'',
            JObj [(js ''actions'', JArr []),
                  (js ''connection_info'', JObj (setup_connection_info params)),
                  (js ''file_info'', JObj setup_file_info)])]"

definition setup_step6 ::
  "platform \<Rightarrow> setup_params \<Rightarrow> json \<Rightarrow> json \<Rightarrow> json \<Rightarrow> envelope prog" where
  \<comment> \<open>Step 6: create the import configuration\<close>
  "setup_step6 pf params accountId db vaultId =
     await (compute (generateBigCommercePreprocessorUrl (setup_connection_info params)
                       (Some setup_file_info)))
       (\<lambda>u.
     await (createImport (remote pf) (setup_import_config params u)) (\<lambda>importResult.
       if \<not> success importResult \<or> \<not> truthy (opt_prop (data importResult) ''id'')
       then failed ''Failed to create import: '' (error importResult)
       else setup_step7 pf params accountId db vaultId (getp (data importResult) ''id'')))"

definition setup_vault_entry :: "platform \<Rightarrow> setup_params \<Rightarrow> json" where
  "setup_vault_entry pf params =
     JObj [(js ''name'', JStr (or_else (vaultEntryName params) (js ''bc_credentials''))),
           (js ''expiration'', JStr (expiration pf)),
           (js ''credentials_type'', JStr (js ''none'')),
           (js ''credentials'',
            JStr (stringify pf
                    (JObj [(js ''access_token'', JStr (accessToken params)),
                           (js ''store_hash'', JStr (storeHash params)),
                           (js ''client_id'', JStr (or_else (clientId params) [])),
                           (js ''channel_id'', js_or (channelId params) (JStr []))])))]"

definition setup_step5 :: "platform \<Rightarrow> setup_params \<Rightarrow> json \<Rightarrow> json \<Rightarrow> envelope prog" where
  \<comment> \<open>Step 5: add the vault entry\<close>
  "setup_step5 pf params accountId db =
     await (addDbVaultEntry (remote pf) db (setup_vault_entry pf params)) (\<lambda>vaultResult.
       if \<not> success vaultResult
       then failed ''Failed to create vault entry: '' (error vaultResult)
       else setup_step6 pf params accountId db
              (opt_prop (opt_prop (data vaultResult) ''data'') ''new_row_id''))"

definition setup_step4 :: "platform \<Rightarrow> setup_params \<Rightarrow> json \<Rightarrow> json \<Rightarrow> envelope prog" where
  \<comment> \<open>Step 4: move the database to a group if a group name is given\<close>
  "setup_step4 pf params accountId db =
     (if given (groupName params)
      then await (moveDbintoNewDbGroup (remote pf) db (or_else (groupName params) []))
             (\<lambda>groupResult.
                if \<not> success groupResult
                then failed ''Failed to move database to group: '' (error groupResult)
                else setup_step5 pf params accountId db)
      else setup_step5 pf params accountId db)"

definition setup_step3 :: "platform \<Rightarrow> setup_params \<Rightarrow> json \<Rightarrow> envelope prog" where
  \<comment> \<open>Step 3: create the database and make it the active one\<close>
  "setup_step3 pf params accountId =
     await (createDb (remote pf) accountId
              (or_else (dbName params) (js ''BC Store '' @ storeHash params)))
       (\<lambda>dbResult.
          if \<not> success dbResult \<or> \<not> truthy (opt_prop (data dbResult) ''id'')
          then failed ''Failed to create database: '' (error dbResult)
          else
            (let db = getp (data dbResult) ''id''
             in await (compute (method_toString db ''dbId'')) (\<lambda>d.
                  (\<lambda>s. setup_step4 pf params accountId db (setDbId d s)))))"

definition setup_step2 :: "platform \<Rightarrow> setup_params \<Rightarrow> json \<Rightarrow> envelope prog" where
  \<comment> \<open>Step 2: invite the primary user if an email is given\<close>
  "setup_step2 pf params accountId =
     (if given (userEmail params)
      then await (invitePrimaryUser (remote pf) accountId (or_else (userEmail params) []))
             (\<lambda>inviteResult.
                if \<not> success inviteResult
                then failed ''Failed to invite user: '' (error inviteResult)
                else setup_step3 pf params accountId)
      else setup_step3 pf params accountId)"

definition setup_step1 :: "platform \<Rightarrow> setup_params \<Rightarrow> envelope prog" where
  \<comment> \<open>Step 1: create the account; this is the body of the \<open>try\<close>\<close>
  "setup_step1 pf params =
     await (createBigCommerceAccount (remote pf) (accountName params)) (\<lambda>accountResult.
       if \<not> success accountResult \<or> \<not> truthy (opt_prop (data accountResult) ''id'')
       then failed ''Failed to create account: '' (error accountResult)
       else setup_step2 pf params (getp (data accountResult) ''id''))"

definition setupBigCommerceIntegration :: "platform \<Rightarrow> setup_params \<Rightarrow> envelope prog" where
  \<comment> \<open>the \<open>try\<close> with its \<open>catch\<close>\<close>
  "setupBigCommerceIntegration pf params s =
     (case setup_step1 pf params s of
        (Inl err, s') \<Rightarrow> (Inr (failure (js ''BigCommerce setup failed: '' @ message err)), s')
      | (Inr r, s') \<Rightarrow> (Inr r, s'))"

section \<open>Properties\<close>

text \<open>
  The invariant of a result envelope: a success carries no error, a failure carries an
  error and no data. An absent field is \<open>undefined\<close>.
\<close>

definition well_formed :: "envelope \<Rightarrow> bool" where
  "well_formed e =
     ((success e \<longrightarrow> error e = JUndefined) \<and>
      (\<not> success e \<longrightarrow> data e = JUndefined \<and> error e \<noteq> JUndefined))"

definition returns_well_formed :: "envelope prog \<Rightarrow> bool" where
  "returns_well_formed p = (\<forall>s e. fst (p s) = Inr e \<longrightarrow> well_formed e)"

text \<open>
  For stating what was sent: a request without a per-call configuration, and the session
  after some more requests.
\<close>

definition req :: "string \<Rightarrow> jsstring \<Rightarrow> json \<Rightarrow> request" where
  "req m u d = \<lparr>http_method = js m, url = u, body = d, config = JUndefined\<rparr>"

definition sending :: "session \<Rightarrow> request list \<Rightarrow> session" where
  "sending s rs = s\<lparr>sent := sent s @ rs\<rparr>"

text \<open>
  Values on which the URL builder cannot throw: strings of ASCII characters, booleans
  and numbers, and objects and arrays of these.
\<close>

definition ascii :: "jsstring \<Rightarrow> bool" where
  "ascii s = list_all (\<lambda>c. c < 0x80) s"

fun scalar :: "json \<Rightarrow> bool" where
  "scalar (JStr s) = ascii s"
| "scalar (JBool b) = True"
| "scalar (JNum n) = True"
| "scalar v = False"

definition plain :: "json \<Rightarrow> bool" where
  "plain v = (nullish v \<or> scalar v \<or>
              (is_object v \<and> list_all (\<lambda>kv. nullish (snd kv) \<or> scalar (snd kv)) (entries v)))"

text \<open>
  The steps of the integration setup, each as the relation between the session before it
  and the session after it when it went well: the call returned a success (with an
  identifier where the next steps need one), or the step was left out because its
  parameter was not given. A created database is the active one in the session after.
\<close>

definition account_created :: "platform \<Rightarrow> setup_params \<Rightarrow> session \<Rightarrow> json \<Rightarrow> session \<Rightarrow> bool" where
  "account_created pf params s accountId s1 =
     (\<exists>r. createBigCommerceAccount (remote pf) (accountName params) s = (Inr r, s1) \<and>
          success r \<and> truthy (opt_prop (data r) ''id'') \<and> accountId = getp (data r) ''id'')"

definition user_invited :: "platform \<Rightarrow> setup_params \<Rightarrow> json \<Rightarrow> session \<Rightarrow> session \<Rightarrow> bool" where
  "user_invited pf params accountId s1 s2 =
     (if given (userEmail params)
      then (\<exists>r. invitePrimaryUser (remote pf) accountId (or_else (userEmail params) []) s1 =
                  (Inr r, s2) \<and> success r)
      else s2 = s1)"

definition database_created ::
  "platform \<Rightarrow> setup_params \<Rightarrow> json \<Rightarrow> session \<Rightarrow> json \<Rightarrow> session \<Rightarrow> bool" where
  "database_created pf params accountId s2 db s3 =
     (\<exists>r d s'. createDb (remote pf) accountId
                  (or_else (dbName params) (js ''BC Store '' @ storeHash params)) s2 = (Inr r, s') \<and>
          success r \<and> truthy (opt_prop (data r) ''id'') \<and> db = getp (data r) ''id'' \<and>
          method_toString db ''dbId'' = Inr d \<and> s3 = setDbId d s')"

definition moved_to_group :: "platform \<Rightarrow> setup_params \<Rightarrow> json \<Rightarrow> session \<Rightarrow> session \<Rightarrow> bool" where
  "moved_to_group pf params db s3 s4 =
     (if given (groupName params)
      then (\<exists>r. moveDbintoNewDbGroup (remote pf) db (or_else (groupName params) []) s3 =
                  (Inr r, s4) \<and> success r)
      else s4 = s3)"

definition vault_entry_added ::
  "platform \<Rightarrow> setup_params \<Rightarrow> json \<Rightarrow> session \<Rightarrow> json \<Rightarrow> session \<Rightarrow> bool" where
  "vault_entry_added pf params db s4 vaultId s5 =
     (\<exists>r. addDbVaultEntry (remote pf) db (setup_vault_entry pf params) s4 = (Inr r, s5) \<and>
          success r \<and> vaultId = opt_prop (opt_prop (data r) ''data'') ''new_row_id'')"

definition import_created ::
  "platform \<Rightarrow> setup_params \<Rightarrow> session \<Rightarrow> json \<Rightarrow> session \<Rightarrow> bool" where
  "import_created pf params s5 importId s6 =
     (\<exists>u r. generateBigCommercePreprocessorUrl (setup_connection_info params)
               (Some setup_file_info) = Inr u \<and>
            createImport (remote pf) (setup_import_config params u) s5 = (Inr r, s6) \<and>
            success r \<and> truthy (opt_prop (data r) ''id'') \<and> importId = getp (data r) ''id'')"

definition schedule_json :: "import_schedule \<Rightarrow> json" where
  "schedule_json sch =
     schedule_object (or_else (Some (sched_day sch)) (js ''*''))
       (or_else (Some (sched_hour sch)) (js ''*''))
       (or_else (Some (sched_minute sch)) (js ''0''))"

definition schedule_set :: "platform \<Rightarrow> setup_params \<Rightarrow> json \<Rightarrow> session \<Rightarrow> session \<Rightarrow> bool" where
  "schedule_set pf params importId s6 s7 =
     (case importSchedule params of
        Some sch \<Rightarrow>
          (\<exists>r. updateImportSchedule (remote pf) importId (schedule_json sch) s6 = (Inr r, s7) \<and>
               success r)
      | None \<Rightarrow> s7 = s6)"

text \<open>
  For the URL builder: the parameters it sets, each with its name and the value it was
  given, in the order of the calls of \<open>searchParams.set\<close>; setting a list of parameters in
  that order; the values \<open>encodeURIComponent\<close> accepts, those whose string is well-formed
  UTF-16, and their double encoding; and the value of a parameter as a consumer reads it
  back from the URL the builder returns.
\<close>

definition nested_fields :: "jsstring \<Rightarrow> (jsstring \<times> json) list \<Rightarrow> (jsstring \<times> json) list" where
  "nested_fields key subs =
     map (\<lambda>kv. (js ''connection_info'' @ js ''['' @ key @ js '']['' @ fst kv @ js '']'', snd kv))
       (filter (\<lambda>kv. \<not> nullish (snd kv)) subs)"

definition connection_fields :: "(jsstring \<times> json) list \<Rightarrow> (jsstring \<times> json) list" where
  "connection_fields ci =
     concat (map (\<lambda>kv. if nullish (snd kv) then []
                        else if is_object (snd kv) then nested_fields (fst kv) (entries (snd kv))
                        else [(js ''connection_info'' @ js ''['' @ fst kv @ js '']'', snd kv)]) ci)"

definition file_fields :: "(jsstring \<times> json) list \<Rightarrow> (jsstring \<times> json) list" where
  "file_fields fi =
     map (\<lambda>kv. (js ''file_info'' @ js ''['' @ fst kv @ js '']'', snd kv))
       (filter (\<lambda>kv. \<not> nullish (snd kv)) fi)"

definition url_fields ::
  "(jsstring \<times> json) list \<Rightarrow> (jsstring \<times> json) list option \<Rightarrow> (jsstring \<times> json) list" where
  "url_fields ci fi =
     [(js ''connection_info'' @ js ''['' @ js ''client'' @ js '']'', JStr (js ''bigcommerce'')),
      (js ''connection_info'' @ js ''['' @ js ''protocol'' @ js '']'', JStr (js ''api''))]
     @ connection_fields ci @ (case fi of None \<Rightarrow> [] | Some f \<Rightarrow> file_fields f)"

fun set_all :: "(jsstring \<times> json) list \<Rightarrow> search_params \<Rightarrow> exn + search_params" where
  "set_all [] sp = Inr sp"
| "set_all (nv # fs) sp =
     and_then (double_encode (snd nv)) (\<lambda>e. set_all fs (sp_set (fst nv) e sp))"

definition encodable :: "json \<Rightarrow> bool" where
  "encodable v = (case to_string v of Inl e \<Rightarrow> False | Inr s \<Rightarrow> well_formed_utf16 s)"

definition twice_encoded :: "json \<Rightarrow> jsstring" where
  "twice_encoded v = (case double_encode v of Inl e \<Rightarrow> [] | Inr e \<Rightarrow> e)"

definition pair_text :: "jsstring \<times> jsstring \<Rightarrow> jsstring" where
  "pair_text kv = form_urlencode (fst kv) @ [61] @ form_urlencode (snd kv)"

definition normal_params :: "search_params \<Rightarrow> bool" where
  "normal_params ps = (\<forall>kv\<in>set ps. usv (fst kv) = fst kv \<and> ascii (snd kv))"

definition read_back ::
  "(jsstring \<times> json) list \<Rightarrow> (jsstring \<times> json) list option \<Rightarrow> jsstring \<Rightarrow> exn + jsstring option" where
  "read_back ci fi name =
     and_then (generateBigCommercePreprocessorUrl ci fi) (\<lambda>u. Inr (query_value u name))"

section \<open>Example inputs\<close>

text \<open>A server that gives every request the same answer, and a client just constructed.\<close>

definition answers :: "outcome \<Rightarrow> server" where
  "answers out log rq = out"

definition fresh_client :: client where
  "fresh_client =
     \<lparr>apiToken = js ''token'', dbId = None, baseUrl = js ''https://meta.feedonomics.com/api.php'',
      timeout = 60000, verbose = False\<rparr>"

definition fresh :: session where
  "fresh = \<lparr>cl = fresh_client, sent = []\<rparr>"

definition any_status :: json where
  \<comment> \<open>the per-call configuration \<open>{validateStatus: null}\<close>: axios resolves whatever the status\<close>
  "any_status = JObj [(js ''validateStatus'', JNull)]"

text \<open>
  A server that answers from a script, the n-th request with the n-th entry, and with a
  network error once the script is through; a platform around a server.
\<close>

definition network_error :: outcome where
  "network_error = Rejected (JObj [(js ''message'', JStr (js ''Network error''))])"

definition scripted :: "outcome list \<Rightarrow> server" where
  "scripted outs log rq = (if length log < length outs then outs ! length log else network_error)"

definition platform_of :: "server \<Rightarrow> platform" where
  "platform_of srv =
     \<lparr>remote = srv, stringify = (\<lambda>v. js ''{}''), expiration = js ''2027-11-02'',
      string_gt0 = (\<lambda>s. False)\<rparr>"

definition ok :: "int \<Rightarrow> json \<Rightarrow> outcome" where
  "ok st b = Resolved \<lparr>resp_status = st, resp_data = b\<rparr>"

definition with_db :: "string \<Rightarrow> session" where
  "with_db d = \<lparr>cl = fresh_client\<lparr>dbId := Some (js d)\<rparr>, sent = []\<rparr>"

text \<open>
  A setup with every optional step, against a server whose answers are all the same
  success but for one request, which fails with status 500 (\<open>boom\<close>) or has another
  outcome.
\<close>

definition demo_params :: setup_params where
  "demo_params =
     \<lparr>accountName = js ''Test Store'', storeHash = js ''abc123'', storeUrl = None,
      accessToken = js ''test_token'', storeId = None, clientId = None, channelId = JNum 12345,
      userEmail = Some (js ''test@example.com''), vaultEntryName = None, dbName = None,
      groupName = Some (js ''BigCommerce''),
      importSchedule =
        Some \<lparr>sched_day = js ''*'', sched_hour = js ''*/4'', sched_minute = js ''0''\<rparr>,
      buildTemplate = Some (js ''bigcommerce_template'')\<rparr>"

definition created :: json where
  \<comment> \<open>what the example server answers when it answers well\<close>
  "created = JObj [(js ''id'', JStr (js ''77'')),
                   (js ''data'', JObj [(js ''new_row_id'', JStr (js ''5''))])]"

definition boom :: outcome where
  "boom = Rejected (JObj [(js ''response'',
             JObj [(js ''status'', JNum 500),
                   (js ''data'', JObj [(js ''message'', JStr (js ''Boom''))])])])"

definition failing_at :: "nat \<Rightarrow> outcome \<Rightarrow> server" where
  \<comment> \<open>the request number \<open>k\<close>, counted from 0, has the outcome \<open>bad\<close>\<close>
  "failing_at k bad log rq = (if length log = k then bad else ok 200 created)"

definition demo_requests :: "jsstring \<Rightarrow> request list" where
  \<comment> \<open>the eight requests of a full setup with \<open>demo_params\<close>, \<open>u\<close> being the import's URL\<close>
  "demo_requests u =
     [req ''POST'' (js ''/bigcommerce/account'') (JObj [(js ''name'', JStr (js ''Test Store''))]),
      req ''POST'' (js ''/accounts/'' @ js ''77'' @ js ''/user_account_permissions'')
        (JObj [(js ''permissions'', JStr (js ''primary'')),
               (js ''username'', JStr (js ''test@example.com''))]),
      req ''POST'' (js ''/accounts/'' @ js ''77'' @ js ''/dbs'')
        (JObj [(js ''name'', JStr (js ''BC Store '' @ js ''abc123''))]),
      req ''POST'' (js ''/dbs/'' @ js ''77'' @ js ''/move_db_to_db_group'')
        (JObj [(js ''source_db_group_id'', JNum 0), (js ''target_db_group_id'', JNum (- 1)),
               (js ''target_db_group_name'', JStr (js ''BigCommerce''))]),
      req ''POST'' (js ''/dbs/'' @ js ''77'' @ js ''/vault'')
        (setup_vault_entry (platform_of (answers boom)) demo_params),
      req ''POST'' (js ''/dbs/'' @ js ''77'' @ js ''/imports'') (setup_import_config demo_params u),
      req ''PUT'' (js ''/dbs/'' @ js ''77'' @ js ''/imports/'' @ js ''77'' @ js ''/schedule'')
        (schedule_object (js ''*'') (js ''*/4'') (js ''0'')),
      req ''POST'' (js ''/dbs/'' @ js ''77'' @ js ''/apply_automate_build_template'')
        (JObj [(js ''import_id'', JStr (js ''77'')),
               (js ''template_name'', JStr (js ''bigcommerce_template''))])]"

definition demo_after :: "nat \<Rightarrow> jsstring \<Rightarrow> session" where
  \<comment> \<open>the session after the first \<open>n\<close> requests of the setup\<close>
  "demo_after n u =
     sending (if n < 3 then fresh else setDbId (js ''77'') fresh) (take n (demo_requests u))"

definition demo_failed_at :: "nat \<Rightarrow> jsstring \<Rightarrow> session" where
  \<comment> \<open>the session after \<open>k\<close> steps and the request of the next step\<close>
  "demo_failed_at k u = sending (demo_after k u) [demo_requests u ! k]"

text \<open>Two ways to make a step throw: an error that has no string, and a string that has no
  percent-encoding.\<close>

definition odd_error :: outcome where
  \<comment> \<open>a failure whose message is an object with a property \<open>toString\<close>\<close>
  "odd_error = Rejected (JObj [(js ''response'',
                 JObj [(js ''status'', JNum 500),
                       (js ''data'', JObj [(js ''message'', JObj [(js ''toString'', JNum 1)])])])])"

definition lone_surrogate :: jsstring where
  "lone_surrogate = [0xD800]"

text \<open>A server on which the list of imports (or of exports) cannot be fetched.\<close>

definition imports_down :: server where
  \<comment> \<open>the first request fails with status 500, the second creates the record 9\<close>
  "imports_down = scripted [boom, ok 201 (JObj [(js ''id'', JNum 9)])]"

definition store_12345 :: store_user where
  "store_12345 = \<lparr>user_id = JNum 12345, user_storeHash = js ''abc123''\<rparr>"

text \<open>
  Parameters of the URL builder: two fields with characters that need escaping, and two
  filters whose keys are different lone surrogates.
\<close>

definition colliding :: "(jsstring \<times> json) list" where
  "colliding =
     [(js ''filters'', JObj [([0xD800], JStr (js ''a'')), ([0xD801], JStr (js ''b''))])]"

definition two_fields :: "(jsstring \<times> json) list" where
  "two_fields = [(js ''access_token'', JStr (js ''a&b'')), (js ''store_hash'', JStr (js ''x/y''))]"

section \<open>Percent-decoding undoes percent-encoding\<close>

lemma unat_of_nat16: "n < 65536 \<Longrightarrow> unat (of_nat n :: 16 word) = n"
  by (simp add: unat_of_nat)

lemma hex_value_digit: "n < 16 \<Longrightarrow> hex_value (hex_digit n) = Some n"
  by (simp add: hex_value_def hex_digit_def word_le_nat_alt unat_of_nat16)

lemma read_octet_pct: "b < 256 \<Longrightarrow> read_octet (pct b @ s) = Some (b, s)"
  by (simp add: pct_def hex_value_digit)

lemma split2: "cp div 64 * 64 + cp mod 64 = (cp::nat)"
  by simp

lemma split3: "cp div 4096 * 4096 + cp div 64 mod 64 * 64 + cp mod 64 = (cp::nat)"
proof -
  have "cp div 4096 = cp div 64 div 64" by (simp add: div_mult2_eq)
  moreover have "cp div 64 div 64 * 64 + cp div 64 mod 64 = cp div 64" by simp
  moreover have "cp div 64 * 64 + cp mod 64 = cp" by simp
  ultimately show ?thesis by linarith
qed

lemma split4: "cp div 262144 * 262144 + cp div 4096 mod 64 * 4096 + cp div 64 mod 64 * 64 + cp mod 64 = (cp::nat)"
proof -
  have "cp div 262144 = cp div 4096 div 64" by (simp add: div_mult2_eq)
  moreover have "cp div 4096 div 64 * 64 + cp div 4096 mod 64 = cp div 4096" by simp
  moreover have "cp div 4096 * 4096 + cp div 64 mod 64 * 64 + cp mod 64 = cp" by (rule split3)
  ultimately show ?thesis by linarith
qed

lemma m64: "x mod 64 < (128::nat)"
  using mod_less_divisor [of 64 x] by linarith

lemma utf8_2: "0x80 \<le> cp \<Longrightarrow> cp < 0x800 \<Longrightarrow>
  utf8_decode (utf8_encode cp) = Some cp \<and> utf8_length (hd (utf8_encode cp)) = 2
   \<and> (\<forall>b\<in>set (utf8_encode cp). b < 256) \<and> length (utf8_encode cp) = 2"
  by (simp add: utf8_decode_def utf8_encode_def utf8_length_def is_cont_def Let_def split2 less_mult_imp_div_less m64)

lemma utf8_3: "0x800 \<le> cp \<Longrightarrow> cp < 0x10000 \<Longrightarrow> \<not> (0xD800 \<le> cp \<and> cp < 0xE000) \<Longrightarrow>
  utf8_decode (utf8_encode cp) = Some cp \<and> utf8_length (hd (utf8_encode cp)) = 3
   \<and> (\<forall>b\<in>set (utf8_encode cp). b < 256) \<and> length (utf8_encode cp) = 3"
  by (simp add: utf8_decode_def utf8_encode_def utf8_length_def is_cont_def Let_def split3 less_mult_imp_div_less m64)

lemma utf8_4: "0x10000 \<le> cp \<Longrightarrow> cp < 0x110000 \<Longrightarrow>
  utf8_decode (utf8_encode cp) = Some cp \<and> utf8_length (hd (utf8_encode cp)) = 4
   \<and> (\<forall>b\<in>set (utf8_encode cp). b < 256) \<and> length (utf8_encode cp) = 4"
  by (simp add: utf8_decode_def utf8_encode_def utf8_length_def is_cont_def Let_def split4 less_mult_imp_div_less m64)

lemma le_num16: "(numeral k \<le> (c :: 16 word)) = (numeral k mod 65536 \<le> unat c)"
  by (simp add: word_le_nat_alt unat_numeral take_bit_eq_mod del: unsigned_numeral)

lemma unescaped_not_pct: "uri_unescaped c \<Longrightarrow> c \<noteq> 37"
  by (auto simp: uri_unescaped_def is_alnum_def)

lemma decode_unescaped: "uri_unescaped c \<Longrightarrow> decodeURIComponent (c # s) = prepend [c] (decodeURIComponent s)"
  by (simp add: unescaped_not_pct)

lemma decode_pct_ascii: "b < 128 \<Longrightarrow> decodeURIComponent (pct b @ s) = prepend [of_nat b] (decodeURIComponent s)"
proof -
  assume b: "b < 128"
  then have r: "read_octet (37 # hex_digit (b div 16) # hex_digit (b mod 16) # s) = Some (b, s)"
    using read_octet_pct [of b s] by (simp add: pct_def)
  show ?thesis
    unfolding pct_def using b by (simp add: r del: read_octet.simps)
qed


lemma read_octets_pct:
  "\<forall>b\<in>set bs. b < 256 \<Longrightarrow> read_octets (length bs) (concat (map pct bs) @ s) = Some (bs, s)"
  by (induction bs) (simp_all add: read_octet_pct del: read_octet.simps)

lemma decode_seq:
  assumes "b0 < 256" and "\<forall>b\<in>set bs. b < 256" and "0x80 \<le> b0"
    and "utf8_length b0 = Suc (length bs)" and "length bs < 4"
    and "utf8_decode (b0 # bs) = Some cp"
  shows "decodeURIComponent (concat (map pct (b0 # bs)) @ s) =
           prepend (utf16_encode cp) (decodeURIComponent s)"
proof -
  define X where "X = concat (map pct bs) @ s"
  have r0: "read_octet (37 # hex_digit (b0 div 16) # hex_digit (b0 mod 16) # X) = Some (b0, X)"
    using read_octet_pct [of b0 X] assms(1) by (simp add: pct_def)
  have ne: "bs \<noteq> []"
    using assms(6) by (auto simp: utf8_decode_def)
  have r1: "read_octets (length bs) X = Some (bs, s)"
    unfolding X_def using assms(2) by (rule read_octets_pct)
  have "decodeURIComponent (37 # hex_digit (b0 div 16) # hex_digit (b0 mod 16) # X) =
          prepend (utf16_encode cp) (decodeURIComponent s)"
    using assms(3,4,5,6) ne by (simp add: r0 r1 del: read_octet.simps)
  then show ?thesis
    by (simp add: X_def pct_def)
qed

lemma decode_pct_utf8:
  assumes "0x80 \<le> cp" and "cp < 0x110000" and "\<not> (0xD800 \<le> cp \<and> cp < 0xE000)"
  shows "decodeURIComponent (pct_utf8 cp @ s) = prepend (utf16_encode cp) (decodeURIComponent s)"
proof -
  have f: "utf8_decode (utf8_encode cp) = Some cp \<and>
           utf8_length (hd (utf8_encode cp)) = length (utf8_encode cp) \<and>
           (\<forall>b\<in>set (utf8_encode cp). b < 256) \<and> length (utf8_encode cp) \<in> {2, 3, 4}"
  proof -
    consider "cp < 0x800" | "0x800 \<le> cp \<and> cp < 0x10000" | "0x10000 \<le> cp" by linarith
    then show ?thesis
    proof cases
      case 1 then show ?thesis using utf8_2 [of cp] assms by simp
    next
      case 2 then show ?thesis using utf8_3 [of cp] assms by simp
    next
      case 3 then show ?thesis using utf8_4 [of cp] assms by simp
    qed
  qed
  then obtain b0 bs where e: "utf8_encode cp = b0 # bs"
    by (cases "utf8_encode cp") auto
  have "0x80 \<le> b0"
    using f e by (auto simp: utf8_length_def split: if_splits)
  moreover have "length bs < 4" using f e by auto
  ultimately show ?thesis
    unfolding pct_utf8_def e using f e decode_seq [of b0 bs cp s] by simp
qed


lemma lead_nat: "is_lead c = (0xD800 \<le> unat c \<and> unat c \<le> 0xDBFF)"
  by (simp add: is_lead_def word_le_nat_alt)

lemma trail_nat: "is_trail c = (0xDC00 \<le> unat c \<and> unat c \<le> 0xDFFF)"
  by (simp add: is_trail_def word_le_nat_alt)

lemma unat16_bound: "unat (c :: 16 word) < 65536"
  using unsigned_less [of c, where 'a = nat] by simp

lemma utf16_bmp: "utf16_encode (unat (c :: 16 word)) = [c]"
  by (simp add: utf16_encode_def unat16_bound)

lemma utf16_pair:
  assumes "is_lead c" and "is_trail d"
  shows "utf16_encode (pair_code_point c d) = [c, d]"
    and "0x10000 \<le> pair_code_point c d" and "pair_code_point c d < 0x110000"
proof -
  define h where "h = unat c - 0xD800"
  define l where "l = unat d - 0xDC00"
  have h: "h < 0x400" "unat c = h + 0xD800"
    using assms(1) by (auto simp: lead_nat h_def)
  have l: "l < 0x400" "unat d = l + 0xDC00"
    using assms(2) by (auto simp: trail_nat l_def)
  have p: "pair_code_point c d = h * 0x400 + l + 0x10000"
    by (simp add: pair_code_point_def h_def l_def)
  show "0x10000 \<le> pair_code_point c d" by (simp add: p)
  show "pair_code_point c d < 0x110000" using h(1) l(1) by (simp add: p)
  have "(h * 0x400 + l) div 0x400 = h" "(h * 0x400 + l) mod 0x400 = l"
    using l(1) by simp_all
  then have "utf16_encode (pair_code_point c d) = [of_nat (unat c), of_nat (unat d)]"
    by (simp add: utf16_encode_def p h(2) l(2))
  then show "utf16_encode (pair_code_point c d) = [c, d]" by simp
qed

lemma prepend_Inr: "prepend s r = Inr e \<longleftrightarrow> (\<exists>t. r = Inr t \<and> e = s @ t)"
  by (cases r) (auto simp: prepend_def)

lemma decode_encode: "encodeURIComponent s = Inr e \<Longrightarrow> decodeURIComponent e = Inr s"
proof (induction s arbitrary: e rule: encodeURIComponent.induct)
  case 1
  then show ?case by simp
next
  case (2 c cs)
  show ?case
  proof (cases "uri_unescaped c")
    case True
    with "2.prems" obtain t where t: "encodeURIComponent cs = Inr t" "e = c # t"
      by (auto simp: prepend_Inr)
    with "2.IH"(1) True have "decodeURIComponent t = Inr cs" by simp
    then show ?thesis
      using True t by (simp add: decode_unescaped prepend_def del: decodeURIComponent.simps)
  next
    case False
    note nu = this
    show ?thesis
    proof (cases "is_trail c")
      case True
      with nu "2.prems" show ?thesis by simp
    next
      case False
      note nt = this
      show ?thesis
      proof (cases "is_lead c")
        case True
        with nu nt "2.prems" obtain d ds t where
          d: "cs = d # ds" "is_trail d" "encodeURIComponent ds = Inr t"
             "e = pct_utf8 (pair_code_point c d) @ t"
          by (auto simp: prepend_Inr split: list.splits if_splits)
        from "2.IH"(2) [OF nu nt True d(1) d(2) d(3)]
        have ih: "decodeURIComponent t = Inr ds" .
        have "decodeURIComponent e = prepend (utf16_encode (pair_code_point c d)) (decodeURIComponent t)"
          unfolding d(4) using utf16_pair(2,3) [OF True d(2)]
          by (intro decode_pct_utf8) simp_all
        then show ?thesis
          using ih utf16_pair(1) [OF True d(2)] d(1) by (simp add: prepend_def)
      next
        case False
        with nu nt "2.prems" obtain t where
          t: "encodeURIComponent cs = Inr t" "e = pct_utf8 (unat c) @ t"
          by (auto simp: prepend_Inr)
        from "2.IH"(3) [OF nu nt False t(1)] have ih: "decodeURIComponent t = Inr cs" .
        show ?thesis
        proof (cases "unat c < 0x80")
          case True
          then have "pct_utf8 (unat c) = pct (unat c)"
            by (simp add: pct_utf8_def utf8_encode_def)
          then have "decodeURIComponent e = prepend [of_nat (unat c)] (decodeURIComponent t)"
            using True t(2) decode_pct_ascii [of "unat c" t] by simp
          then show ?thesis using ih by (simp add: prepend_def)
        next
          case ge: False
          have "\<not> (0xD800 \<le> unat c \<and> unat c < 0xE000)"
            using False nt by (auto simp: lead_nat trail_nat)
          then have "decodeURIComponent e = prepend (utf16_encode (unat c)) (decodeURIComponent t)"
            unfolding t(2) using ge unat16_bound [of c]
            by (intro decode_pct_utf8) simp_all
          then show ?thesis using ih by (simp add: prepend_def utf16_bmp)
        qed
      qed
    qed
  qed
qed

lemma js_eq_iff: "js a = js b \<longleftrightarrow> a = b"
proof -
  have "inj (\<lambda>c. of_nat (of_char c) :: 16 word)"
  proof (rule injI)
    fix c d :: char
    assume e: "(of_nat (of_char c) :: 16 word) = of_nat (of_char d)"
    have c: "(of_char c :: nat) < 65536"
      using nat_of_char_less_256 [of c] by linarith
    have d: "(of_char d :: nat) < 65536"
      using nat_of_char_less_256 [of d] by linarith
    have "(of_char c :: nat) = unat (of_nat (of_char c) :: 16 word)"
      by (rule unat_of_nat16 [OF c, symmetric])
    also have "\<dots> = unat (of_nat (of_char d) :: 16 word)"
      by (simp only: e)
    also have "\<dots> = of_char d"
      by (rule unat_of_nat16 [OF d])
    finally show "c = d" by simp
  qed
  then have "inj js"
    unfolding js_def [abs_def] by (rule inj_mapI)
  then show ?thesis by (simp add: inj_eq)
qed

lemma js_append: "js (a @ b) = js a @ js b"
  by (simp add: js_def)

section \<open>Every envelope is well formed\<close>

lemma truthy_defined: "truthy v \<Longrightarrow> v \<noteq> JUndefined"
  by auto

lemma js_Nil_iff [simp]: "js s = [] \<longleftrightarrow> s = []"
  by (simp add: js_def)

lemma js_or_defined [simp]: "js_or a (JStr (js (c # cs))) \<noteq> JUndefined"
  by (auto simp: js_or_def)

lemma wf_processResponse: "well_formed (processResponse r)"
  by (simp add: well_formed_def processResponse_def)

lemma wf_db_required: "well_formed db_required"
  by (simp add: well_formed_def db_required_def)

lemma wf_succeeded: "well_formed (succeeded d)"
  by (simp add: well_formed_def succeeded_def)

lemma wf_failure: "well_formed (failure m)"
  by (simp add: well_formed_def failure_def)

lemma rwf_request: "returns_well_formed (request srv m u d cfg)"
proof -
  have "well_formed e" if "fst (request srv m u d cfg s) = Inr e" for s e
  proof (cases "srv (sent s) \<lparr>http_method = m, url = u, body = d, config = cfg\<rparr>")
    case (Resolved r)
    with that show ?thesis
      by (auto simp: request_def Let_def wf_processResponse)
  next
    case (Rejected err)
    with that show ?thesis
      by (auto simp: request_def Let_def well_formed_def split: sum.splits if_splits)
  qed
  then show ?thesis
    by (simp add: returns_well_formed_def)
qed

lemma rwf_ret: "well_formed e \<Longrightarrow> returns_well_formed (ret e)"
  by (simp add: returns_well_formed_def ret_def)

lemma rwf_await: "(\<And>x. returns_well_formed (f x)) \<Longrightarrow> returns_well_formed (await m f)"
  by (auto simp: returns_well_formed_def await_def split: prod.splits sum.splits)

lemma rwf_await_wf:
  "returns_well_formed m \<Longrightarrow> (\<And>x. well_formed x \<Longrightarrow> returns_well_formed (f x)) \<Longrightarrow>
   returns_well_formed (await m f)"
  by (auto simp: returns_well_formed_def await_def split: prod.splits sum.splits)
    (metis fst_conv)

lemma rwf_with_str: "(\<And>x. returns_well_formed (f x)) \<Longrightarrow> returns_well_formed (with_str v f)"
  by (auto simp: returns_well_formed_def with_str_def split: sum.splits)

lemma rwf_failed: "returns_well_formed (failed l e)"
  by (auto simp: failed_def intro!: rwf_await rwf_ret wf_failure)

lemma rwf_if: "returns_well_formed p \<Longrightarrow> returns_well_formed q \<Longrightarrow>
  returns_well_formed (if b then p else q)"
  by simp

lemma rwf_guard:
  "(\<And>s. returns_well_formed (p s)) \<Longrightarrow>
   returns_well_formed (\<lambda>s. if no_dbId s then (Inr db_required, s) else p s s)"
  by (auto simp: returns_well_formed_def wf_db_required)

lemmas rwf_intros = rwf_request rwf_with_str rwf_failed rwf_await rwf_ret wf_succeeded wf_failure

lemma rwf_client_plain:
  "returns_well_formed (invitePrimaryUser srv a e)"
  "returns_well_formed (accounts srv)"
  "returns_well_formed (dbs srv a)"
  "returns_well_formed (createDb srv a n)"
  "returns_well_formed (deleteDb srv a)"
  "returns_well_formed (vault srv)"
  "returns_well_formed (createVault srv d)"
  "returns_well_formed (updateVault srv a d)"
  "returns_well_formed (deleteVault srv a)"
  "returns_well_formed (groups srv a)"
  "returns_well_formed (createGroup srv n)"
  "returns_well_formed (moveDbToGroup srv d)"
  "returns_well_formed (login srv u p n)"
  "returns_well_formed (createBigCommerceAccount srv n)"
  "returns_well_formed (moveDbintoNewDbGroup srv a n)"
  "returns_well_formed (moveDbFromSourceToTargetDbGroup srv a i j n)"
  "returns_well_formed (addDbVaultEntry srv a d)"
  "returns_well_formed (dbFields srv a)"
  "returns_well_formed (deleteDbField srv a b)"
  by (simp_all add: invitePrimaryUser_def accounts_def dbs_def createDb_def deleteDb_def vault_def
        createVault_def updateVault_def deleteVault_def groups_def createGroup_def
        moveDbToGroup_def login_def createBigCommerceAccount_def moveDbintoNewDbGroup_def
        moveDbFromSourceToTargetDbGroup_def addDbVaultEntry_def dbFields_def deleteDbField_def
        rwf_intros)


lemma wf_request: "fst (request srv m u d cfg s) = Inr e \<Longrightarrow> well_formed e"
  using rwf_request [of srv m u d cfg] by (simp add: returns_well_formed_def)

lemma rwf_client_guarded:
  "returns_well_formed (applyAutomateBuildTemplate srv i t)"
  "returns_well_formed (feedBuild srv i)"
  "returns_well_formed (cancelBuild srv i)"
  "returns_well_formed (ftpAccounts srv)"
  "returns_well_formed (createFtpAccounts srv d)"
  "returns_well_formed (imports_fdx srv)"
  "returns_well_formed (createImport srv d)"
  "returns_well_formed (updateImport srv i d)"
  "returns_well_formed (updateImportSchedule srv i d)"
  "returns_well_formed (exports srv)"
  "returns_well_formed (createExport srv d)"
  "returns_well_formed (updateExport srv i d)"
  "returns_well_formed (scheduleExport srv i d)"
  "returns_well_formed (transformers srv)"
  "returns_well_formed (createTransformer srv d)"
  "returns_well_formed (updateTransformer srv i d)"
  "returns_well_formed (updateDbFields srv d)"
  "returns_well_formed (createJoinImport srv d)"
  "returns_well_formed (joinImports srv)"
  by (auto simp: returns_well_formed_def wf_db_required with_str_def
        applyAutomateBuildTemplate_def feedBuild_def cancelBuild_def ftpAccounts_def
        createFtpAccounts_def imports_fdx_def createImport_def updateImport_def
        updateImportSchedule_def exports_def createExport_def updateExport_def
        scheduleExport_def transformers_def createTransformer_def updateTransformer_def
        updateDbFields_def createJoinImport_def joinImports_def
        split: sum.splits dest: wf_request)

lemmas rwf_client = rwf_client_plain rwf_client_guarded

lemma rwf_retrieveAccounts: "returns_well_formed (retrieveAccounts pf)"
  by (auto simp: retrieveAccounts_def intro!: rwf_intros)

lemma rwf_createAccount: "returns_well_formed (createAccount pf n)"
  by (auto simp: createAccount_def intro!: rwf_intros)

lemma rwf_getOrCreateAccount: "returns_well_formed (getOrCreateAccount pf i)"
  unfolding getOrCreateAccount_def
  by (rule rwf_await, rule rwf_await_wf [OF rwf_retrieveAccounts])
    (auto simp: Let_def intro!: rwf_ret wf_succeeded rwf_createAccount)

lemma rwf_findGroup: "returns_well_formed (findGroup pf a)"
  by (auto simp: findGroup_def intro!: rwf_intros)

lemma rwf_service_moveDbToGroup: "returns_well_formed (service_moveDbToGroup pf a n)"
  unfolding service_moveDbToGroup_def
  by (rule rwf_await_wf [OF rwf_findGroup]) (auto intro!: rwf_intros)

lemma wf_deleteOldEntry: "fst (deleteOldEntry pf ents s) = Inr (Some e) \<Longrightarrow> well_formed e"
  by (auto simp: deleteOldEntry_def await_def compute_def ret_def failed_def wf_failure
        wf_succeeded split: sum.splits prod.splits if_splits)

lemma rwf_createOrUpdateVaultEntry: "returns_well_formed (createOrUpdateVaultEntry pf ents t)"
  by (auto simp: createOrUpdateVaultEntry_def Let_def intro!: rwf_intros)

lemma rwf_updateVaultEntries: "returns_well_formed (updateVaultEntries pf t)"
proof -
  have "returns_well_formed
          (await (deleteOldEntry pf ents) (\<lambda>deleteResult.
             case deleteResult of
               None \<Rightarrow> createOrUpdateVaultEntry pf ents t
             | Some r \<Rightarrow> if \<not> success r then ret r else createOrUpdateVaultEntry pf ents t))"
    for ents
    using rwf_createOrUpdateVaultEntry [of pf ents t]
    by (auto simp: returns_well_formed_def await_def ret_def
          split: sum.splits prod.splits option.splits dest: wf_deleteOldEntry)
      (metis fst_conv wf_deleteOldEntry)+
  then show ?thesis
    by (auto simp: updateVaultEntries_def Let_def intro!: rwf_await rwf_failed)
qed


lemma rwf_getFtpCredentials: "returns_well_formed (getFtpCredentials pf)"
  by (auto simp: getFtpCredentials_def intro!: rwf_intros)

lemma rwf_service_deleteDb: "returns_well_formed (service_deleteDb pf d)"
  by (auto simp: service_deleteDb_def intro!: rwf_intros)

lemma rwf_service_createDb: "returns_well_formed (service_createDb pf a n)"
  by (auto simp: service_createDb_def intro!: rwf_intros)

lemma rwf_retrieveImport: "returns_well_formed (retrieveImport pf)"
  by (auto simp: retrieveImport_def intro!: rwf_intros)

lemma rwf_createOrUpdateImport: "returns_well_formed (createOrUpdateImport pf u c i)"
  by (auto simp: createOrUpdateImport_def intro!: rwf_intros)

lemma rwf_service_updateImportSchedule:
  "returns_well_formed (service_updateImportSchedule pf i d h m)"
  by (auto simp: service_updateImportSchedule_def intro!: rwf_intros)

lemma rwf_getExistingExport: "returns_well_formed (getExistingExport pf)"
  by (auto simp: getExistingExport_def intro!: rwf_intros)

lemma rwf_handleExistingExport: "returns_well_formed (handleExistingExport pf x c f)"
  by (auto simp: handleExistingExport_def Let_def intro!: rwf_intros)

lemma rwf_runExportSchedule: "returns_well_formed (runExportSchedule pf x t)"
  by (auto simp: runExportSchedule_def intro!: rwf_intros)

lemma rwf_createOrUpdateExport: "returns_well_formed (createOrUpdateExport pf c f t)"
  unfolding createOrUpdateExport_def
  apply (rule rwf_await)
  apply (rule rwf_if)
   apply (rule rwf_failed)
  apply (rule rwf_await_wf [OF rwf_handleExistingExport])
  apply (auto intro!: rwf_failed rwf_ret rwf_runExportSchedule split: option.splits)
  done

lemma rwf_create_each: "returns_well_formed (create_each pf rs ts)"
  by (induction ts arbitrary: rs) (auto intro!: rwf_intros)

lemma rwf_update_each: "returns_well_formed (update_each pf rs ts)"
  by (induction ts arbitrary: rs) (auto intro!: rwf_intros)

lemma rwf_service_createJoinImport: "returns_well_formed (service_createJoinImport pf c f)"
  by (auto simp: service_createJoinImport_def intro!: rwf_intros)

lemma rwf_runImport: "returns_well_formed (runImport pf i)"
proof -
  have "returns_well_formed (await (request srv m u d c) (\<lambda>result.
          if \<not> success result then failed l (error result) else ret (succeeded (data result))))"
    for srv m u d c l
    by (auto intro!: rwf_intros)
  then show ?thesis
    by (auto simp: returns_well_formed_def runImport_def wf_failure)
qed

lemma rwf_runExport: "returns_well_formed (runExport pf i)"
proof -
  have "returns_well_formed (await (request srv m u d c) (\<lambda>result.
          if \<not> success result then failed l (error result) else ret (succeeded (data result))))"
    for srv m u d c l
    by (auto intro!: rwf_intros)
  then show ?thesis
    by (auto simp: returns_well_formed_def runExport_def wf_failure)
qed

lemma rwf_setup_step8: "returns_well_formed (setup_step8 pf p a d v i)"
  by (auto simp: setup_step8_def setup_summary_def intro!: rwf_intros)

lemma rwf_setup_step7: "returns_well_formed (setup_step7 pf p a d v i)"
  by (auto simp: setup_step7_def intro!: rwf_intros rwf_setup_step8 split: option.splits)

lemma rwf_setup_step6: "returns_well_formed (setup_step6 pf p a d v)"
  by (auto simp: setup_step6_def intro!: rwf_intros rwf_setup_step7)

lemma rwf_setup_step5: "returns_well_formed (setup_step5 pf p a d)"
  by (auto simp: setup_step5_def intro!: rwf_intros rwf_setup_step6)

lemma rwf_setup_step4: "returns_well_formed (setup_step4 pf p a d)"
  by (auto simp: setup_step4_def intro!: rwf_intros rwf_setup_step5)

lemma rwf_setup_step3: "returns_well_formed (setup_step3 pf p a)"
proof -
  have "returns_well_formed (\<lambda>s. setup_step4 pf p a d (setDbId x s))" for d x
    using rwf_setup_step4 [of pf p a d] by (simp add: returns_well_formed_def)
  then show ?thesis
    by (auto simp: setup_step3_def Let_def intro!: rwf_intros)
qed

lemma rwf_setup_step2: "returns_well_formed (setup_step2 pf p a)"
  by (auto simp: setup_step2_def intro!: rwf_intros rwf_setup_step3)

lemma rwf_setup_step1: "returns_well_formed (setup_step1 pf p)"
  by (auto simp: setup_step1_def intro!: rwf_intros rwf_setup_step2)

lemma rwf_setupBigCommerceIntegration: "returns_well_formed (setupBigCommerceIntegration pf p)"
  using rwf_setup_step1 [of pf p]
  by (auto simp: returns_well_formed_def setupBigCommerceIntegration_def wf_failure
        split: prod.splits sum.splits) (metis fst_conv)

section \<open>Requests and the session\<close>

lemma sending_simps [simp]:
  "sent (sending s rs) = sent s @ rs" "cl (sending s rs) = cl s"
  "sending (sending s rs) rs' = sending s (rs @ rs')"
  "no_dbId (sending s rs) = no_dbId s" "dbs_path (sending s rs) = dbs_path s"
  by (simp_all add: sending_def no_dbId_def dbs_path_def)

lemma request_resolved:
  assumes "srv (sent s) (req m u d) = Resolved r"
  shows "request srv (js m) u d JUndefined s = (Inr (processResponse r), sending s [req m u d])"
  using assms by (simp add: request_def req_def sending_def Let_def)

lemma request_ok:
  assumes "srv (sent s) (req m u d) = Resolved \<lparr>resp_status = st, resp_data = b\<rparr>"
    and "200 \<le> st" and "st < 300"
  shows "request srv (js m) u d JUndefined s =
           (Inr \<lparr>success = True, data = b, error = JUndefined, status = JNum st\<rparr>,
            sending s [req m u d])"
  using assms by (simp add: request_resolved processResponse_def)

lemma request_session:
  "snd (request srv (js m) u d JUndefined s) = sending s [req m u d]"
  by (simp add: request_def req_def sending_def Let_def split: outcome.splits sum.splits)

lemma await_simps:
  "m s = (Inr x, s') \<Longrightarrow> await m f s = f x s'"
  "m s = (Inl e, s') \<Longrightarrow> await m f s = (Inl e, s')"
  by (simp_all add: await_def)

lemma await_compute [simp]:
  "await (compute (Inr x)) f = f x" "await (compute (Inl e)) f = compute (Inl e)"
  by (auto simp: await_def compute_def)

lemma await_ret [simp]: "await (ret x) f = f x"
  by (auto simp: await_def ret_def)

lemma with_str_Inr: "to_string v = Inr t \<Longrightarrow> with_str v f = f t"
  by (auto simp: with_str_def)

section \<open>The URL builder on ASCII values\<close>

lemma ascii_simps [simp]:
  "ascii []" "ascii (c # cs) = (c < 0x80 \<and> ascii cs)" "ascii (s @ t) = (ascii s \<and> ascii t)"
  by (simp_all add: ascii_def)

lemma ascii_js_literals [simp]:
  "ascii (js ''true'')" "ascii (js ''false'')" "ascii (js ''-'')"
  by (simp_all add: js_def)

lemma scalar_not_nullish [simp]: "scalar v \<Longrightarrow> \<not> nullish v"
  by (cases v) auto

lemma of_nat_ascii: "n < 0x80 \<Longrightarrow> (of_nat n :: 16 word) < 0x80"
proof -
  assume "n < 0x80"
  then have "unat (of_nat n :: 16 word) = n" by (intro unat_of_nat16) simp
  with \<open>n < 0x80\<close> show ?thesis by (simp only: word_less_nat_alt) simp
qed

lemma hex_digit_ascii: "n < 16 \<Longrightarrow> hex_digit n < 0x80"
  unfolding hex_digit_def by (intro of_nat_ascii) simp

lemma pct_ascii: "b < 256 \<Longrightarrow> ascii (pct b)"
  by (simp add: pct_def hex_digit_ascii)

lemma encode_ascii: "ascii s \<Longrightarrow> \<exists>e. encodeURIComponent s = Inr e \<and> ascii e"
proof (induction s)
  case Nil
  then show ?case by simp
next
  case (Cons c cs)
  then obtain e where e: "encodeURIComponent cs = Inr e" "ascii e" by auto
  from Cons.prems have c: "c < 0x80" by simp
  then have n: "unat c < 0x80" by (simp add: word_less_nat_alt)
  from c have s: "\<not> is_lead c" "\<not> is_trail c"
    by (auto simp: is_lead_def is_trail_def word_less_nat_alt word_le_nat_alt)
  from n have "pct_utf8 (unat c) = pct (unat c)"
    by (simp add: pct_utf8_def utf8_encode_def)
  moreover from n have "ascii (pct (unat c))" by (intro pct_ascii) simp
  ultimately show ?case
    using e c s by (simp add: prepend_def)
qed

lemma digit_ascii: "n < 10 \<Longrightarrow> digit n < 0x80"
  unfolding digit_def by (intro of_nat_ascii) simp

lemma show_nat_ascii: "ascii (show_nat n)"
proof (induction n rule: show_nat.induct)
  case (1 n)
  show ?case
  proof (cases "n < 10")
    case True
    then show ?thesis by (simp add: show_nat.simps [of n] digit_ascii)
  next
    case False
    with 1 show ?thesis by (simp add: show_nat.simps [of n] digit_ascii)
  qed
qed

lemma to_string_scalar: "scalar v \<Longrightarrow> \<exists>s. to_string v = Inr s \<and> ascii s"
  by (cases v) (auto simp: show_int_def show_nat_ascii)

lemma double_encode_scalar: "scalar v \<Longrightarrow> \<exists>e. double_encode v = Inr e"
proof -
  assume "scalar v"
  then obtain s where s: "to_string v = Inr s" "ascii s" using to_string_scalar by blast
  then obtain e where e: "encodeURIComponent s = Inr e" "ascii e" using encode_ascii by blast
  then obtain e' where "encodeURIComponent e = Inr e'" using encode_ascii by blast
  with s e show ?thesis by (simp add: double_encode_def and_then_def)
qed

lemma addParam_total: "nullish v \<or> scalar v \<Longrightarrow> \<exists>sp'. addParam p k v sp = Inr sp'"
  using double_encode_scalar [of v] by (auto simp: addParam_def and_then_def)

lemma addNestedParam_total:
  "nullish v \<or> scalar v \<Longrightarrow> \<exists>sp'. addNestedParam p k k' v sp = Inr sp'"
  using double_encode_scalar [of v] by (auto simp: addNestedParam_def and_then_def)

lemma add_nested_total:
  "list_all (\<lambda>kv. nullish (snd kv) \<or> scalar (snd kv)) kvs \<Longrightarrow> \<exists>sp'. add_nested key kvs sp = Inr sp'"
proof (induction kvs arbitrary: sp)
  case Nil
  then show ?case by simp
next
  case (Cons kv kvs)
  obtain k v where kv: "kv = (k, v)" by (cases kv)
  with Cons.prems have "nullish v \<or> scalar v" by simp
  then obtain sp1 where
    "(if nullish v then Inr sp else addNestedParam ''connection_info'' key k v sp) = Inr sp1"
    using addNestedParam_total [of v "''connection_info''" key k sp] by auto
  moreover from Cons obtain sp2 where "add_nested key kvs sp1 = Inr sp2" by fastforce
  ultimately show ?case by (simp add: kv and_then_def)
qed

lemma add_connection_info_total:
  "list_all (\<lambda>kv. plain (snd kv)) kvs \<Longrightarrow> \<exists>sp'. add_connection_info kvs sp = Inr sp'"
proof (induction kvs arbitrary: sp)
  case Nil
  then show ?case by simp
next
  case (Cons kv kvs)
  obtain k v where kv: "kv = (k, v)" by (cases kv)
  with Cons.prems have p: "plain v" by simp
  have "\<exists>sp1. (if nullish v then Inr sp
               else if is_object v then add_nested k (entries v) sp
               else addParam ''connection_info'' k v sp) = Inr sp1"
  proof (cases "nullish v")
    case True
    then show ?thesis by simp
  next
    case nn: False
    show ?thesis
    proof (cases "is_object v")
      case True
      with p nn have "list_all (\<lambda>kv. nullish (snd kv) \<or> scalar (snd kv)) (entries v)"
        by (cases v) (auto simp: plain_def)
      with True nn show ?thesis using add_nested_total by simp
    next
      case False
      with p nn have "scalar v" by (auto simp: plain_def)
      with False nn show ?thesis using addParam_total by simp
    qed
  qed
  then obtain sp1 where
    "(if nullish v then Inr sp else if is_object v then add_nested k (entries v) sp
      else addParam ''connection_info'' k v sp) = Inr sp1" by blast
  moreover from Cons obtain sp2 where "add_connection_info kvs sp1 = Inr sp2" by fastforce
  ultimately show ?case by (simp add: kv and_then_def)
qed

lemma add_file_info_total:
  "list_all (\<lambda>kv. nullish (snd kv) \<or> scalar (snd kv)) kvs \<Longrightarrow> \<exists>sp'. add_file_info kvs sp = Inr sp'"
proof (induction kvs arbitrary: sp)
  case Nil
  then show ?case by simp
next
  case (Cons kv kvs)
  obtain k v where kv: "kv = (k, v)" by (cases kv)
  with Cons.prems have "nullish v \<or> scalar v" by simp
  then obtain sp1 where
    "(if nullish v then Inr sp else addParam ''file_info'' k v sp) = Inr sp1"
    using addParam_total [of v "''file_info''" k sp] by auto
  moreover from Cons obtain sp2 where "add_file_info kvs sp1 = Inr sp2" by fastforce
  ultimately show ?case by (simp add: kv and_then_def)
qed

lemma generate_total:
  assumes "list_all (\<lambda>kv. plain (snd kv)) ci"
    and "list_all (\<lambda>kv. nullish (snd kv) \<or> scalar (snd kv)) fi"
  shows "\<exists>u. generateBigCommercePreprocessorUrl ci (Some fi) = Inr u"
proof -
  have c: "scalar (JStr (js ''bigcommerce''))" and a: "scalar (JStr (js ''api''))"
    by (simp_all add: js_def)
  obtain sp0 where 0: "addParam ''connection_info'' (js ''client'') (JStr (js ''bigcommerce'')) [] = Inr sp0"
  proof -
    from c have "\<exists>sp0. addParam ''connection_info'' (js ''client'') (JStr (js ''bigcommerce'')) [] = Inr sp0"
      by (intro addParam_total disjI2)
    then show ?thesis using that by (elim exE)
  qed
  obtain sp1 where 1: "addParam ''connection_info'' (js ''protocol'') (JStr (js ''api'')) sp0 = Inr sp1"
  proof -
    from a have "\<exists>sp1. addParam ''connection_info'' (js ''protocol'') (JStr (js ''api'')) sp0 = Inr sp1"
      by (intro addParam_total disjI2)
    then show ?thesis using that by (elim exE)
  qed
  obtain sp2 where 2: "add_connection_info ci sp1 = Inr sp2"
    using add_connection_info_total [OF assms(1)] by blast
  obtain sp3 where 3: "add_file_info fi sp2 = Inr sp3"
    using add_file_info_total [OF assms(2)] by blast
  have "preprocessor_params ci (Some fi) = Inr sp3"
    unfolding preprocessor_params_def by (simp only: 0 1 2 3 and_then_def sum.case option.case)
  then show ?thesis
    by (simp add: generateBigCommercePreprocessorUrl_def and_then_def)
qed


lemma buildImportConfig_total:
  assumes "scalar (user_id user)" and "ascii (user_storeHash user)" and "scalar channel"
  shows "\<exists>c. buildImportConfig user channel isCreate = Inr c"
proof -
  have "\<exists>u. buildImportUrl user channel mode = Inr u" for mode
    unfolding buildImportUrl_def using assms
    by (intro generate_total)
      (simp_all add: buildConnectionInfo_def plain_def js_def show_nat.simps)
  then obtain u where
    "buildImportUrl user channel (if isCreate then ''create'' else ''update'') = Inr u"
    by blast
  then show ?thesis
    by (simp add: buildImportConfig_def Let_def and_then_def)
qed

lemma setup_url_total:
  assumes "ascii (accessToken params)" and "ascii (storeHash params)"
    and "ascii (or_else (clientId params) [])"
    and "ascii (or_else (storeUrl params) [])"
  shows "\<exists>u. generateBigCommercePreprocessorUrl (setup_connection_info params)
               (Some setup_file_info) = Inr u"
  using assms
  by (intro generate_total)
    (auto simp: setup_connection_info_def setup_file_info_def plain_def js_def or_else_def
       split: option.splits)

section \<open>Reading a query back\<close>

lemma scalar_unat: "\<not> is_lead c \<Longrightarrow> \<not> is_trail c \<Longrightarrow> scalar_value (unat c)"
  using unat16_bound [of c] by (auto simp: scalar_value_def lead_nat trail_nat)

lemma scalar_pair: "is_lead c \<Longrightarrow> is_trail d \<Longrightarrow> scalar_value (pair_code_point c d)"
  using utf16_pair(2,3) [of c d] by (simp add: scalar_value_def)

lemma scalar_replacement: "scalar_value 0xFFFD"
  by (simp add: scalar_value_def)


lemma code_points_scalar: "\<forall>cp\<in>set (code_points s). scalar_value cp"
proof (induction s rule: code_points.induct)
  case 1
  show ?case by simp
next
  case (2 c cs)
  show ?case
  proof (cases "is_lead c")
    case True
    note l = this
    show ?thesis
    proof (cases cs)
      case Nil
      with l show ?thesis by (simp add: scalar_replacement)
    next
      case (Cons d ds)
      show ?thesis
      proof (cases "is_trail d")
        case True
        with l Cons "2.IH"(1) [OF l Cons True] show ?thesis
          by (simp add: scalar_pair)
      next
        case False
        with l Cons "2.IH"(2) [OF l Cons False] show ?thesis
          by (simp add: scalar_replacement)
      qed
    qed
  next
    case False
    note nl = this
    show ?thesis
    proof (cases "is_trail c")
      case True
      with nl "2.IH"(3) [OF nl True] show ?thesis
        by (simp add: scalar_replacement)
    next
      case False
      with nl "2.IH"(4) [OF nl False] show ?thesis
        by (simp add: scalar_unat)
    qed
  qed
qed


lemma utf8_encode_octets: "scalar_value cp \<Longrightarrow> \<forall>b\<in>set (utf8_encode cp). b < 256"
proof -
  assume s: "scalar_value cp"
  consider "cp < 0x80" | "0x80 \<le> cp \<and> cp < 0x800" | "0x800 \<le> cp \<and> cp < 0x10000" | "0x10000 \<le> cp"
    by linarith
  then show ?thesis
  proof cases
    case 1 then show ?thesis by (simp add: utf8_encode_def)
  next
    case 2 then show ?thesis using utf8_2 [of cp] by blast
  next
    case 3 
    with s have "\<not> (0xD800 \<le> cp \<and> cp < 0xE000)" by (simp add: scalar_value_def)
    with 3 show ?thesis using utf8_3 [of cp] by blast
  next
    case 4
    with s have "cp < 0x110000" by (simp add: scalar_value_def)
    with 4 show ?thesis using utf8_4 [of cp] by blast
  qed
qed

lemma utf8_bytes_octets: "\<forall>b\<in>set (utf8_bytes s). b < 256"
  using code_points_scalar [of s] utf8_encode_octets by (auto simp: utf8_bytes_def)

lemma lossy_ascii: "cp < 0x80 \<Longrightarrow>
  utf8_decode_lossy utf8_start (utf8_encode cp @ bs) = cp # utf8_decode_lossy utf8_start bs"
  by (simp add: utf8_encode_def utf8_start_def)


lemma lossy_lead2:
  "0xC2 \<le> b \<Longrightarrow> b \<le> 0xDF \<Longrightarrow>
   utf8_decode_lossy utf8_start (b # bs) = utf8_decode_lossy (b mod 32, 0, 1, 0x80, 0xBF) bs"
  by (simp add: utf8_start_def)

lemma lossy_lead3:
  "0xE0 \<le> b \<Longrightarrow> b \<le> 0xEF \<Longrightarrow>
   utf8_decode_lossy utf8_start (b # bs) =
     utf8_decode_lossy (b mod 16, 0, 2, if b = 0xE0 then 0xA0 else 0x80,
       if b = 0xED then 0x9F else 0xBF) bs"
  by (simp add: utf8_start_def)

lemma lossy_lead4:
  "0xF0 \<le> b \<Longrightarrow> b \<le> 0xF4 \<Longrightarrow>
   utf8_decode_lossy utf8_start (b # bs) =
     utf8_decode_lossy (b mod 8, 0, 3, if b = 0xF0 then 0x90 else 0x80,
       if b = 0xF4 then 0x8F else 0xBF) bs"
  by (simp add: utf8_start_def)

lemma lossy_last:
  "needed = Suc seen \<Longrightarrow> lower \<le> b \<Longrightarrow> b \<le> upper \<Longrightarrow>
   utf8_decode_lossy (cp, seen, needed, lower, upper) (b # bs) =
     (cp * 64 + b mod 64) # utf8_decode_lossy utf8_start bs"
  by simp

lemma lossy_cont:
  "needed \<noteq> 0 \<Longrightarrow> needed \<noteq> Suc seen \<Longrightarrow> lower \<le> b \<Longrightarrow> b \<le> upper \<Longrightarrow>
   utf8_decode_lossy (cp, seen, needed, lower, upper) (b # bs) =
     utf8_decode_lossy (cp * 64 + b mod 64, Suc seen, needed, 0x80, 0xBF) bs"
  by auto

lemma mod_plus: "m < k \<Longrightarrow> (a * k + m) mod k = (m::nat)" "m < k \<Longrightarrow> (k * a + m) mod k = m"
  by simp_all

lemma lossy_2:
  assumes "0x80 \<le> cp" and "cp < 0x800"
  shows "utf8_decode_lossy utf8_start (utf8_encode cp @ bs) = cp # utf8_decode_lossy utf8_start bs"
proof -
  define d where "d = cp div 64"
  define m where "m = cp mod 64"
  have d: "2 \<le> d" "d < 32" using assms by (simp_all add: d_def less_mult_imp_div_less)
  have m: "m < 64" by (simp add: m_def)
  have cp: "d * 64 + m = cp" by (simp add: d_def m_def)
  have e: "utf8_encode cp = [0xC0 + d, 0x80 + m]"
    using assms by (simp add: utf8_encode_def d_def m_def)
  have 1: "(0xC0 + d) mod 32 = d" using mod_plus(1) [of d 32 6] d by simp
  have 2: "(0x80 + m) mod 64 = m" using mod_plus(1) [of m 64 2] m by simp
  have "utf8_decode_lossy utf8_start ((0xC0 + d) # (0x80 + m) # bs) =
          utf8_decode_lossy ((0xC0 + d) mod 32, 0, 1, 0x80, 0xBF) ((0x80 + m) # bs)"
    using d by (intro lossy_lead2) simp_all
  also have "\<dots> = (d * 64 + (0x80 + m) mod 64) # utf8_decode_lossy utf8_start bs"
    unfolding 1 using m by (intro lossy_last) simp_all
  finally show ?thesis
    by (simp only: e 2 cp append_Cons append_Nil)
qed


lemma lossy_3:
  assumes "0x800 \<le> cp" and "cp < 0x10000" and "\<not> (0xD800 \<le> cp \<and> cp < 0xE000)"
  shows "utf8_decode_lossy utf8_start (utf8_encode cp @ bs) = cp # utf8_decode_lossy utf8_start bs"
proof -
  define q where "q = cp div 64"
  define a where "a = q div 64"
  define b where "b = q mod 64"
  define c where "c = cp mod 64"
  have q: "32 \<le> q" "q < 1024" "q * 64 + c = cp"
    using assms by (simp_all add: q_def c_def less_mult_imp_div_less)
  have a: "a < 16" "a * 64 + b = q" using q by (simp_all add: a_def b_def less_mult_imp_div_less)
  have b: "b < 64" by (simp add: b_def)
  have c: "c < 64" by (simp add: c_def)
  have a4: "cp div 4096 = a" by (simp add: a_def q_def div_mult2_eq)
  have e: "utf8_encode cp = [0xE0 + a, 0x80 + b, 0x80 + c]"
    using assms by (simp add: utf8_encode_def a4 b_def q_def c_def)
  have lo: "(if 0xE0 + a = 0xE0 then 0xA0 else 0x80) \<le> 0x80 + b"
    using q(1) a(2) by auto
  have "\<not> (864 \<le> q \<and> q < 896)"
  proof
    assume "864 \<le> q \<and> q < 896"
    with q(3) c have "0xD800 \<le> cp \<and> cp < 0xE000" by simp
    with assms(3) show False by simp
  qed
  then have hi: "0x80 + b \<le> (if 0xE0 + a = 0xED then 0x9F else 0xBF)"
    using a(2) b by auto
  have 1: "(0xE0 + a) mod 16 = a" using mod_plus(1) [of a 16 14] a by simp
  have 2: "(0x80 + b) mod 64 = b" using mod_plus(1) [of b 64 2] b by simp
  have 3: "(0x80 + c) mod 64 = c" using mod_plus(1) [of c 64 2] c by simp
  have "utf8_decode_lossy utf8_start ((0xE0 + a) # (0x80 + b) # (0x80 + c) # bs) =
          utf8_decode_lossy ((0xE0 + a) mod 16, 0, 2, if 0xE0 + a = 0xE0 then 0xA0 else 0x80,
            if 0xE0 + a = 0xED then 0x9F else 0xBF) ((0x80 + b) # (0x80 + c) # bs)"
    using a by (intro lossy_lead3) simp_all
  also have "\<dots> = utf8_decode_lossy (a * 64 + (0x80 + b) mod 64, Suc 0, 2, 0x80, 0xBF)
                      ((0x80 + c) # bs)"
    unfolding 1 using lo hi by (intro lossy_cont) simp_all
  also have "\<dots> = ((a * 64 + b) * 64 + (0x80 + c) mod 64) # utf8_decode_lossy utf8_start bs"
    unfolding 2 using c by (intro lossy_last) simp_all
  finally show ?thesis
    by (simp only: e 3 a(2) q(3) append_Cons append_Nil)
qed

lemma lossy_4:
  assumes "0x10000 \<le> cp" and "cp < 0x110000"
  shows "utf8_decode_lossy utf8_start (utf8_encode cp @ bs) = cp # utf8_decode_lossy utf8_start bs"
proof -
  define r where "r = cp div 64"
  define q where "q = r div 64"
  define a where "a = q div 64"
  define b where "b = q mod 64"
  define c where "c = r mod 64"
  define e where "e = cp mod 64"
  have r: "r * 64 + e = cp" "r < 17408" "1024 \<le> r"
    using assms by (simp_all add: r_def e_def less_mult_imp_div_less)
  have q: "q * 64 + c = r" "q < 272" "16 \<le> q"
    using r by (simp_all add: q_def c_def less_mult_imp_div_less)
  have a: "a \<le> 4" "a * 64 + b = q" using q by (simp_all add: a_def b_def)
  have b: "b < 64" by (simp add: b_def)
  have c: "c < 64" by (simp add: c_def)
  have e: "e < 64" by (simp add: e_def)
  have q4: "cp div 4096 = q" by (simp add: q_def r_def div_mult2_eq)
  have a4: "cp div 262144 = a" by (simp add: a_def q_def r_def div_mult2_eq)
  have enc: "utf8_encode cp = [0xF0 + a, 0x80 + b, 0x80 + c, 0x80 + e]"
    using assms by (simp add: utf8_encode_def a4 q4 b_def c_def e_def r_def)
  have lo: "(if 0xF0 + a = 0xF0 then 0x90 else 0x80) \<le> 0x80 + b"
    using q(3) a(2) by auto
  have hi: "0x80 + b \<le> (if 0xF0 + a = 0xF4 then 0x8F else 0xBF)"
    using q(2) a(2) b by auto
  have 1: "(0xF0 + a) mod 8 = a" using mod_plus(1) [of a 8 30] a by simp
  have 2: "(0x80 + b) mod 64 = b" using mod_plus(1) [of b 64 2] b by simp
  have 3: "(0x80 + c) mod 64 = c" using mod_plus(1) [of c 64 2] c by simp
  have 4: "(0x80 + e) mod 64 = e" using mod_plus(1) [of e 64 2] e by simp
  have "utf8_decode_lossy utf8_start ((0xF0 + a) # (0x80 + b) # (0x80 + c) # (0x80 + e) # bs) =
          utf8_decode_lossy ((0xF0 + a) mod 8, 0, 3, if 0xF0 + a = 0xF0 then 0x90 else 0x80,
            if 0xF0 + a = 0xF4 then 0x8F else 0xBF) ((0x80 + b) # (0x80 + c) # (0x80 + e) # bs)"
    using a by (intro lossy_lead4) simp_all
  also have "\<dots> = utf8_decode_lossy (a * 64 + (0x80 + b) mod 64, Suc 0, 3, 0x80, 0xBF)
                      ((0x80 + c) # (0x80 + e) # bs)"
    unfolding 1 using lo hi by (intro lossy_cont) simp_all
  also have "\<dots> = utf8_decode_lossy ((a * 64 + b) * 64 + (0x80 + c) mod 64, Suc (Suc 0), 3, 0x80, 0xBF)
                      ((0x80 + e) # bs)"
    unfolding 2 using c by (intro lossy_cont) simp_all
  also have "\<dots> = (((a * 64 + b) * 64 + c) * 64 + (0x80 + e) mod 64) # utf8_decode_lossy utf8_start bs"
    unfolding 3 using e by (intro lossy_last) simp_all
  finally show ?thesis
    by (simp only: enc 4 a(2) q(1) r(1) append_Cons append_Nil)
qed

lemma lossy_encode:
  assumes "scalar_value cp"
  shows "utf8_decode_lossy utf8_start (utf8_encode cp @ bs) = cp # utf8_decode_lossy utf8_start bs"
proof -
  consider "cp < 0x80" | "0x80 \<le> cp \<and> cp < 0x800" | "0x800 \<le> cp \<and> cp < 0x10000" | "0x10000 \<le> cp"
    by linarith
  then show ?thesis
  proof cases
    case 1 then show ?thesis by (rule lossy_ascii)
  next
    case 2 then show ?thesis using lossy_2 by blast
  next
    case 3
    with assms have "\<not> (0xD800 \<le> cp \<and> cp < 0xE000)" by (simp add: scalar_value_def)
    with 3 show ?thesis using lossy_3 by blast
  next
    case 4
    with assms have "cp < 0x110000" by (simp add: scalar_value_def)
    with 4 show ?thesis using lossy_4 by blast
  qed
qed

lemma lossy_empty: "utf8_decode_lossy utf8_start [] = []"
  by (simp add: utf8_start_def)

lemma lossy_round_trip:
  "\<forall>cp\<in>set cps. scalar_value cp \<Longrightarrow>
   utf8_decode_lossy utf8_start (concat (map utf8_encode cps)) = cps"
  by (induction cps) (simp_all add: lossy_empty lossy_encode)

lemma code_points_bmp:
  assumes "cp < 0x10000" and "\<not> (0xD800 \<le> cp \<and> cp < 0xE000)"
  shows "code_points (utf16_encode cp @ s) = cp # code_points s"
proof -
  have u: "unat (of_nat cp :: 16 word) = cp"
    using assms(1) by (intro unat_of_nat16) simp
  have "\<not> is_lead (of_nat cp :: 16 word)" "\<not> is_trail (of_nat cp :: 16 word)"
    using assms(2) by (auto simp: lead_nat trail_nat u)
  then show ?thesis
    using assms(1) by (simp add: utf16_encode_def u)
qed

lemma code_points_pair:
  assumes "0x10000 \<le> cp" and "cp < 0x110000"
  shows "code_points (utf16_encode cp @ s) = cp # code_points s"
proof -
  define h where "h = (cp - 0x10000) div 0x400"
  define l where "l = (cp - 0x10000) mod 0x400"
  define H :: "16 word" where "H = of_nat (h + 0xD800)"
  define L :: "16 word" where "L = of_nat (l + 0xDC00)"
  have h: "h < 0x400" using assms by (simp add: h_def less_mult_imp_div_less)
  have l: "l < 0x400" by (simp add: l_def)
  have cp: "h * 0x400 + l + 0x10000 = cp" using assms(1) by (simp add: h_def l_def)
  have uh: "unat H = h + 0xD800"
    unfolding H_def using h by (intro unat_of_nat16) simp
  have ul: "unat L = l + 0xDC00"
    unfolding L_def using l by (intro unat_of_nat16) simp
  have lead: "is_lead H"
    using h by (simp add: lead_nat uh)
  have trail: "is_trail L"
    using l by (simp add: trail_nat ul)
  have p: "pair_code_point H L = cp"
    by (simp add: pair_code_point_def uh ul cp)
  have e: "utf16_encode cp = [H, L]"
    using assms(1) by (simp add: utf16_encode_def h_def l_def H_def L_def)
  show ?thesis
    unfolding e using lead trail p by simp
qed

lemma code_points_utf16:
  "\<forall>cp\<in>set cps. scalar_value cp \<Longrightarrow> code_points (concat (map utf16_encode cps)) = cps"
proof (induction cps)
  case Nil
  show ?case by simp
next
  case (Cons cp cps)
  then have s: "scalar_value cp" and ih: "code_points (concat (map utf16_encode cps)) = cps"
    by simp_all
  have "code_points (utf16_encode cp @ concat (map utf16_encode cps)) =
          cp # code_points (concat (map utf16_encode cps))"
  proof (cases "cp < 0x10000")
    case True
    with s show ?thesis by (intro code_points_bmp) (simp_all add: scalar_value_def)
  next
    case False
    with s show ?thesis by (intro code_points_pair) (simp_all add: scalar_value_def)
  qed
  with ih show ?case by simp
qed

lemma code_points_usv: "code_points (usv s) = code_points s"
  unfolding usv_def by (rule code_points_utf16) (rule code_points_scalar)

lemma usv_usv: "usv (usv s) = usv s"
  by (simp add: usv_def [of "usv s"] code_points_usv) (simp add: usv_def)

lemma code_points_ascii: "ascii s \<Longrightarrow> code_points s = map unat s"
proof (induction s)
  case Nil
  show ?case by simp
next
  case (Cons c cs)
  then have c: "unat c < 0x80" by (simp add: word_less_nat_alt)
  then have "\<not> is_lead c" "\<not> is_trail c" by (simp_all add: lead_nat trail_nat)
  with Cons show ?case by simp
qed

lemma usv_ascii: "ascii s \<Longrightarrow> usv s = s"
  by (simp add: usv_def code_points_ascii comp_def utf16_bmp)

lemma utf8_bytes_ascii: "ascii s \<Longrightarrow> utf8_bytes s = map unat s"
proof -
  assume a: "ascii s"
  have "concat (map utf8_encode (map unat s)) = map unat s"
    using a
  proof (induction s)
    case Nil
    show ?case by simp
  next
    case (Cons c cs)
    then have c: "unat c < 0x80" by (simp add: word_less_nat_alt)
    with Cons show ?case by (simp add: utf8_encode_def)
  qed
  with a show ?thesis by (simp add: utf8_bytes_def code_points_ascii)
qed

lemma pd_other: "p \<noteq> 37 \<Longrightarrow> percent_decode (p # xs) = p # percent_decode xs"
proof (cases xs)
  case Nil
  then show ?thesis by simp
next
  case (Cons h ys)
  then show "p \<noteq> 37 \<Longrightarrow> ?thesis" by (cases ys) simp_all
qed

lemma pd_pct:
  "hex_value (of_nat h) = Some a \<Longrightarrow> hex_value (of_nat l) = Some c \<Longrightarrow>
   percent_decode (37 # h # l # bs) = (16 * a + c) # percent_decode bs"
  by simp

lemma alnum_nat: "is_alnum c = ((48 \<le> unat c \<and> unat c \<le> 57) \<or> (65 \<le> unat c \<and> unat c \<le> 90) \<or>
  (97 \<le> unat c \<and> unat c \<le> 122))"
  by (simp add: is_alnum_def word_le_nat_alt)

lemma hex_digit_unat: "n < 16 \<Longrightarrow> unat (hex_digit n) = (if n < 10 then 48 + n else 55 + n)"
  unfolding hex_digit_def by (intro unat_of_nat16) simp

lemma hex_digit_alnum: "n < 16 \<Longrightarrow> is_alnum (hex_digit n)"
  by (auto simp: alnum_nat hex_digit_unat)

lemma form_octet_safe: "b < 256 \<Longrightarrow> \<forall>c\<in>set (form_octet b). form_safe c"
  by (auto simp: form_octet_def form_safe_def pct_def hex_digit_alnum less_mult_imp_div_less)

lemma form_urlencode_safe: "\<forall>c\<in>set (form_urlencode s). form_safe c"
  using utf8_bytes_octets [of s] form_octet_safe
  by (auto simp: form_urlencode_def utf8_bytes_def)

lemma form_octet_decode:
  assumes "b < 256"
  shows "percent_decode (map plus_to_space (map unat (form_octet b)) @ rest) = b # percent_decode rest"
proof (cases "b = 32")
  case True
  then show ?thesis by (simp add: form_octet_def plus_to_space_def pd_other)
next
  case ns: False
  show ?thesis
  proof (cases "b < 128 \<and> (is_alnum (of_nat b) \<or> b \<in> {42, 45, 46, 95})")
    case True
    then have u: "unat (of_nat b :: 16 word) = b" by (intro unat_of_nat16) simp
    from True have "b \<noteq> 43" "b \<noteq> 37" by (auto simp: alnum_nat u)
    with True ns show ?thesis
      by (simp add: form_octet_def plus_to_space_def pd_other u del: of_nat_numeral)
  next
    case False
    define h where "h = b div 16"
    define l where "l = b mod 16"
    have h: "h < 16" using assms by (simp add: h_def less_mult_imp_div_less)
    have l: "l < 16" by (simp add: l_def)
    have b: "16 * h + l = b" by (simp add: h_def l_def)
    have ph: "plus_to_space (unat (hex_digit h)) = unat (hex_digit h)"
      using h by (simp add: plus_to_space_def hex_digit_unat)
    have pl: "plus_to_space (unat (hex_digit l)) = unat (hex_digit l)"
      using l by (simp add: plus_to_space_def hex_digit_unat)
    have d: "percent_decode (37 # unat (hex_digit h) # unat (hex_digit l) # rest) =
            (16 * h + l) # percent_decode rest"
      using h l by (intro pd_pct) (simp_all add: hex_value_digit)
    have f: "form_octet b = [37, hex_digit h, hex_digit l]"
      using False ns by (simp add: form_octet_def pct_def h_def l_def)
    have "map plus_to_space (map unat (form_octet b)) @ rest =
            37 # unat (hex_digit h) # unat (hex_digit l) # rest"
      unfolding f by (simp add: ph pl) (simp add: plus_to_space_def)
    with d b show ?thesis by simp
  qed
qed

lemma percent_round_trip:
  "\<forall>b\<in>set bs. b < 256 \<Longrightarrow>
   percent_decode (map plus_to_space (map unat (concat (map form_octet bs)))) = bs"
proof (induction bs)
  case Nil
  show ?case by simp
next
  case (Cons b bs)
  then have "percent_decode (map plus_to_space (map unat (form_octet b)) @
               map plus_to_space (map unat (concat (map form_octet bs)))) =
             b # percent_decode (map plus_to_space (map unat (concat (map form_octet bs))))"
    by (intro form_octet_decode) simp
  with Cons show ?case by simp
qed

lemma decode_component_form: "decode_component (map unat (form_urlencode t)) = usv t"
proof -
  have "percent_decode (map plus_to_space (map unat (form_urlencode t))) = utf8_bytes t"
    unfolding form_urlencode_def utf8_bytes_def [symmetric]
    by (rule percent_round_trip) (rule utf8_bytes_octets)
  moreover have "utf8_decode_lossy utf8_start (utf8_bytes t) = code_points t"
    unfolding utf8_bytes_def by (rule lossy_round_trip) (rule code_points_scalar)
  ultimately show ?thesis
    by (simp add: decode_component_def usv_def)
qed

lemma form_safe_unat:
  "form_safe c \<Longrightarrow>
   (48 \<le> unat c \<and> unat c \<le> 57) \<or> (65 \<le> unat c \<and> unat c \<le> 90) \<or>
   (97 \<le> unat c \<and> unat c \<le> 122) \<or> unat c \<in> {37, 42, 43, 45, 46, 95}"
  by (auto simp: form_safe_def alnum_nat)

lemma unat_38: "unat (38 :: 16 word) = 38" "unat (61 :: 16 word) = 61" "unat (63 :: 16 word) = 63"
  by simp_all

lemma query_char:
  assumes "form_safe c \<or> c = 38 \<or> c = 61"
  shows "c < 0x80" and "\<not> c \<le> 0x20" and "c \<notin> {9, 10, 13}" and "c \<noteq> 35" and "c \<noteq> 63"
    and "\<not> in_query_set (unat c)"
proof -
  have u: "(48 \<le> unat c \<and> unat c \<le> 57) \<or> (65 \<le> unat c \<and> unat c \<le> 90) \<or>
     (97 \<le> unat c \<and> unat c \<le> 122) \<or> unat c \<in> {37, 38, 42, 43, 45, 46, 61, 95}"
    using assms form_safe_unat [of c] by (auto simp: unat_38)
  then show "c < 0x80" by (auto simp: word_less_nat_alt)
  from u show "\<not> c \<le> 0x20" by (auto simp: word_le_nat_alt)
  from u show "\<not> in_query_set (unat c)" by (auto simp: in_query_set_def)
  from u have "unat c \<notin> {9, 10, 13, 35, 63}" by auto
  then show "c \<notin> {9, 10, 13}" "c \<noteq> 35" "c \<noteq> 63" by auto
qed

lemma form_safe_sep: "form_safe c \<Longrightarrow> unat c \<noteq> 38 \<and> unat c \<noteq> 61"
  using form_safe_unat [of c] by auto

lemma split_at_none: "x \<notin> set xs \<Longrightarrow> split_at x xs = [xs]"
  by (induction xs) simp_all

lemma split_at_append: "x \<notin> set xs \<Longrightarrow> split_at x (xs @ x # ys) = xs # split_at x ys"
  by (induction xs) simp_all

lemma takeWhile_sep: "x \<notin> set xs \<Longrightarrow> takeWhile (\<lambda>b. b \<noteq> x) (xs @ x # ys) = xs"
  by (induction xs) auto

lemma dropWhile_sep: "x \<notin> set xs \<Longrightarrow> dropWhile (\<lambda>b. b \<noteq> x) (xs @ x # ys) = x # ys"
  by (induction xs) auto

lemma pair_text_chars: "\<forall>c\<in>set (pair_text kv). form_safe c \<or> c = 61"
  using form_urlencode_safe by (auto simp: pair_text_def)

lemma pair_text_no_amp: "38 \<notin> set (map unat (pair_text kv))"
proof
  assume "38 \<in> set (map unat (pair_text kv))"
  then obtain c where c: "c \<in> set (pair_text kv)" "unat c = 38" by auto
  with pair_text_chars [of kv] have "form_safe c \<or> c = 61" by blast
  with c(2) show False using form_safe_sep [of c] by auto
qed

lemma form_no_eq: "61 \<notin> set (map unat (form_urlencode s))"
proof
  assume "61 \<in> set (map unat (form_urlencode s))"
  then obtain c where c: "c \<in> set (form_urlencode s)" "unat c = 61" by auto
  with form_urlencode_safe [of s] have "form_safe c" by blast
  with c(2) show False using form_safe_sep [of c] by auto
qed

lemma parse_pair_text: "parse_pair (map unat (pair_text kv)) = (usv (fst kv), usv (snd kv))"
proof -
  let ?n = "map unat (form_urlencode (fst kv))"
  let ?v = "map unat (form_urlencode (snd kv))"
  have e: "map unat (pair_text kv) = ?n @ 61 # ?v"
    by (simp add: pair_text_def)
  have t: "takeWhile (\<lambda>b. b \<noteq> 61) (?n @ 61 # ?v) = ?n"
    using form_no_eq [of "fst kv"] by (rule takeWhile_sep)
  have d: "dropWhile (\<lambda>b. b \<noteq> 61) (?n @ 61 # ?v) = 61 # ?v"
    using form_no_eq [of "fst kv"] by (rule dropWhile_sep)
  show ?thesis
    unfolding parse_pair_def e t d by (simp add: decode_component_form)
qed

lemma split_join:
  "ps \<noteq> [] \<Longrightarrow> \<forall>p\<in>set ps. 38 \<notin> set (map unat p) \<Longrightarrow>
   split_at 38 (map unat (join_amp ps)) = map (map unat) ps"
proof (induction ps rule: join_amp.induct)
  case 1
  then show ?case by simp
next
  case (2 x)
  then show ?case by (simp add: split_at_none)
next
  case (3 x y zs)
  then have "split_at 38 (map unat (join_amp (y # zs))) = map (map unat) (y # zs)" by simp
  moreover have "split_at 38 (map unat x @ 38 # map unat (join_amp (y # zs))) =
                   map unat x # split_at 38 (map unat (join_amp (y # zs)))"
    using 3(3) by (intro split_at_append) simp
  ultimately show ?case by simp
qed

lemma sp_toString_text: "sp_toString ps = join_amp (map pair_text ps)"
  by (simp add: sp_toString_def pair_text_def [abs_def])

lemma pair_text_nonempty: "map unat (pair_text kv) \<noteq> []"
  by (simp add: pair_text_def)

lemma urlencoded_parse_toString:
  "ps \<noteq> [] \<Longrightarrow>
   urlencoded_parse (map unat (sp_toString ps)) = map (\<lambda>kv. (usv (fst kv), usv (snd kv))) ps"
proof -
  assume ne: "ps \<noteq> []"
  have "split_at 38 (map unat (join_amp (map pair_text ps))) = map (map unat) (map pair_text ps)"
    using ne pair_text_no_amp by (intro split_join) auto
  moreover have "filter (\<lambda>p. p \<noteq> []) (map (map unat) (map pair_text ps)) =
                   map (map unat) (map pair_text ps)"
    using pair_text_nonempty by (intro filter_True) auto
  ultimately show ?thesis
    by (simp add: urlencoded_parse_def sp_toString_text parse_pair_text comp_def)
qed

lemma join_amp_chars:
  "\<forall>p\<in>set ps. \<forall>c\<in>set p. P c \<Longrightarrow> P 38 \<Longrightarrow> \<forall>c\<in>set (join_amp ps). P c"
  by (induction ps rule: join_amp.induct) auto

lemma sp_toString_chars: "\<forall>c\<in>set (sp_toString ps). form_safe c \<or> c = 38 \<or> c = 61"
  unfolding sp_toString_text
  using pair_text_chars by (intro join_amp_chars) auto

lemma join_amp_nonempty: "ps \<noteq> [] \<Longrightarrow> \<forall>p\<in>set ps. p \<noteq> [] \<Longrightarrow> join_amp ps \<noteq> []"
  by (induction ps rule: join_amp.induct) auto

lemma sp_toString_nonempty: "ps \<noteq> [] \<Longrightarrow> sp_toString ps \<noteq> []"
  unfolding sp_toString_text
  by (intro join_amp_nonempty) (auto simp: pair_text_def)

lemma sp_toString_ascii: "ascii (sp_toString ps)"
  using sp_toString_chars [of ps] query_char(1) by (auto simp: ascii_def list_all_iff)

lemma new_URLSearchParams_toString:
  "ps \<noteq> [] \<Longrightarrow>
   new_URLSearchParams (63 # sp_toString ps) = map (\<lambda>kv. (usv (fst kv), usv (snd kv))) ps"
proof -
  assume ne: "ps \<noteq> []"
  have a: "ascii (63 # sp_toString ps)"
    using sp_toString_ascii [of ps] by simp
  show ?thesis
    using ne
    by (simp add: new_URLSearchParams_def usv_ascii [OF a] utf8_bytes_ascii [OF sp_toString_ascii]
          urlencoded_parse_toString)
qed

lemma trim_c0_id:
  assumes "s \<noteq> []" and "\<not> hd s \<le> 0x20" and "\<not> last s \<le> 0x20"
  shows "trim_c0 s = s"
proof -
  from assms(1,2) have 1: "dropWhile (\<lambda>c. c \<le> 0x20) s = s"
    by (cases s) simp_all
  from assms(1) obtain xs x where x: "s = xs @ [x]"
    by (cases s rule: rev_cases) auto
  with assms(3) have 2: "dropWhile (\<lambda>c. c \<le> 0x20) (rev s) = rev s"
    by simp
  show ?thesis
    by (simp add: trim_c0_def 1 2)
qed

lemma query_encode_id:
  assumes "\<forall>c\<in>set q. form_safe c \<or> c = 38 \<or> c = 61"
  shows "query_encode q = q"
proof -
  have a: "ascii q"
    using assms query_char(1) by (auto simp: ascii_def list_all_iff)
  have "concat (map (\<lambda>cp. if in_query_set cp then pct_utf8 cp else utf16_encode cp) (map unat q)) = q"
    using assms
  proof (induction q)
    case Nil
    show ?case by simp
  next
    case (Cons c cs)
    then have "\<not> in_query_set (unat c)" using query_char(6) [of c] by simp
    with Cons show ?case by (simp add: utf16_bmp)
  qed
  with a show ?thesis
    by (simp add: query_encode_def code_points_ascii)
qed

lemma base_chars:
  "ascii preprocessor_base" "\<forall>c\<in>set preprocessor_base. c \<notin> {9, 10, 13}"
  "63 \<notin> set preprocessor_base" "preprocessor_base \<noteq> []" "\<not> hd preprocessor_base \<le> 0x20"
  "35 \<notin> set preprocessor_base"
  by (simp_all add: preprocessor_base_def js_def)

lemma url_search_query:
  assumes "\<forall>c\<in>set q. form_safe c \<or> c = 38 \<or> c = 61" and "q \<noteq> []"
  shows "url_search (preprocessor_base @ js ''?'' @ q) = 63 # q"
proof -
  let ?u = "preprocessor_base @ 63 # q"
  have j: "js ''?'' = [63]" by (simp add: js_def)
  have qa: "ascii q"
    using assms(1) query_char(1) by (auto simp: ascii_def list_all_iff)
  have a: "ascii ?u" using base_chars(1) qa by simp
  have l: "\<not> last ?u \<le> 0x20"
    using assms query_char(2) [of "last q"] last_in_set [of q] by simp
  have h: "\<not> hd ?u \<le> 0x20"
    using base_chars(4,5) by simp
  have t: "trim_c0 ?u = ?u"
    using h l by (intro trim_c0_id) simp_all
  have f: "filter (\<lambda>c. c \<notin> {9, 10, 13}) ?u = ?u"
  proof (intro filter_True ballI)
    fix c assume "c \<in> set ?u"
    then consider "c \<in> set preprocessor_base" | "c = 63" | "c \<in> set q" by auto
    then show "c \<notin> {9, 10, 13}"
    proof cases
      case 1 then show ?thesis using base_chars(2) by blast
    next
      case 2 then show ?thesis by simp
    next
      case 3 then show ?thesis using assms(1) query_char(3) [of c] by blast
    qed
  qed
  have k: "takeWhile (\<lambda>c. c \<noteq> 35) ?u = ?u"
  proof -
    have "\<forall>c\<in>set ?u. c \<noteq> 35"
    proof
      fix c assume "c \<in> set ?u"
      then consider "c \<in> set preprocessor_base" | "c = 63" | "c \<in> set q" by auto
      then show "c \<noteq> 35"
      proof cases
        case 1 then show ?thesis using base_chars(6) by blast
      next
        case 2 then show ?thesis by simp
      next
        case 3 then show ?thesis using assms(1) query_char(4) [of c] by blast
      qed
    qed
    then show ?thesis by (simp only: takeWhile_eq_all_conv)
  qed
  have d: "dropWhile (\<lambda>c. c \<noteq> 63) ?u = 63 # q"
    using base_chars(3) by (rule dropWhile_sep)
  have e: "preprocessor_base @ js ''?'' @ q = ?u" by (simp add: j)
  show ?thesis
    unfolding e url_search_def Let_def usv_ascii [OF a] t f k d
    using assms(2) by (simp add: query_encode_id [OF assms(1)])
qed

lemma query_of_params:
  assumes "ps \<noteq> []"
  shows "new_URLSearchParams (url_search (preprocessor_base @ js ''?'' @ sp_toString ps)) =
           map (\<lambda>kv. (usv (fst kv), usv (snd kv))) ps"
  using assms
  by (simp add: url_search_query [OF sp_toString_chars sp_toString_nonempty]
        new_URLSearchParams_toString)

lemma set_all_append: "set_all (xs @ ys) sp = and_then (set_all xs sp) (set_all ys)"
proof (induction xs arbitrary: sp)
  case Nil
  show ?case by (simp add: and_then_def)
next
  case (Cons nv xs)
  show ?case
    by (cases "double_encode (snd nv)") (simp_all add: and_then_def Cons)
qed

lemma add_nested_set_all: "add_nested key subs sp = set_all (nested_fields key subs) sp"
proof (induction subs arbitrary: sp)
  case Nil
  show ?case by (simp add: nested_fields_def)
next
  case (Cons kv subs)
  obtain k v where kv: "kv = (k, v)" by (cases kv)
  show ?case
  proof (cases "nullish v")
    case True
    with Cons [of sp] show ?thesis
      by (simp add: kv and_then_def nested_fields_def)
  next
    case False
    have n: "nested_fields key (kv # subs) =
               (js ''connection_info'' @ js ''['' @ key @ js '']['' @ k @ js '']'', v) #
               nested_fields key subs"
      using False by (simp add: nested_fields_def kv)
    show ?thesis
      unfolding n using False
      by (cases "double_encode v") (simp_all add: kv addNestedParam_def and_then_def Cons)
  qed
qed

lemma add_file_info_set_all: "add_file_info fi sp = set_all (file_fields fi) sp"
proof (induction fi arbitrary: sp)
  case Nil
  show ?case by (simp add: file_fields_def)
next
  case (Cons kv fi)
  obtain k v where kv: "kv = (k, v)" by (cases kv)
  show ?case
  proof (cases "nullish v")
    case True
    with Cons [of sp] show ?thesis
      by (simp add: kv and_then_def file_fields_def)
  next
    case False
    have n: "file_fields (kv # fi) = (js ''file_info'' @ js ''['' @ k @ js '']'', v) # file_fields fi"
      using False by (simp add: file_fields_def kv)
    show ?thesis
      unfolding n using False
      by (cases "double_encode v") (simp_all add: kv addParam_def and_then_def Cons)
  qed
qed

lemma addParam_set_all:
  "\<not> nullish v \<Longrightarrow> addParam p k v sp = set_all [(js p @ js ''['' @ k @ js '']'', v)] sp"
  by (cases "double_encode v") (simp_all add: addParam_def and_then_def)

lemma add_connection_info_set_all:
  "add_connection_info ci sp = set_all (connection_fields ci) sp"
proof (induction ci arbitrary: sp)
  case Nil
  show ?case by (simp add: connection_fields_def)
next
  case (Cons kv ci)
  obtain k v where kv: "kv = (k, v)" by (cases kv)
  have c: "connection_fields (kv # ci) =
             (if nullish v then [] else if is_object v then nested_fields k (entries v)
              else [(js ''connection_info'' @ js ''['' @ k @ js '']'', v)]) @ connection_fields ci"
    by (simp add: connection_fields_def kv)
  have "(if nullish v then Inr sp else if is_object v then add_nested k (entries v) sp
         else addParam ''connection_info'' k v sp) =
        set_all (if nullish v then [] else if is_object v then nested_fields k (entries v)
              else [(js ''connection_info'' @ js ''['' @ k @ js '']'', v)]) sp"
    by (simp add: add_nested_set_all addParam_set_all)
  then show ?case
    unfolding c set_all_append by (simp add: kv Cons [abs_def])
qed

lemma preprocessor_params_set_all: "preprocessor_params ci fi = set_all (url_fields ci fi) []"
proof -
  have n: "\<not> nullish (JStr s)" for s by simp
  have z: "set_all [] = Inr" by (rule ext) simp
  have "set_all (url_fields ci fi) [] =
          and_then (set_all [(js ''connection_info'' @ js ''['' @ js ''client'' @ js '']'',
                              JStr (js ''bigcommerce''))] [])
            (\<lambda>sp0. and_then (set_all [(js ''connection_info'' @ js ''['' @ js ''protocol'' @ js '']'',
                                        JStr (js ''api''))] sp0)
            (\<lambda>sp1. and_then (set_all (connection_fields ci) sp1)
            (set_all (case fi of None \<Rightarrow> [] | Some f \<Rightarrow> file_fields f))))"
    unfolding url_fields_def
    using set_all_append [of "[(js ''connection_info'' @ js ''['' @ js ''client'' @ js '']'',
                              JStr (js ''bigcommerce''))]"]
      set_all_append [of "[(js ''connection_info'' @ js ''['' @ js ''protocol'' @ js '']'',
                                        JStr (js ''api''))]"]
      set_all_append [of "connection_fields ci"]
    by (simp add: and_then_def split: sum.splits)
  also have "\<dots> = preprocessor_params ci fi"
    unfolding preprocessor_params_def
    by (simp add: addParam_set_all [OF n] add_connection_info_set_all add_file_info_set_all z
          and_then_def split: option.splits sum.splits)
  finally show ?thesis by simp
qed

lemma ascii_concat: "\<forall>x\<in>set xs. ascii (f x) \<Longrightarrow> ascii (concat (map f xs))"
  by (induction xs) simp_all

lemma pct_utf8_ascii: "scalar_value cp \<Longrightarrow> ascii (pct_utf8 cp)"
proof -
  assume "scalar_value cp"
  then have "\<forall>b\<in>set (utf8_encode cp). b < 256" by (rule utf8_encode_octets)
  then have "\<forall>b\<in>set (utf8_encode cp). ascii (pct b)" using pct_ascii by blast
  then show ?thesis
    unfolding pct_utf8_def by (rule ascii_concat)
qed

lemma unescaped_ascii: "uri_unescaped c \<Longrightarrow> c < 0x80"
  by (auto simp: uri_unescaped_def alnum_nat word_less_nat_alt)

lemma encode_well_formed:
  "well_formed_utf16 s \<Longrightarrow> \<exists>e. encodeURIComponent s = Inr e \<and> ascii e"
proof (induction s rule: encodeURIComponent.induct)
  case 1
  show ?case by simp
next
  case (2 c cs)
  show ?case
  proof (cases "is_lead c")
    case True
    note l = this
    then have nu: "\<not> uri_unescaped c" "\<not> is_trail c"
      using unescaped_ascii [of c] by (auto simp: lead_nat trail_nat word_less_nat_alt)
    from "2.prems" l obtain d ds where d: "cs = d # ds" "is_trail d" "well_formed_utf16 ds"
      by (cases cs) auto
    from "2.IH"(2) [OF nu l d(1) d(2) d(3)] obtain e where
      e: "encodeURIComponent ds = Inr e" "ascii e" by blast
    have "ascii (pct_utf8 (pair_code_point c d))"
      using l d(2) by (intro pct_utf8_ascii scalar_pair)
    with nu l d e show ?thesis by (simp add: prepend_def)
  next
    case False
    note nl = this
    with "2.prems" have nt: "\<not> is_trail c" and w: "well_formed_utf16 cs" by simp_all
    show ?thesis
    proof (cases "uri_unescaped c")
      case True
      from "2.IH"(1) [OF True w] obtain e where e: "encodeURIComponent cs = Inr e" "ascii e"
        by blast
      with True unescaped_ascii [of c] show ?thesis by (simp add: prepend_def)
    next
      case nu: False
      from "2.IH"(3) [OF nu nt nl w] obtain e where e: "encodeURIComponent cs = Inr e" "ascii e"
        by blast
      have "ascii (pct_utf8 (unat c))"
        using nl nt by (intro pct_utf8_ascii scalar_unat)
      with nu nt nl e show ?thesis by (simp add: prepend_def)
    qed
  qed
qed

lemma ascii_well_formed: "ascii s \<Longrightarrow> well_formed_utf16 s"
proof (induction s)
  case Nil
  show ?case by simp
next
  case (Cons c cs)
  then have "unat c < 0x80" by (simp add: word_less_nat_alt)
  then have "\<not> is_lead c" "\<not> is_trail c" by (simp_all add: lead_nat trail_nat)
  with Cons show ?case by simp
qed

lemma encodable_twice:
  assumes "encodable v"
  shows "\<exists>s e1 e2. to_string v = Inr s \<and> encodeURIComponent s = Inr e1 \<and>
           encodeURIComponent e1 = Inr e2 \<and> ascii e2 \<and> double_encode v = Inr e2 \<and>
           twice_encoded v = e2"
proof -
  from assms obtain s where s: "to_string v = Inr s" "well_formed_utf16 s"
    by (auto simp: encodable_def split: sum.splits)
  then obtain e1 where e1: "encodeURIComponent s = Inr e1" "ascii e1"
    using encode_well_formed by blast
  then obtain e2 where e2: "encodeURIComponent e1 = Inr e2" "ascii e2"
    using encode_ascii by blast
  with s e1 show ?thesis
    by (simp add: double_encode_def and_then_def twice_encoded_def)
qed

lemma sp_set_fresh:
  "usv n \<notin> fst ` set sp \<Longrightarrow> ascii e \<Longrightarrow> sp_set n e sp = sp @ [(usv n, e)]"
  by (simp add: sp_set_def usv_ascii)

lemma set_all_distinct:
  assumes "\<forall>nv\<in>set fs. encodable (snd nv)"
    and "distinct (map (\<lambda>nv. usv (fst nv)) fs)"
    and "\<forall>nv\<in>set fs. usv (fst nv) \<notin> fst ` set sp"
  shows "set_all fs sp = Inr (sp @ map (\<lambda>nv. (usv (fst nv), twice_encoded (snd nv))) fs)"
  using assms
proof (induction fs arbitrary: sp)
  case Nil
  show ?case by simp
next
  case (Cons nv fs)
  from Cons.prems(1) obtain e where
    e: "double_encode (snd nv) = Inr e" "ascii e" "twice_encoded (snd nv) = e"
    using encodable_twice [of "snd nv"] by auto
  have s: "sp_set (fst nv) e sp = sp @ [(usv (fst nv), e)]"
    using Cons.prems(3) e(2) by (intro sp_set_fresh) simp_all
  have "set_all fs (sp @ [(usv (fst nv), e)]) =
          Inr ((sp @ [(usv (fst nv), e)]) @ map (\<lambda>nv. (usv (fst nv), twice_encoded (snd nv))) fs)"
  proof (rule Cons.IH)
    show "\<forall>nv\<in>set fs. encodable (snd nv)" using Cons.prems(1) by simp
    show "distinct (map (\<lambda>nv. usv (fst nv)) fs)" using Cons.prems(2) by simp
    show "\<forall>nv'\<in>set fs. usv (fst nv') \<notin> fst ` set (sp @ [(usv (fst nv), e)])"
    proof
      fix nv' assume m: "nv' \<in> set fs"
      with Cons.prems(3) have "usv (fst nv') \<notin> fst ` set sp" by simp
      moreover have "usv (fst nv') \<noteq> usv (fst nv)"
      proof
        assume "usv (fst nv') = usv (fst nv)"
        with m have "usv (fst nv) \<in> (\<lambda>nv. usv (fst nv)) ` set fs" by (metis imageI)
        with Cons.prems(2) show False by simp
      qed
      ultimately show "usv (fst nv') \<notin> fst ` set (sp @ [(usv (fst nv), e)])" by simp
    qed
  qed
  then show ?case
    by (simp add: e(1,3) and_then_def s)
qed

lemma filter_lookup: "k \<noteq> n \<Longrightarrow> map_of (filter (\<lambda>kv. fst kv \<noteq> n) ps) k = map_of ps k"
  by (induction ps) auto

lemma replace_first_lookup:
  "n \<in> fst ` set ps \<Longrightarrow>
   map_of (replace_first n v ps) k = (if k = n then Some v else map_of ps k)"
proof (induction ps)
  case Nil
  then show ?case by simp
next
  case (Cons p ps)
  obtain a b where p: "p = (a, b)" by (cases p)
  show ?case
  proof (cases "a = n")
    case True
    then show ?thesis by (simp add: p filter_lookup)
  next
    case False
    with Cons.prems have "n \<in> fst ` set ps" by (simp add: p)
    with Cons.IH False show ?thesis by (auto simp: p)
  qed
qed

lemma append_lookup:
  "n \<notin> fst ` set ps \<Longrightarrow> map_of (ps @ [(n, v)]) k = (if k = n then Some v else map_of ps k)"
proof -
  assume "n \<notin> fst ` set ps"
  then have "map_of ps n = None" by (simp add: map_of_eq_None_iff)
  then show ?thesis by (auto simp: map_add_def split: option.splits)
qed

lemma sp_set_lookup:
  assumes "ascii e"
  shows "map_of (sp_set n e sp) k = (if k = usv n then Some e else map_of sp k)"
proof (cases "usv n \<in> fst ` set sp")
  case True
  then have "sp_set n e sp = replace_first (usv n) e sp"
    using assms by (simp add: sp_set_def usv_ascii)
  with replace_first_lookup [OF True] show ?thesis by simp
next
  case False
  then have "sp_set n e sp = sp @ [(usv n, e)]"
    using assms by (simp add: sp_set_def usv_ascii)
  with append_lookup [OF False] show ?thesis by simp
qed

lemma normal_Cons:
  "normal_params (kv # ps) = (usv (fst kv) = fst kv \<and> ascii (snd kv) \<and> normal_params ps)"
  by (auto simp: normal_params_def)

lemma normal_filter: "normal_params ps \<Longrightarrow> normal_params (filter P ps)"
  by (auto simp: normal_params_def)

lemma normal_append:
  "normal_params (ps @ qs) = (normal_params ps \<and> normal_params qs)"
  by (auto simp: normal_params_def)

lemma replace_first_normal:
  "normal_params ps \<Longrightarrow> usv n = n \<Longrightarrow> ascii v \<Longrightarrow> normal_params (replace_first n v ps)"
proof (induction ps)
  case Nil
  then show ?case by simp
next
  case (Cons p ps)
  obtain a b where p: "p = (a, b)" by (cases p)
  from Cons.prems(1) have h: "usv a = a" "ascii b" "normal_params ps"
    by (simp_all add: p normal_Cons)
  show ?case
  proof (cases "a = n")
    case True
    with h Cons.prems(3) show ?thesis by (simp add: p normal_Cons normal_filter)
  next
    case False
    with h Cons show ?thesis by (simp add: p normal_Cons)
  qed
qed

lemma sp_set_normal:
  assumes "normal_params sp" and "ascii e"
  shows "normal_params (sp_set n e sp)"
proof (cases "usv n \<in> fst ` set sp")
  case True
  then have "sp_set n e sp = replace_first (usv n) e sp"
    using assms(2) by (simp add: sp_set_def usv_ascii)
  then show ?thesis
    using assms by (simp add: replace_first_normal usv_usv)
next
  case False
  then have "sp_set n e sp = sp @ [(usv n, e)]"
    using assms(2) by (simp add: sp_set_def usv_ascii)
  then show ?thesis
    using assms by (simp add: normal_append normal_Cons usv_usv) (simp add: normal_params_def)
qed

lemma set_all_lookup:
  assumes "\<forall>nv\<in>set fs. encodable (snd nv)" and "normal_params sp"
  shows "\<exists>sp'. set_all fs sp = Inr sp' \<and> normal_params sp' \<and>
           (\<forall>k. map_of sp' k =
              (case map_of (rev (map (\<lambda>nv. (usv (fst nv), twice_encoded (snd nv))) fs)) k of
                 Some e \<Rightarrow> Some e | None \<Rightarrow> map_of sp k))"
  using assms
proof (induction fs arbitrary: sp)
  case Nil
  then show ?case by simp
next
  case (Cons nv fs)
  let ?g = "\<lambda>nv. (usv (fst nv), twice_encoded (snd nv))"
  from Cons.prems(1) obtain e where
    e: "double_encode (snd nv) = Inr e" "ascii e" "twice_encoded (snd nv) = e"
    using encodable_twice [of "snd nv"] by auto
  have n: "normal_params (sp_set (fst nv) e sp)"
    using Cons.prems(2) e(2) by (rule sp_set_normal)
  from Cons.prems(1) have "\<forall>nv\<in>set fs. encodable (snd nv)" by simp
  from Cons.IH [OF this n] obtain sp' where
    sp': "set_all fs (sp_set (fst nv) e sp) = Inr sp'" "normal_params sp'"
      "\<forall>k. map_of sp' k = (case map_of (rev (map ?g fs)) k of
                Some e \<Rightarrow> Some e | None \<Rightarrow> map_of (sp_set (fst nv) e sp) k)"
    by blast
  have "map_of sp' k = (case map_of (rev (map ?g (nv # fs))) k of
                Some e \<Rightarrow> Some e | None \<Rightarrow> map_of sp k)" for k
    using sp'(3) [rule_format, of k] e(3)
    by (simp add: sp_set_lookup [OF e(2)] map_add_def split: option.splits)
  with sp'(1,2) show ?case
    by (simp add: e(1) and_then_def)
qed

lemma map_of_skip: "k \<notin> fst ` set xs \<Longrightarrow> map_of (xs @ ys) k = map_of ys k"
  by (induction xs) auto

lemma normal_id: "normal_params ps \<Longrightarrow> map (\<lambda>kv. (usv (fst kv), usv (snd kv))) ps = ps"
  by (induction ps) (simp_all add: normal_Cons usv_ascii)

lemma url_fields_nonempty: "url_fields ci fi \<noteq> []"
  by (simp add: url_fields_def)

lemma read_back_lookup:
  assumes "\<forall>nv\<in>set (url_fields ci fi). encodable (snd nv)"
  shows "read_back ci fi n =
           Inr (map_of (rev (map (\<lambda>nv. (usv (fst nv), twice_encoded (snd nv))) (url_fields ci fi)))
                  (usv n))"
proof -
  let ?g = "\<lambda>nv. (usv (fst nv), twice_encoded (snd nv))"
  have "normal_params []" by (simp add: normal_params_def)
  with set_all_lookup [OF assms] obtain ps where
    ps: "set_all (url_fields ci fi) [] = Inr ps" "normal_params ps"
      "\<forall>k. map_of ps k = (case map_of (rev (map ?g (url_fields ci fi))) k of
                Some e \<Rightarrow> Some e | None \<Rightarrow> map_of [] k)"
    by blast
  have l: "map_of ps k = map_of (rev (map ?g (url_fields ci fi))) k" for k
    using ps(3) [rule_format, of k] by (simp split: option.splits)
  obtain f fs where f: "url_fields ci fi = f # fs"
    using url_fields_nonempty [of ci fi] by (cases "url_fields ci fi") auto
  have "map_of (rev (map ?g (url_fields ci fi))) (usv (fst (last (url_fields ci fi)))) \<noteq> None"
    unfolding f by (simp add: map_of_eq_None_iff image_iff) (metis last_in_set list.distinct(1) last.simps)
  then have ne: "ps \<noteq> []"
    using l [of "usv (fst (last (url_fields ci fi)))"] by auto
  have q: "new_URLSearchParams (url_search (preprocessor_base @ js ''?'' @ sp_toString ps)) = ps"
    using query_of_params [OF ne] ps(2) by (simp add: normal_id)
  show ?thesis
    by (simp add: read_back_def generateBigCommercePreprocessorUrl_def preprocessor_params_set_all
          ps(1) and_then_def query_value_def sp_get_def q l)
qed

lemma encodable_ascii: "ascii s \<Longrightarrow> encodable (JStr s)"
  by (simp add: encodable_def ascii_well_formed)

lemma usv_append_ascii: "ascii a \<Longrightarrow> usv (a @ s) = a @ usv s"
proof (induction a)
  case Nil
  show ?case by simp
next
  case (Cons c cs)
  then have "unat c < 0x80" by (simp add: word_less_nat_alt)
  then have "\<not> is_lead c" "\<not> is_trail c" by (simp_all add: lead_nat trail_nat)
  with Cons show ?case by (simp add: usv_def utf16_bmp)
qed

lemmas encode_eval = js_def uri_unescaped_def is_alnum_def is_lead_def is_trail_def pct_utf8_def
  utf8_encode_def pct_def hex_digit_def prepend_def

lemma encode_examples:
  "encodeURIComponent (js ''a&b'') = Inr (js ''a%26b'')"
  "encodeURIComponent (js ''a%26b'') = Inr (js ''a%2526b'')"
  "encodeURIComponent (js ''x/y'') = Inr (js ''x%2Fy'')"
  "encodeURIComponent (js ''x%2Fy'') = Inr (js ''x%252Fy'')"
  "encodeURIComponent (js ''a'') = Inr (js ''a'')"
  "encodeURIComponent (js ''b'') = Inr (js ''b'')"
  by (simp_all add: encode_eval)

lemma form_ascii: "ascii s \<Longrightarrow> form_urlencode s = concat (map (\<lambda>c. form_octet (unat c)) s)"
  using utf8_bytes_ascii [of s] by (simp add: form_urlencode_def utf8_bytes_def comp_def)

section \<open>Finding a record by name\<close>

lemma find_named_found:
  "find_named nm xs = Inr x \<Longrightarrow> x \<noteq> JUndefined \<Longrightarrow> truthy x"
proof (induction xs)
  case Nil
  then show ?case by simp
next
  case (Cons y ys)
  show ?case
  proof (cases "get_prop y ''name''")
    case (Inl e)
    with Cons.prems show ?thesis by (simp add: and_then_def)
  next
    case (Inr n)
    show ?thesis
    proof (cases "n = JStr (js nm)")
      case True
      with Inr Cons.prems have "x = y" by (simp add: and_then_def)
      moreover from Inr True have "truthy y"
        by (cases y) (auto simp: get_prop_def split: if_splits)
      ultimately show ?thesis by simp
    next
      case False
      with Inr Cons show ?thesis by (simp add: and_then_def)
    qed
  qed
qed

lemma db_set:
  assumes "dbId (cl s) = Some db" and "db \<noteq> []"
  shows "\<not> no_dbId s" and "dbs_path s = js ''/dbs/'' @ db"
  using assms by (simp_all add: no_dbId_def dbs_path_def)

subsection \<open>The steps of get or create\<close>

lemma getExistingExport_found:
  assumes "dbId (cl s) = Some db" and "db \<noteq> []"
    and "remote pf (sent s) (req ''GET'' (js ''/dbs/'' @ db @ js ''/exports'') JUndefined) =
           Resolved \<lparr>resp_status = st, resp_data = JArr xs\<rparr>"
    and "200 \<le> st" and "st < 300"
    and "find_named EXPORT_NAME xs = Inr x" and "x \<noteq> JUndefined"
  shows "getExistingExport pf s =
           (Inr (succeeded x), sending s [req ''GET'' (js ''/dbs/'' @ db @ js ''/exports'') JUndefined])"
proof -
  from assms(6,7) have tx: "truthy x" by (rule find_named_found)
  from assms(1,2) have db: "\<not> no_dbId s" "dbs_path s = js ''/dbs/'' @ db"
    by (auto dest: db_set)
  have l: "exports (remote pf) s =
             (Inr \<lparr>success = True, data = JArr xs, error = JUndefined, status = JNum st\<rparr>,
              sending s [req ''GET'' (js ''/dbs/'' @ db @ js ''/exports'') JUndefined])"
    using assms(3-5) db by (simp add: exports_def request_ok)
  show ?thesis
    using assms(6) tx
    by (simp add: getExistingExport_def await_def l opt_find_named_def compute_def ret_def js_or_def)
qed

lemma handleExistingExport_updates:
  assumes "dbId (cl s) = Some db" and "db \<noteq> []" and "truthy x"
    and "to_string (getp x ''id'') = Inr i"
    and "remote pf (sent s)
           (req ''PUT'' (js ''/dbs/'' @ db @ js ''/exports/'' @ i) (buildExportConfig ftp filename)) =
           Resolved \<lparr>resp_status = st', resp_data = b\<rparr>"
    and "200 \<le> st'" and "st' < 300"
  shows "handleExistingExport pf x ftp filename s =
           (Inr (succeeded x),
            sending s [req ''PUT'' (js ''/dbs/'' @ db @ js ''/exports/'' @ i)
                         (buildExportConfig ftp filename)])"
proof -
  from assms(1,2) have db: "\<not> no_dbId s" "dbs_path s = js ''/dbs/'' @ db"
    by (auto dest: db_set)
  have u: "updateExport (remote pf) (getp x ''id'') (buildExportConfig ftp filename) s =
             (Inr \<lparr>success = True, data = b, error = JUndefined, status = JNum st'\<rparr>,
              sending s [req ''PUT'' (js ''/dbs/'' @ db @ js ''/exports/'' @ i)
                           (buildExportConfig ftp filename)])"
    using assms(4-7) db by (simp add: updateExport_def with_str_Inr request_ok)
  show ?thesis
    using assms(3) by (simp add: handleExistingExport_def Let_def await_def u ret_def)
qed

lemma runExportSchedule_ok:
  assumes "dbId (cl s) = Some db" and "db \<noteq> []" and "truthy x"
    and "to_string (getp x ''id'') = Inr i"
    and "remote pf (sent s)
           (req ''POST'' (js ''/dbs/'' @ db @ js ''/exports/'' @ i @ js ''/schedule'')
              (schedule_object (js ''*'') (slot_hour ts) (slot_minutes ts))) =
           Resolved \<lparr>resp_status = st', resp_data = b\<rparr>"
    and "200 \<le> st'" and "st' < 300"
  shows "runExportSchedule pf x ts s =
           (Inr (succeeded x),
            sending s [req ''POST'' (js ''/dbs/'' @ db @ js ''/exports/'' @ i @ js ''/schedule'')
                         (schedule_object (js ''*'') (slot_hour ts) (slot_minutes ts))])"
proof -
  from assms(1,2) have db: "\<not> no_dbId s" "dbs_path s = js ''/dbs/'' @ db"
    by (auto dest: db_set)
  from assms(3) have g: "get_prop x ''id'' = Inr (getp x ''id'')"
    by (cases x) (auto simp: get_prop_def)
  have u: "scheduleExport (remote pf) (getp x ''id'')
             (schedule_object (js ''*'') (slot_hour ts) (slot_minutes ts)) s =
             (Inr \<lparr>success = True, data = b, error = JUndefined, status = JNum st'\<rparr>,
              sending s [req ''POST'' (js ''/dbs/'' @ db @ js ''/exports/'' @ i @ js ''/schedule'')
                           (schedule_object (js ''*'') (slot_hour ts) (slot_minutes ts))])"
    using assms(4-7) db by (simp add: scheduleExport_def with_str_Inr request_ok)
  show ?thesis
    by (simp add: runExportSchedule_def g await_def compute_def u ret_def)
qed


lemma vault_fetched:
  assumes "remote pf (sent s) (req ''GET'' (js ''/vault'') JUndefined) =
             Resolved \<lparr>resp_status = st, resp_data = d\<rparr>"
    and "200 \<le> st" and "st < 300"
  shows "vault (remote pf) s =
           (Inr \<lparr>success = True, data = d, error = JUndefined, status = JNum st\<rparr>,
            sending s [req ''GET'' (js ''/vault'') JUndefined])"
  using assms by (simp add: vault_def request_ok)

lemma deleteOldEntry_none:
  "find_named ''BigCommerce Credentials'' xs = Inr JUndefined \<Longrightarrow>
   deleteOldEntry pf (JArr xs) s = (Inr None, s)"
  by (simp add: deleteOldEntry_def opt_find_named_def await_def compute_def ret_def)

lemma deleteOldEntry_deleted:
  assumes "find_named ''BigCommerce Credentials'' xs = Inr y" and "y \<noteq> JUndefined"
    and "to_string (getp y ''id'') = Inr j"
    and "remote pf (sent s) (req ''DELETE'' (js ''/vault/'' @ j) JUndefined) =
           Resolved \<lparr>resp_status = st, resp_data = b\<rparr>"
    and "200 \<le> st" and "st < 300"
  shows "deleteOldEntry pf (JArr xs) s =
           (Inr (Some (succeeded b)), sending s [req ''DELETE'' (js ''/vault/'' @ j) JUndefined])"
proof -
  from assms(1,2) have ty: "truthy y" by (rule find_named_found)
  have u: "deleteVault (remote pf) (getp y ''id'') s =
             (Inr \<lparr>success = True, data = b, error = JUndefined, status = JNum st\<rparr>,
              sending s [req ''DELETE'' (js ''/vault/'' @ j) JUndefined])"
    by (simp add: deleteVault_def with_str_Inr [OF assms(3)]
          request_ok [of "remote pf" s, OF assms(4-6)])
  show ?thesis
    using ty by (simp add: deleteOldEntry_def opt_find_named_def await_def compute_def ret_def
        assms(1) u)
qed

lemma createOrUpdateVaultEntry_updates:
  assumes "find_named ''bc_credentials'' xs = Inr x" and "x \<noteq> JUndefined"
    and "to_string (getp x ''id'') = Inr i"
    and "remote pf (sent s) (req ''PUT'' (js ''/vault/'' @ i)
           (JObj [(js ''name'', JStr (js ''bc_credentials'')),
            (js ''expiration'', JStr (expiration pf)),
            (js ''credentials_type'', JStr (js ''none'')),
            (js ''credentials'',
             JStr (stringify pf (JObj [(js ''access_token'', JStr token)])))])) =
           Resolved \<lparr>resp_status = st', resp_data = b\<rparr>"
    and "200 \<le> st'" and "st' < 300"
  shows "createOrUpdateVaultEntry pf (JArr xs) token s =
           (Inr (succeeded b),
            sending s [req ''PUT'' (js ''/vault/'' @ i)
              (JObj [(js ''name'', JStr (js ''bc_credentials'')),
            (js ''expiration'', JStr (expiration pf)),
            (js ''credentials_type'', JStr (js ''none'')),
            (js ''credentials'',
             JStr (stringify pf (JObj [(js ''access_token'', JStr token)])))])])"
proof -
  from assms(1,2) have tx: "truthy x" by (rule find_named_found)
  have u: "updateVault (remote pf) (getp x ''id'')
             (JObj [(js ''name'', JStr (js ''bc_credentials'')),
            (js ''expiration'', JStr (expiration pf)),
            (js ''credentials_type'', JStr (js ''none'')),
            (js ''credentials'',
             JStr (stringify pf (JObj [(js ''access_token'', JStr token)])))]) s =
             (Inr \<lparr>success = True, data = b, error = JUndefined, status = JNum st'\<rparr>,
              sending s [req ''PUT'' (js ''/vault/'' @ i)
                (JObj [(js ''name'', JStr (js ''bc_credentials'')),
            (js ''expiration'', JStr (expiration pf)),
            (js ''credentials_type'', JStr (js ''none'')),
            (js ''credentials'',
             JStr (stringify pf (JObj [(js ''access_token'', JStr token)])))])])"
    by (simp add: updateVault_def with_str_Inr [OF assms(3)]
          request_ok [of "remote pf" s, OF assms(4-6)])
  show ?thesis
    using tx
    by (simp add: createOrUpdateVaultEntry_def Let_def opt_find_named_def await_def
          compute_def ret_def succeeded_def assms(1) u)
qed


lemma createOrUpdateImport_updates:
  assumes "dbId (cl s) = Some db" and "db \<noteq> []"
    and "buildImportConfig user channel isCreate = Inr importConfig"
    and "remote pf (sent s) (req ''GET'' (js ''/dbs/'' @ db @ js ''/imports'') JUndefined) =
           Resolved \<lparr>resp_status = st, resp_data = JArr xs\<rparr>"
    and "200 \<le> st" and "st < 300"
    and "find_named MAIN_IMPORT_NAME xs = Inr x" and "x \<noteq> JUndefined"
    and "to_string (getp x ''id'') = Inr i"
    and "remote pf (sent s @ [req ''GET'' (js ''/dbs/'' @ db @ js ''/imports'') JUndefined])
           (req ''PUT'' (js ''/dbs/'' @ db @ js ''/imports/'' @ i) importConfig) =
           Resolved \<lparr>resp_status = st', resp_data = b\<rparr>"
    and "200 \<le> st'" and "st' < 300"
  shows "createOrUpdateImport pf user channel isCreate s =
      (Inr (succeeded x),
       sending s [req ''GET'' (js ''/dbs/'' @ db @ js ''/imports'') JUndefined,
                  req ''PUT'' (js ''/dbs/'' @ db @ js ''/imports/'' @ i) importConfig])"
proof -
  let ?get = "req ''GET'' (js ''/dbs/'' @ db @ js ''/imports'') JUndefined"
  let ?put = "req ''PUT'' (js ''/dbs/'' @ db @ js ''/imports/'' @ i) importConfig"
  from assms(7,8) have tx: "truthy x" by (rule find_named_found)
  from assms(1,2) have db: "\<not> no_dbId s" "dbs_path s = js ''/dbs/'' @ db"
    by (auto dest: db_set)
  have l: "imports_fdx (remote pf) s =
             (Inr \<lparr>success = True, data = JArr xs, error = JUndefined, status = JNum st\<rparr>,
              sending s [?get])"
    using assms(4-6) db by (simp add: imports_fdx_def request_ok)
  have r: "retrieveImport pf s = (Inr (succeeded x), sending s [?get])"
    using assms(7) tx by (simp add: retrieveImport_def await_def l opt_find_named_def compute_def
        ret_def js_or_def)
  have u: "updateImport (remote pf) (getp x ''id'') importConfig (sending s [?get]) =
             (Inr \<lparr>success = True, data = b, error = JUndefined, status = JNum st'\<rparr>,
              sending s [?get, ?put])"
    using assms(9-12) db by (simp add: updateImport_def with_str_Inr request_ok)
  show ?thesis
    using assms(3) tx by (simp add: createOrUpdateImport_def await_def r u ret_def succeeded_def)
qed

section \<open>The steps of the setup\<close>

lemma failed_Inr: "to_string e = Inr m \<Longrightarrow> failed l e s = (Inr (failure (js l @ m)), s)"
  by (simp add: failed_def ret_def)

lemma reach2: "account_created pf params s a s1 \<Longrightarrow> setup_step1 pf params s = setup_step2 pf params a s1"
  by (auto simp: account_created_def setup_step1_def await_def)

lemma reach3: "user_invited pf params a s1 s2 \<Longrightarrow> setup_step2 pf params a s1 = setup_step3 pf params a s2"
  by (auto simp: user_invited_def setup_step2_def await_def split: if_splits)

lemma reach4:
  "database_created pf params a s2 db s3 \<Longrightarrow> setup_step3 pf params a s2 = setup_step4 pf params a db s3"
  by (auto simp: database_created_def setup_step3_def await_def Let_def)

lemma reach5:
  "moved_to_group pf params db s3 s4 \<Longrightarrow> setup_step4 pf params a db s3 = setup_step5 pf params a db s4"
  by (auto simp: moved_to_group_def setup_step4_def await_def split: if_splits)

lemma reach6:
  "vault_entry_added pf params db s4 v s5 \<Longrightarrow>
   setup_step5 pf params a db s4 = setup_step6 pf params a db v s5"
  by (auto simp: vault_entry_added_def setup_step5_def await_def)

lemma reach7:
  "import_created pf params s5 i s6 \<Longrightarrow>
   setup_step6 pf params a db v s5 = setup_step7 pf params a db v i s6"
  by (auto simp: import_created_def setup_step6_def await_def compute_def)

lemma reach8:
  "schedule_set pf params i s6 s7 \<Longrightarrow>
   setup_step7 pf params a db v i s6 = setup_step8 pf params a db v i s7"
  by (auto simp: schedule_set_def schedule_json_def setup_step7_def await_def split: option.splits)

lemma setup_returns:
  "setup_step1 pf params s = (Inr e, s') \<Longrightarrow> setupBigCommerceIntegration pf params s = (Inr e, s')"
  by (simp add: setupBigCommerceIntegration_def)


lemma fail1:
  assumes "createBigCommerceAccount (remote pf) (accountName params) s = (Inr r, s1)"
    and "\<not> success r" and "to_string (error r) = Inr m"
  shows "setup_step1 pf params s = (Inr (failure (js ''Failed to create account: '' @ m)), s1)"
  using assms by (simp add: setup_step1_def await_def failed_Inr)

lemma fail2:
  assumes "given (userEmail params)"
    and "invitePrimaryUser (remote pf) a (or_else (userEmail params) []) s1 = (Inr r, s2)"
    and "\<not> success r" and "to_string (error r) = Inr m"
  shows "setup_step2 pf params a s1 = (Inr (failure (js ''Failed to invite user: '' @ m)), s2)"
  using assms by (simp add: setup_step2_def await_def failed_Inr)

lemma fail3:
  assumes "createDb (remote pf) a (or_else (dbName params) (js ''BC Store '' @ storeHash params)) s2 =
             (Inr r, s3)"
    and "\<not> success r" and "to_string (error r) = Inr m"
  shows "setup_step3 pf params a s2 = (Inr (failure (js ''Failed to create database: '' @ m)), s3)"
  using assms by (simp add: setup_step3_def await_def failed_Inr)

lemma fail4:
  assumes "given (groupName params)"
    and "moveDbintoNewDbGroup (remote pf) db (or_else (groupName params) []) s3 = (Inr r, s4)"
    and "\<not> success r" and "to_string (error r) = Inr m"
  shows "setup_step4 pf params a db s3 =
           (Inr (failure (js ''Failed to move database to group: '' @ m)), s4)"
  using assms by (simp add: setup_step4_def await_def failed_Inr)

lemma fail5:
  assumes "addDbVaultEntry (remote pf) db (setup_vault_entry pf params) s4 = (Inr r, s5)"
    and "\<not> success r" and "to_string (error r) = Inr m"
  shows "setup_step5 pf params a db s4 =
           (Inr (failure (js ''Failed to create vault entry: '' @ m)), s5)"
  using assms by (simp add: setup_step5_def await_def failed_Inr)

lemma fail6:
  assumes "generateBigCommercePreprocessorUrl (setup_connection_info params)
             (Some setup_file_info) = Inr u"
    and "createImport (remote pf) (setup_import_config params u) s5 = (Inr r, s6)"
    and "\<not> success r" and "to_string (error r) = Inr m"
  shows "setup_step6 pf params a db v s5 =
           (Inr (failure (js ''Failed to create import: '' @ m)), s6)"
  using assms by (simp add: setup_step6_def await_def compute_def failed_Inr)

lemma fail7:
  assumes "importSchedule params = Some sch"
    and "updateImportSchedule (remote pf) i (schedule_json sch) s6 = (Inr r, s7)"
    and "\<not> success r" and "to_string (error r) = Inr m"
  shows "setup_step7 pf params a db v i s6 =
           (Inr (failure (js ''Failed to update import schedule: '' @ m)), s7)"
  using assms by (simp add: setup_step7_def schedule_json_def await_def failed_Inr)

lemma fail8:
  assumes "given (buildTemplate params)"
    and "applyAutomateBuildTemplate (remote pf) i (or_else (buildTemplate params) []) s7 = (Inr r, s8)"
    and "\<not> success r" and "to_string (error r) = Inr m"
  shows "setup_step8 pf params a db v i s7 =
           (Inr (failure (js ''Failed to apply build template: '' @ m)), s8)"
  using assms by (simp add: setup_step8_def await_def failed_Inr)

lemma failed_eval:
  "failed l e s = (case to_string e of Inl ex \<Rightarrow> (Inl ex, s) | Inr m \<Rightarrow> (Inr (failure (js l @ m)), s))"
  by (simp add: failed_def await_def compute_def ret_def split: sum.splits)

lemma setup_failed:
  "setup_step1 pf params s = failed l e s' \<Longrightarrow>
   setupBigCommerceIntegration pf params s =
     (Inr (failure (case to_string e of
                      Inr m \<Rightarrow> js l @ m
                    | Inl ex \<Rightarrow> js ''BigCommerce setup failed: '' @ message ex)), s')"
  by (simp add: setupBigCommerceIntegration_def failed_eval split: sum.splits)

lemma stop1:
  assumes "createBigCommerceAccount (remote pf) (accountName params) s = (Inr r, s1)"
    and "\<not> success r"
  shows "setup_step1 pf params s = failed ''Failed to create account: '' (error r) s1"
  using assms by (simp add: setup_step1_def await_def)

lemma stop2:
  assumes "given (userEmail params)"
    and "invitePrimaryUser (remote pf) a (or_else (userEmail params) []) s1 = (Inr r, s2)"
    and "\<not> success r"
  shows "setup_step2 pf params a s1 = failed ''Failed to invite user: '' (error r) s2"
  using assms by (simp add: setup_step2_def await_def)

lemma stop3:
  assumes "createDb (remote pf) a (or_else (dbName params) (js ''BC Store '' @ storeHash params)) s2 =
             (Inr r, s3)"
    and "\<not> success r"
  shows "setup_step3 pf params a s2 = failed ''Failed to create database: '' (error r) s3"
  using assms by (simp add: setup_step3_def await_def)

lemma stop4:
  assumes "given (groupName params)"
    and "moveDbintoNewDbGroup (remote pf) db (or_else (groupName params) []) s3 = (Inr r, s4)"
    and "\<not> success r"
  shows "setup_step4 pf params a db s3 = failed ''Failed to move database to group: '' (error r) s4"
  using assms by (simp add: setup_step4_def await_def)

lemma stop5:
  assumes "addDbVaultEntry (remote pf) db (setup_vault_entry pf params) s4 = (Inr r, s5)"
    and "\<not> success r"
  shows "setup_step5 pf params a db s4 = failed ''Failed to create vault entry: '' (error r) s5"
  using assms by (simp add: setup_step5_def await_def)

lemma stop6:
  assumes "generateBigCommercePreprocessorUrl (setup_connection_info params)
             (Some setup_file_info) = Inr u"
    and "createImport (remote pf) (setup_import_config params u) s5 = (Inr r, s6)"
    and "\<not> success r"
  shows "setup_step6 pf params a db v s5 = failed ''Failed to create import: '' (error r) s6"
  using assms by (simp add: setup_step6_def await_def compute_def)

lemma stop7:
  assumes "importSchedule params = Some sch"
    and "updateImportSchedule (remote pf) i (schedule_json sch) s6 = (Inr r, s7)"
    and "\<not> success r"
  shows "setup_step7 pf params a db v i s6 =
           failed ''Failed to update import schedule: '' (error r) s7"
  using assms by (simp add: setup_step7_def schedule_json_def await_def)

lemma stop8:
  assumes "given (buildTemplate params)"
    and "applyAutomateBuildTemplate (remote pf) i (or_else (buildTemplate params) []) s7 = (Inr r, s8)"
    and "\<not> success r"
  shows "setup_step8 pf params a db v i s7 =
           failed ''Failed to apply build template: '' (error r) s8"
  using assms by (simp add: setup_step8_def await_def)

lemma request_failing_at:
  "request (failing_at k bad) (js m) u d JUndefined s =
     (if length (sent s) = k then request (answers bad) (js m) u d JUndefined s
      else (Inr \<lparr>success = True, data = created, error = JUndefined, status = JNum 200\<rparr>,
            sending s [req m u d]))"
  by (simp add: request_def failing_at_def answers_def ok_def processResponse_def Let_def
        req_def sending_def)

lemma request_boom:
  "request (answers boom) (js m) u d JUndefined s =
     (Inr \<lparr>success = False, data = JUndefined, error = JStr (js ''Boom''), status = JNum 500\<rparr>,
      sending s [req m u d])"
  by (simp add: request_def answers_def boom_def Let_def get_prop_def own_def opt_prop_def
        js_or_def req_def sending_def js_eq_iff)

lemmas demo_eval = request_failing_at request_boom platform_of_def demo_params_def demo_after_def
  demo_requests_def created_def fresh_def fresh_client_def setDbId_def sending_def
  own_def opt_prop_def with_str_def given_def or_else_def no_dbId_def dbs_path_def
  js_eq_iff

lemma demo_step1:
  "0 < k \<Longrightarrow>
   account_created (platform_of (failing_at k bad)) (demo_params\<lparr>storeUrl := su\<rparr>) fresh (JStr (js ''77'')) (demo_after 1 u)"
  by (simp add: account_created_def createBigCommerceAccount_def demo_eval)

lemma demo_step2:
  "1 < k \<Longrightarrow>
   user_invited (platform_of (failing_at k bad)) (demo_params\<lparr>storeUrl := su\<rparr>) (JStr (js ''77'')) (demo_after 1 u)
     (demo_after 2 u)"
  by (simp add: user_invited_def invitePrimaryUser_def demo_eval)

lemma demo_step3:
  "2 < k \<Longrightarrow>
   database_created (platform_of (failing_at k bad)) (demo_params\<lparr>storeUrl := su\<rparr>) (JStr (js ''77'')) (demo_after 2 u)
     (JStr (js ''77'')) (demo_after 3 u)"
  by (simp add: database_created_def createDb_def method_toString_def demo_eval)

lemma demo_step4:
  "3 < k \<Longrightarrow>
   moved_to_group (platform_of (failing_at k bad)) (demo_params\<lparr>storeUrl := su\<rparr>) (JStr (js ''77'')) (demo_after 3 u)
     (demo_after 4 u)"
  by (simp add: moved_to_group_def moveDbintoNewDbGroup_def demo_eval)

lemma demo_step5:
  "4 < k \<Longrightarrow>
   vault_entry_added (platform_of (failing_at k bad)) (demo_params\<lparr>storeUrl := su\<rparr>) (JStr (js ''77'')) (demo_after 4 u)
     (JStr (js ''5'')) (demo_after 5 u)"
  by (simp add: vault_entry_added_def addDbVaultEntry_def setup_vault_entry_def demo_eval)

lemma demo_step6:
  "5 < k \<Longrightarrow>
   generateBigCommercePreprocessorUrl (setup_connection_info demo_params) (Some setup_file_info) =
     Inr u \<Longrightarrow>
   import_created (platform_of (failing_at k bad)) demo_params (demo_after 5 u) (JStr (js ''77''))
     (demo_after 6 u)"
  unfolding import_created_def
  by (rule exI [of _ u]) (simp add: createImport_def demo_eval del: One_nat_def)

lemma demo_step7:
  "6 < k \<Longrightarrow>
   schedule_set (platform_of (failing_at k bad)) demo_params (JStr (js ''77'')) (demo_after 6 u)
     (demo_after 7 u)"
  by (simp add: schedule_set_def schedule_json_def updateImportSchedule_def schedule_object_def
        demo_eval)

lemma demo_store_url: "demo_params\<lparr>storeUrl := None\<rparr> = demo_params"
  by (simp add: demo_params_def)

lemma demo_length: "k < 8 \<Longrightarrow> length (sent (demo_failed_at k u)) = Suc k"
  by (simp add: demo_failed_at_def demo_after_def demo_requests_def fresh_def setDbId_def)

subsection \<open>A step that throws\<close>

lemma throw1:
  "createBigCommerceAccount (remote pf) (accountName params) s = (Inl ex, s1) \<Longrightarrow>
   setup_step1 pf params s = (Inl ex, s1)"
  by (simp add: setup_step1_def await_def)

lemma throw2:
  "given (userEmail params) \<Longrightarrow>
   invitePrimaryUser (remote pf) a (or_else (userEmail params) []) s1 = (Inl ex, s2) \<Longrightarrow>
   setup_step2 pf params a s1 = (Inl ex, s2)"
  by (simp add: setup_step2_def await_def)

lemma throw3:
  "createDb (remote pf) a (or_else (dbName params) (js ''BC Store '' @ storeHash params)) s2 =
     (Inl ex, s3) \<Longrightarrow>
   setup_step3 pf params a s2 = (Inl ex, s3)"
  by (simp add: setup_step3_def await_def)

lemma throw4:
  "given (groupName params) \<Longrightarrow>
   moveDbintoNewDbGroup (remote pf) db (or_else (groupName params) []) s3 = (Inl ex, s4) \<Longrightarrow>
   setup_step4 pf params a db s3 = (Inl ex, s4)"
  by (simp add: setup_step4_def await_def)

lemma throw5:
  "addDbVaultEntry (remote pf) db (setup_vault_entry pf params) s4 = (Inl ex, s5) \<Longrightarrow>
   setup_step5 pf params a db s4 = (Inl ex, s5)"
  by (simp add: setup_step5_def await_def)

lemma throw_url:
  "generateBigCommercePreprocessorUrl (setup_connection_info params) (Some setup_file_info) =
     Inl ex \<Longrightarrow>
   setup_step6 pf params a db v s5 = (Inl ex, s5)"
  by (simp add: setup_step6_def await_def compute_def)

lemma throw6:
  "generateBigCommercePreprocessorUrl (setup_connection_info params) (Some setup_file_info) =
     Inr u \<Longrightarrow>
   createImport (remote pf) (setup_import_config params u) s5 = (Inl ex, s6) \<Longrightarrow>
   setup_step6 pf params a db v s5 = (Inl ex, s6)"
  by (simp add: setup_step6_def await_def compute_def)

lemma throw7:
  "importSchedule params = Some sch \<Longrightarrow>
   updateImportSchedule (remote pf) i (schedule_json sch) s6 = (Inl ex, s7) \<Longrightarrow>
   setup_step7 pf params a db v i s6 = (Inl ex, s7)"
  by (simp add: setup_step7_def schedule_json_def await_def)

lemma throw8:
  "given (buildTemplate params) \<Longrightarrow>
   applyAutomateBuildTemplate (remote pf) i (or_else (buildTemplate params) []) s7 = (Inl ex, s8) \<Longrightarrow>
   setup_step8 pf params a db v i s7 = (Inl ex, s8)"
  by (simp add: setup_step8_def await_def)

lemma body_caught:
  "setup_step1 pf params s = (Inl ex, s') \<Longrightarrow>
   setupBigCommerceIntegration pf params s =
     (Inr (failure (js ''BigCommerce setup failed: '' @ message ex)), s')"
  by (simp add: setupBigCommerceIntegration_def)

lemma setup_never_throws: "\<exists>e s'. setupBigCommerceIntegration pf params s = (Inr e, s')"
proof (cases "setup_step1 pf params s")
  case (Pair r s')
  then show ?thesis
    by (cases r) (simp_all add: setupBigCommerceIntegration_def)
qed

lemma request_null:
  "request (answers (Rejected JNull)) (js m) u d JUndefined s =
     (Inl (read_of_nullish JNull ''response''), sending s [req m u d])"
  by (simp add: request_def answers_def Let_def get_prop_def req_def sending_def)

lemma request_odd_error:
  "request (answers odd_error) (js m) u d JUndefined s =
     (Inr \<lparr>success = False, data = JUndefined, error = JObj [(js ''toString'', JNum 1)],
           status = JNum 500\<rparr>,
      sending s [req m u d])"
  by (simp add: request_def answers_def odd_error_def Let_def get_prop_def own_def opt_prop_def
        js_or_def req_def sending_def js_eq_iff)

lemma addParam_throws:
  "\<not> nullish v \<Longrightarrow> double_encode v = Inl e \<Longrightarrow> addParam p k v sp = Inl e"
  by (simp add: addParam_def and_then_def)

lemma add_connection_info_throws:
  assumes "list_all (\<lambda>kv. plain (snd kv)) pre" and "\<not> nullish v" and "\<not> is_object v"
    and "double_encode v = Inl e"
  shows "add_connection_info (pre @ (k, v) # rest) sp = Inl e"
  using assms(1)
proof (induction pre arbitrary: sp)
  case Nil
  from assms(2-4) show ?case by (simp add: addParam_throws and_then_def)
next
  case (Cons kv pre)
  obtain k' v' where kv: "kv = (k', v')" by (cases kv)
  from Cons.prems have "list_all (\<lambda>kv. plain (snd kv)) [kv]" by simp
  then obtain sp1 where "add_connection_info [kv] sp = Inr sp1"
    using add_connection_info_total by blast
  then have "(if nullish v' then Inr sp else if is_object v' then add_nested k' (entries v') sp
      else addParam ''connection_info'' k' v' sp) = Inr sp1"
    by (auto simp: kv and_then_def split: sum.splits if_splits)
  moreover from Cons have "add_connection_info (pre @ (k, v) # rest) sp1 = Inl e" by simp
  ultimately show ?case by (simp add: kv and_then_def)
qed

lemma generate_throws:
  assumes "list_all (\<lambda>kv. plain (snd kv)) pre" and "\<not> nullish v" and "\<not> is_object v"
    and "double_encode v = Inl e"
  shows "generateBigCommercePreprocessorUrl (pre @ (k, v) # rest) fi = Inl e"
proof -
  have c: "scalar (JStr (js ''bigcommerce''))" and a: "scalar (JStr (js ''api''))"
    by (simp_all add: js_def)
  obtain sp0 where sp0: "addParam ''connection_info'' (js ''client'') (JStr (js ''bigcommerce'')) [] = Inr sp0"
    using addParam_total [of "JStr (js ''bigcommerce'')"] c by blast
  obtain sp1 where sp1: "addParam ''connection_info'' (js ''protocol'') (JStr (js ''api'')) sp0 = Inr sp1"
    using addParam_total [of "JStr (js ''api'')"] a by blast
  show ?thesis
    by (simp add: generateBigCommercePreprocessorUrl_def preprocessor_params_def and_then_def
          sp0 sp1 add_connection_info_throws [OF assms])
qed

lemma lone_surrogate_throws: "double_encode (JStr lone_surrogate) = Inl uri_malformed"
  by (simp add: double_encode_def and_then_def lone_surrogate_def uri_unescaped_def is_alnum_def
        is_trail_def is_lead_def)

lemma demo_url_throws:
  "generateBigCommercePreprocessorUrl
     (setup_connection_info (demo_params\<lparr>storeUrl := Some lone_surrogate\<rparr>))
     (Some setup_file_info) = Inl uri_malformed"
proof -
  let ?ci = "setup_connection_info (demo_params\<lparr>storeUrl := Some lone_surrogate\<rparr>)"
  have split: "?ci = take 9 ?ci @ (js ''store_url'', JStr lone_surrogate) # drop 10 ?ci"
    by (simp add: setup_connection_info_def or_else_def lone_surrogate_def)
  have pre: "list_all (\<lambda>kv. plain (snd kv)) (take 9 ?ci)"
    by (simp add: setup_connection_info_def or_else_def demo_params_def plain_def js_def)
  have "generateBigCommercePreprocessorUrl
          (take 9 ?ci @ (js ''store_url'', JStr lone_surrogate) # drop 10 ?ci)
          (Some setup_file_info) = Inl uri_malformed"
    by (rule generate_throws [OF pre _ _ lone_surrogate_throws]) simp_all
  with split show ?thesis by simp
qed

subsection \<open>The client through the setup\<close>

lemma cl_request: "cl (snd (request srv m u d cfg s)) = cl s"
  by (simp add: request_def Let_def split: outcome.splits sum.splits)

lemma cl_with_str: "(\<And>t s. cl (snd (f t s)) = cl s) \<Longrightarrow> cl (snd (with_str v f s)) = cl s"
  by (simp add: with_str_def split: sum.splits)

lemma cl_await:
  assumes "\<And>s. cl (snd (m s)) = cl s" and "\<And>x s. cl (snd (f x s)) = cl s"
  shows "cl (snd (await m f s)) = cl s"
proof (cases "m s")
  case (Pair r s')
  with assms(1) [of s] have "cl s' = cl s" by simp
  with Pair assms(2) show ?thesis
    by (cases r) (simp_all add: await_def)
qed

lemma cl_failed: "cl (snd (failed l e s)) = cl s"
  by (simp add: failed_def await_def compute_def ret_def split: sum.splits)

lemma cl_ret: "cl (snd (ret x s)) = cl s"
  by (simp add: ret_def)

lemma cl_compute: "cl (snd (compute r s)) = cl s"
  by (simp add: compute_def)

lemma cl_setup_calls:
  "cl (snd (createBigCommerceAccount srv n s)) = cl s"
  "cl (snd (invitePrimaryUser srv a e s)) = cl s"
  "cl (snd (createDb srv a n s)) = cl s"
  "cl (snd (moveDbintoNewDbGroup srv d g s)) = cl s"
  "cl (snd (addDbVaultEntry srv d entry s)) = cl s"
  "cl (snd (createImport srv c s)) = cl s"
  "cl (snd (updateImportSchedule srv i sc s)) = cl s"
  "cl (snd (applyAutomateBuildTemplate srv i t s)) = cl s"
  by (simp_all add: createBigCommerceAccount_def invitePrimaryUser_def createDb_def
        moveDbintoNewDbGroup_def addDbVaultEntry_def createImport_def updateImportSchedule_def
        applyAutomateBuildTemplate_def cl_request cl_with_str)

lemma cl_step8: "cl (snd (setup_step8 pf params a db v i s)) = cl s"
  by (simp add: setup_step8_def cl_await cl_setup_calls cl_failed cl_ret)

lemma cl_step7: "cl (snd (setup_step7 pf params a db v i s)) = cl s"
  by (simp add: setup_step7_def cl_await cl_setup_calls cl_failed cl_step8 split: option.splits)

lemma cl_step6: "cl (snd (setup_step6 pf params a db v s)) = cl s"
  by (simp add: setup_step6_def cl_await cl_setup_calls cl_failed cl_step7 cl_compute)

lemma cl_step5: "cl (snd (setup_step5 pf params a db s)) = cl s"
  by (simp add: setup_step5_def cl_await cl_setup_calls cl_failed cl_step6)

lemma cl_step4: "cl (snd (setup_step4 pf params a db s)) = cl s"
  by (simp add: setup_step4_def cl_await cl_setup_calls cl_failed cl_step5)

lemma db_await:
  assumes "\<And>s. cl (snd (m s)) = cl s" and "\<And>x s. \<exists>d. cl (snd (f x s)) = (cl s)\<lparr>dbId := d\<rparr>"
  shows "\<exists>d. cl (snd (await m f s)) = (cl s)\<lparr>dbId := d\<rparr>"
proof (cases "m s")
  case (Pair r s')
  with assms(1) [of s] have c: "cl s' = cl s" by simp
  show ?thesis
  proof (cases r)
    case (Inl e)
    with Pair c have "cl (snd (await m f s)) = (cl s)\<lparr>dbId := dbId (cl s)\<rparr>"
      by (simp add: await_def)
    then show ?thesis ..
  next
    case (Inr x)
    with Pair c assms(2) [of x s'] show ?thesis by (simp add: await_def)
  qed
qed

lemma db_refl: "\<exists>d. c = c\<lparr>dbId := d\<rparr>"
  by (rule exI [of _ "dbId c"]) simp

lemma db_step3: "\<exists>d. cl (snd (setup_step3 pf params a s)) = (cl s)\<lparr>dbId := d\<rparr>"
  unfolding setup_step3_def
proof (rule db_await)
  fix x s
  show "\<exists>d. cl (snd ((if \<not> success x \<or> \<not> truthy (opt_prop (data x) ''id'')
          then failed ''Failed to create database: '' (error x)
          else let db = getp (data x) ''id''
               in await (compute (method_toString db ''dbId''))
                    (\<lambda>d s. setup_step4 pf params a db (setDbId d s))) s)) = (cl s)\<lparr>dbId := d\<rparr>"
  proof (cases "\<not> success x \<or> \<not> truthy (opt_prop (data x) ''id'')")
    case True
    then show ?thesis by (simp add: db_refl cl_failed)
  next
    case False
    show ?thesis
    proof (cases "method_toString (getp (data x) ''id'') ''dbId''")
      case (Inl e)
      with False show ?thesis by (simp add: db_refl cl_compute)
    next
      case (Inr d)
      have "cl (snd (setup_step4 pf params a (getp (data x) ''id'') (setDbId d s))) =
              (cl s)\<lparr>dbId := Some d\<rparr>"
        by (simp add: cl_step4 setDbId_def)
      with False Inr show ?thesis by auto
    qed
  qed
qed (simp add: cl_setup_calls)

lemma db_step2: "\<exists>d. cl (snd (setup_step2 pf params a s)) = (cl s)\<lparr>dbId := d\<rparr>"
  unfolding setup_step2_def
  by (auto intro!: db_await simp: cl_setup_calls db_refl cl_failed db_step3)

lemma db_step1: "\<exists>d. cl (snd (setup_step1 pf params s)) = (cl s)\<lparr>dbId := d\<rparr>"
  unfolding setup_step1_def
  by (auto intro!: db_await simp: cl_setup_calls db_refl cl_failed db_step2)

lemma setup_session:
  "snd (setupBigCommerceIntegration pf params s) = snd (setup_step1 pf params s)"
  by (simp add: setupBigCommerceIntegration_def split: prod.splits sum.splits)

lemma db_setup: "\<exists>d. cl (snd (setupBigCommerceIntegration pf params s)) = (cl s)\<lparr>dbId := d\<rparr>"
  by (simp add: setup_session db_step1)

lemma db_kept:
  assumes "account_created pf params s a s1" and "user_invited pf params a s1 s2"
    and "database_created pf params a s2 db s3"
  shows "cl (snd (setupBigCommerceIntegration pf params s)) = cl s3"
  using assms by (simp add: setup_session reach2 reach3 reach4 cl_step4)

section \<open>The envelope of a request\<close>

text \<open>
  Claim C1, as amended. When axios resolves with a response whose status is in
  \<open>[200,300)\<close>, \<open>request\<close> returns \<open>{success: true, data: body, status: code}\<close>. When it
  resolves with a response of any other status, \<open>request\<close> returns
  \<open>{success: false, error: e, status: code}\<close> without data, where \<open>e\<close> is the body's
  \<open>message\<close> when that is truthy and \<open>Unknown error\<close> otherwise. When axios rejects with an
  error that carries a response, \<open>request\<close> returns
  \<open>{success: false, error: e, status: response.status}\<close> where \<open>e\<close> is the \<open>message\<close> of the
  response's body when that is truthy and \<open>API error\<close> otherwise.
\<close>

theorem request_envelope:
  "(srv (sent s) \<lparr>http_method = m, url = u, body = d, config = cfg\<rparr> = Resolved r \<longrightarrow>
      (200 \<le> resp_status r \<and> resp_status r < 300 \<longrightarrow>
         fst (request srv m u d cfg s) =
           Inr \<lparr>success = True, data = resp_data r, error = JUndefined,
                status = JNum (resp_status r)\<rparr>) \<and>
      (\<not> (200 \<le> resp_status r \<and> resp_status r < 300) \<longrightarrow>
         fst (request srv m u d cfg s) =
           Inr \<lparr>success = False, data = JUndefined,
                error = (if truthy (opt_prop (resp_data r) ''message'')
                         then opt_prop (resp_data r) ''message''
                         else JStr (js ''Unknown error'')),
                status = JNum (resp_status r)\<rparr>)) \<and>
   (srv (sent s) \<lparr>http_method = m, url = u, body = d, config = cfg\<rparr> = Rejected err \<longrightarrow>
      \<not> nullish err \<longrightarrow> truthy (getp err ''response'') \<longrightarrow>
         fst (request srv m u d cfg s) =
           Inr \<lparr>success = False, data = JUndefined,
                error = (if truthy (opt_prop (getp (getp err ''response'') ''data'') ''message'')
                         then opt_prop (getp (getp err ''response'') ''data'') ''message''
                         else JStr (js ''API error'')),
                status = getp (getp err ''response'') ''status''\<rparr>)"
  by (auto simp: request_def processResponse_def Let_def js_or_def get_prop_def)

text \<open>
  The instances: a creation answered with 201; with the per-call configuration
  \<open>{validateStatus: null}\<close>, under which axios resolves whatever the status, a 400 with a
  message and a 404 without one; and, as axios rejects by default what is not in
  \<open>[200,300)\<close>, a 500 without a message and a 422 with one.
\<close>

theorem request_envelope_witness:
  "fst (request (answers (Resolved \<lparr>resp_status = 201, resp_data = JObj [(js ''id'', JNum 7)]\<rparr>))
          (js ''POST'') (js ''/groups'') JUndefined JUndefined fresh) =
     Inr \<lparr>success = True, data = JObj [(js ''id'', JNum 7)], error = JUndefined,
          status = JNum 201\<rparr> \<and>
   fst (request (answers (Resolved \<lparr>resp_status = 400,
                    resp_data = JObj [(js ''message'', JStr (js ''Bad request''))]\<rparr>))
          (js ''GET'') (js ''/test'') JUndefined any_status fresh) =
     Inr \<lparr>success = False, data = JUndefined, error = JStr (js ''Bad request''),
          status = JNum 400\<rparr> \<and>
   fst (request (answers (Resolved \<lparr>resp_status = 404, resp_data = JNull\<rparr>))
          (js ''GET'') (js ''/test'') JUndefined any_status fresh) =
     Inr \<lparr>success = False, data = JUndefined, error = JStr (js ''Unknown error''),
          status = JNum 404\<rparr> \<and>
   fst (request (answers (Rejected (JObj [(js ''response'', JObj [(js ''status'', JNum 500)])])))
          (js ''GET'') (js ''/user/accounts'') JUndefined JUndefined fresh) =
     Inr \<lparr>success = False, data = JUndefined, error = JStr (js ''API error''),
          status = JNum 500\<rparr> \<and>
   fst (request (answers (Rejected (JObj [(js ''response'',
                   JObj [(js ''status'', JNum 422),
                         (js ''data'', JObj [(js ''message'', JStr (js ''Invalid name''))])])])))
          (js ''POST'') (js ''/groups'') JUndefined JUndefined fresh) =
     Inr \<lparr>success = False, data = JUndefined, error = JStr (js ''Invalid name''),
          status = JNum 422\<rparr>"
proof -
  let ?ok = "\<lparr>resp_status = 201, resp_data = JObj [(js ''id'', JNum 7)]\<rparr>"
  let ?bad = "\<lparr>resp_status = 400, resp_data = JObj [(js ''message'', JStr (js ''Bad request''))]\<rparr>"
  let ?none = "\<lparr>resp_status = 404, resp_data = JNull\<rparr>"
  let ?err = "JObj [(js ''response'', JObj [(js ''status'', JNum 500)])]"
  let ?inv = "JObj [(js ''response'',
                JObj [(js ''status'', JNum 422),
                      (js ''data'', JObj [(js ''message'', JStr (js ''Invalid name''))])])]"
  have a: "answers out (sent fresh) rq = out" for out rq
    by (simp add: answers_def)
  have m: "opt_prop (resp_data ?bad) ''message'' = JStr (js ''Bad request'')"
    "opt_prop (resp_data ?none) ''message'' = JUndefined"
    by (simp_all add: opt_prop_def own_def)
  have r: "getp ?err ''response'' = JObj [(js ''status'', JNum 500)]"
    "opt_prop (getp (JObj [(js ''status'', JNum 500)]) ''data'') ''message'' = JUndefined"
    "getp (JObj [(js ''status'', JNum 500)]) ''status'' = JNum 500"
    by (simp_all add: opt_prop_def own_def js_eq_iff)
  have i: "getp ?inv ''response'' =
             JObj [(js ''status'', JNum 422),
                   (js ''data'', JObj [(js ''message'', JStr (js ''Invalid name''))])]"
    "opt_prop (getp (JObj [(js ''status'', JNum 422),
                   (js ''data'', JObj [(js ''message'', JStr (js ''Invalid name''))])]) ''data'')
       ''message'' = JStr (js ''Invalid name'')"
    "getp (JObj [(js ''status'', JNum 422),
                   (js ''data'', JObj [(js ''message'', JStr (js ''Invalid name''))])]) ''status'' =
       JNum 422"
    by (simp_all add: opt_prop_def own_def js_eq_iff)
  have ne: "js ''Bad request'' \<noteq> []" "js ''Invalid name'' \<noteq> []"
    by (simp_all add: js_def)
  from request_envelope [of "answers (Resolved ?ok)" fresh "js ''POST''" "js ''/groups''"
      JUndefined JUndefined ?ok] a
  have 1: "fst (request (answers (Resolved ?ok)) (js ''POST'') (js ''/groups'') JUndefined
                  JUndefined fresh) =
           Inr \<lparr>success = True, data = JObj [(js ''id'', JNum 7)], error = JUndefined,
                status = JNum 201\<rparr>"
    by simp
  from request_envelope [of "answers (Resolved ?bad)" fresh "js ''GET''" "js ''/test''"
      JUndefined any_status ?bad] a m ne
  have 2: "fst (request (answers (Resolved ?bad)) (js ''GET'') (js ''/test'') JUndefined
                  any_status fresh) =
           Inr \<lparr>success = False, data = JUndefined, error = JStr (js ''Bad request''),
                status = JNum 400\<rparr>"
    by simp
  from request_envelope [of "answers (Resolved ?none)" fresh "js ''GET''" "js ''/test''"
      JUndefined any_status ?none] a m
  have 3: "fst (request (answers (Resolved ?none)) (js ''GET'') (js ''/test'') JUndefined
                  any_status fresh) =
           Inr \<lparr>success = False, data = JUndefined, error = JStr (js ''Unknown error''),
                status = JNum 404\<rparr>"
    by simp
  from request_envelope [of "answers (Rejected ?err)" fresh "js ''GET''" "js ''/user/accounts''"
      JUndefined JUndefined _ ?err] a r
  have 4: "fst (request (answers (Rejected ?err)) (js ''GET'') (js ''/user/accounts'') JUndefined
                  JUndefined fresh) =
           Inr \<lparr>success = False, data = JUndefined, error = JStr (js ''API error''),
                status = JNum 500\<rparr>"
    by simp
  from request_envelope [of "answers (Rejected ?inv)" fresh "js ''POST''" "js ''/groups''"
      JUndefined JUndefined _ ?inv] a i ne
  have 5: "fst (request (answers (Rejected ?inv)) (js ''POST'') (js ''/groups'') JUndefined
                  JUndefined fresh) =
           Inr \<lparr>success = False, data = JUndefined, error = JStr (js ''Invalid name''),
                status = JNum 422\<rparr>"
    by simp
  from 1 2 3 4 5 show ?thesis by blast
qed

text \<open>
  Claim C1 as the specification states it fails for a response of status outside
  \<open>[200,300)\<close> that axios resolves with, the case \<open>processResponse\<close> has its second return
  for. A caller of \<open>request\<close> who passes the per-call configuration \<open>{validateStatus: null}\<close>
  gets every response that way, and for a 400 without a message the placeholder is
  \<open>Unknown error\<close>, not \<open>API error\<close>.
\<close>

theorem request_envelope_counterexample:
  "fst (request (answers (Resolved \<lparr>resp_status = 400, resp_data = JObj []\<rparr>))
          (js ''GET'') (js ''/test'') JUndefined (JObj [(js ''validateStatus'', JNull)]) fresh) =
     Inr \<lparr>success = False, data = JUndefined, error = JStr (js ''Unknown error''),
          status = JNum 400\<rparr> \<and>
   js ''Unknown error'' \<noteq> js ''API error''"
  by (simp add: request_def processResponse_def Let_def js_or_def opt_prop_def
        own_def answers_def js_eq_iff)

section \<open>Operations on the active database\<close>

text \<open>
  Claim C2. While the active database is unset, each of the nineteen operations on the
  active database (imports, exports, transformers, FTP accounts, join imports, field
  updates, builds) returns
  \<open>{success: false, error: 'Database ID is required. Please set it using setDbId() first.'}\<close>
  with no status, and leaves the session as it was: no request is sent.
\<close>

theorem db_required_without_request:
  assumes "dbId (cl s) = None"
  shows "(let missing = (Inr \<lparr>success = False, data = JUndefined,
                 error = JStr (js ''Database ID is required. Please set it using setDbId() first.''),
                 status = JUndefined\<rparr>, s)
          in imports_fdx srv s = missing \<and>
             createImport srv importConfig s = missing \<and>
             updateImport srv importId importConfig s = missing \<and>
             updateImportSchedule srv importId schedule s = missing \<and>
             exports srv s = missing \<and>
             createExport srv exportConfig s = missing \<and>
             updateExport srv exportId exportConfig s = missing \<and>
             scheduleExport srv exportId schedule s = missing \<and>
             transformers srv s = missing \<and>
             createTransformer srv transformer s = missing \<and>
             updateTransformer srv transformerId transformer s = missing \<and>
             ftpAccounts srv s = missing \<and>
             createFtpAccounts srv ftp s = missing \<and>
             createJoinImport srv joinImportConfig s = missing \<and>
             joinImports srv s = missing \<and>
             updateDbFields srv fieldData s = missing \<and>
             applyAutomateBuildTemplate srv importId templateName s = missing \<and>
             feedBuild srv buildId s = missing \<and>
             cancelBuild srv buildId s = missing)"
  using assms
  by (simp add: Let_def no_dbId_def db_required_def imports_fdx_def createImport_def
        updateImport_def updateImportSchedule_def exports_def createExport_def updateExport_def
        scheduleExport_def transformers_def createTransformer_def updateTransformer_def
        ftpAccounts_def createFtpAccounts_def createJoinImport_def joinImports_def
        updateDbFields_def applyAutomateBuildTemplate_def feedBuild_def cancelBuild_def)

theorem db_required_without_request_witness:
  "dbId (cl fresh) = None \<and>
   imports_fdx (answers (Rejected JNull)) fresh =
     (Inr \<lparr>success = False, data = JUndefined,
           error = JStr (js ''Database ID is required. Please set it using setDbId() first.''),
           status = JUndefined\<rparr>, fresh) \<and>
   sent (snd (applyAutomateBuildTemplate (answers (Rejected JNull)) (JNum 1) (js ''template'')
                fresh)) = []"
proof -
  have h: "dbId (cl fresh) = None"
    by (simp add: fresh_def fresh_client_def)
  have e: "sent fresh = []"
    by (simp add: fresh_def)
  from db_required_without_request [OF h, where srv = "answers (Rejected JNull)"
      and importId = "JNum 1" and templateName = "js ''template''"] h e
  show ?thesis
    by (simp add: Let_def)
qed

section \<open>The values in the query of the preprocessor URL\<close>

text \<open>
  Claim C3, as amended. Let every value that \<open>generateBigCommercePreprocessorUrl\<close> is
  given have a string that is well-formed UTF-16. Then the builder returns a URL, and for
  every defined field that is not followed by a field of the same parameter name (names
  taken as strings of Unicode scalar values), the value a consumer reads for that name from
  the query of the URL is the string of the field's value with \<open>encodeURIComponent\<close> applied
  twice; \<open>decodeURIComponent\<close> applied twice to it gives the string of the value back.
  The fields are the two fixed ones, the defined scalar fields of \<open>connection_info\<close>, the
  defined fields of its nested objects, and the defined fields of \<open>file_info\<close>.
\<close>

theorem query_values_double_encoded:
  assumes "\<forall>nv\<in>set (url_fields ci fi). encodable (snd nv)"
    and "url_fields ci fi = before @ (n, v) # after"
    and "\<forall>nv\<in>set after. usv (fst nv) \<noteq> usv n"
  shows "\<exists>s e1 e2.
           to_string v = Inr s \<and> encodeURIComponent s = Inr e1 \<and>
           encodeURIComponent e1 = Inr e2 \<and>
           read_back ci fi n = Inr (Some e2) \<and>
           decodeURIComponent e2 = Inr e1 \<and> decodeURIComponent e1 = Inr s"
proof -
  let ?g = "\<lambda>nv. (usv (fst nv), twice_encoded (snd nv))"
  have a: "usv n \<notin> fst ` set (rev (map ?g after))"
    using assms(3) by force
  have "rev (map ?g (url_fields ci fi)) =
          rev (map ?g after) @ (usv n, twice_encoded v) # rev (map ?g before)"
    by (simp add: assms(2))
  then have "map_of (rev (map ?g (url_fields ci fi))) (usv n) =
          map_of ((usv n, twice_encoded v) # rev (map ?g before)) (usv n)"
    using map_of_skip [OF a] by (simp only:)
  then have "map_of (rev (map ?g (url_fields ci fi))) (usv n) = Some (twice_encoded v)"
    by simp
  then have r: "read_back ci fi n = Inr (Some (twice_encoded v))"
    using read_back_lookup [OF assms(1)] by simp
  from assms(1,2) have "encodable v" by simp
  then obtain s e1 e2 where
    e: "to_string v = Inr s" "encodeURIComponent s = Inr e1" "encodeURIComponent e1 = Inr e2"
       "twice_encoded v = e2"
    using encodable_twice [of v] by blast
  from e(2,3) have "decodeURIComponent e2 = Inr e1" "decodeURIComponent e1 = Inr s"
    by (simp_all add: decode_encode)
  with r e show ?thesis by auto
qed

text \<open>
  The instance of the specification: \<open>access_token\<close> is \<open>a&b\<close> and \<open>store_hash\<close> is \<open>x/y\<close>.
\<close>

theorem query_values_double_encoded_witness:
  "read_back two_fields None (js ''connection_info[access_token]'') =
     Inr (Some (js ''a%2526b'')) \<and>
   decodeURIComponent (js ''a%2526b'') = Inr (js ''a%26b'') \<and>
   decodeURIComponent (js ''a%26b'') = Inr (js ''a&b'') \<and>
   read_back two_fields None (js ''connection_info[store_hash]'') =
     Inr (Some (js ''x%252Fy'')) \<and>
   decodeURIComponent (js ''x%252Fy'') = Inr (js ''x%2Fy'') \<and>
   decodeURIComponent (js ''x%2Fy'') = Inr (js ''x/y'')"
proof -
  let ?f1 = "(js ''connection_info'' @ js ''['' @ js ''client'' @ js '']'', JStr (js ''bigcommerce''))"
  let ?f2 = "(js ''connection_info'' @ js ''['' @ js ''protocol'' @ js '']'', JStr (js ''api''))"
  let ?n3 = "js ''connection_info'' @ js ''['' @ js ''access_token'' @ js '']''"
  let ?n4 = "js ''connection_info'' @ js ''['' @ js ''store_hash'' @ js '']''"
  have f: "url_fields two_fields None = [?f1, ?f2, (?n3, JStr (js ''a&b''))] @ [(?n4, JStr (js ''x/y''))]"
    "url_fields two_fields None = [?f1, ?f2] @ (?n3, JStr (js ''a&b'')) # [(?n4, JStr (js ''x/y''))]"
    "url_fields two_fields None = [?f1, ?f2, (?n3, JStr (js ''a&b''))] @ (?n4, JStr (js ''x/y'')) # []"
    by (simp_all add: url_fields_def two_fields_def connection_fields_def)
  have a: "ascii (js ''bigcommerce'')" "ascii (js ''api'')" "ascii (js ''a&b'')" "ascii (js ''x/y'')"
    by (simp_all add: js_def)
  have e: "\<forall>nv\<in>set (url_fields two_fields None). encodable (snd nv)"
    unfolding f(1) using a by (simp add: encodable_ascii)
  have n: "?n3 = js ''connection_info[access_token]''" "?n4 = js ''connection_info[store_hash]''"
    by (simp_all add: js_append [symmetric])
  have an: "ascii (js ''connection_info[access_token]'')" "ascii (js ''connection_info[store_hash]'')"
    by (simp_all add: js_def)
  have d: "\<forall>nv\<in>set [(?n4, JStr (js ''x/y''))]. usv (fst nv) \<noteq> usv ?n3"
    by (simp add: n usv_ascii an js_eq_iff)
  from query_values_double_encoded [OF e f(2) d]
  have 1: "read_back two_fields None (js ''connection_info[access_token]'') =
             Inr (Some (js ''a%2526b'')) \<and>
           decodeURIComponent (js ''a%2526b'') = Inr (js ''a%26b'') \<and>
           decodeURIComponent (js ''a%26b'') = Inr (js ''a&b'')"
    by (auto simp: n encode_examples)
  from query_values_double_encoded [OF e f(3)]
  have 2: "read_back two_fields None (js ''connection_info[store_hash]'') =
             Inr (Some (js ''x%252Fy'')) \<and>
           decodeURIComponent (js ''x%252Fy'') = Inr (js ''x%2Fy'') \<and>
           decodeURIComponent (js ''x%2Fy'') = Inr (js ''x/y'')"
    by (auto simp: n encode_examples)
  from 1 2 show ?thesis by blast
qed

text \<open>
  The text of that URL. The serializer of \<open>URLSearchParams\<close> escapes once more what it
  writes, the brackets of the names and the percent signs of the values, and the parser of
  the consumer undoes exactly that: the text holds \<open>a%252526b\<close> where the value read back is
  \<open>a%2526b\<close>.
\<close>

lemma two_fields_url:
  "generateBigCommercePreprocessorUrl two_fields None =
     Inr (js (''https://preprocess.proxy.feedonomics.com/preprocess/run_preprocess.php'' @
              ''?connection_info%5Bclient%5D=bigcommerce&connection_info%5Bprotocol%5D=api'' @
              ''&connection_info%5Baccess_token%5D=a%252526b'' @
              ''&connection_info%5Bstore_hash%5D=x%25252Fy''))"
proof -
  let ?f1 = "(js ''connection_info'' @ js ''['' @ js ''client'' @ js '']'', JStr (js ''bigcommerce''))"
  let ?f2 = "(js ''connection_info'' @ js ''['' @ js ''protocol'' @ js '']'', JStr (js ''api''))"
  let ?n3 = "js ''connection_info'' @ js ''['' @ js ''access_token'' @ js '']''"
  let ?n4 = "js ''connection_info'' @ js ''['' @ js ''store_hash'' @ js '']''"
  have f: "url_fields two_fields None = [?f1, ?f2, (?n3, JStr (js ''a&b'')), (?n4, JStr (js ''x/y''))]"
    by (simp add: url_fields_def two_fields_def connection_fields_def)
  have a: "ascii (js ''bigcommerce'')" "ascii (js ''api'')" "ascii (js ''a&b'')" "ascii (js ''x/y'')"
    by (simp_all add: js_def)
  have n: "fst ?f1 = js ''connection_info[client]''" "fst ?f2 = js ''connection_info[protocol]''"
    "?n3 = js ''connection_info[access_token]''" "?n4 = js ''connection_info[store_hash]''"
    by (simp_all add: js_append [symmetric])
  have an: "ascii (js ''connection_info[client]'')" "ascii (js ''connection_info[protocol]'')"
    "ascii (js ''connection_info[access_token]'')" "ascii (js ''connection_info[store_hash]'')"
    by (simp_all add: js_def)
  have d: "double_encode (JStr (js ''bigcommerce'')) = Inr (js ''bigcommerce'')"
    "double_encode (JStr (js ''api'')) = Inr (js ''api'')"
    "double_encode (JStr (js ''a&b'')) = Inr (js ''a%2526b'')"
    "double_encode (JStr (js ''x/y'')) = Inr (js ''x%252Fy'')"
    by (simp_all add: double_encode_def and_then_def encode_eval)
  have av: "ascii (js ''a%2526b'')" "ascii (js ''x%252Fy'')"
    by (simp_all add: js_def)
  have p: "preprocessor_params two_fields None =
             Inr [(js ''connection_info[client]'', js ''bigcommerce''),
                  (js ''connection_info[protocol]'', js ''api''),
                  (js ''connection_info[access_token]'', js ''a%2526b''),
                  (js ''connection_info[store_hash]'', js ''x%252Fy'')]"
    unfolding preprocessor_params_set_all f
    using n(1,2)
    by (simp add: d and_then_def sp_set_def n(3,4) usv_ascii an a av js_eq_iff)
  have e: "form_urlencode (js ''connection_info[client]'') = js ''connection_info%5Bclient%5D''"
    "form_urlencode (js ''connection_info[protocol]'') = js ''connection_info%5Bprotocol%5D''"
    "form_urlencode (js ''connection_info[access_token]'') = js ''connection_info%5Baccess_token%5D''"
    "form_urlencode (js ''connection_info[store_hash]'') = js ''connection_info%5Bstore_hash%5D''"
    "form_urlencode (js ''bigcommerce'') = js ''bigcommerce''"
    "form_urlencode (js ''api'') = js ''api''"
    "form_urlencode (js ''a%2526b'') = js ''a%252526b''"
    "form_urlencode (js ''x%252Fy'') = js ''x%25252Fy''"
    by (simp_all add: form_ascii an a av)
       (simp_all add: js_def form_octet_def is_alnum_def pct_def hex_digit_def)
  show ?thesis
    by (simp add: generateBigCommercePreprocessorUrl_def p and_then_def sp_toString_def e
          preprocessor_base_def js_append [symmetric])
       (simp add: js_def)
qed

text \<open>
  Claim C3 as the specification states it fails for a field that a later field of the same
  parameter name overwrites. The filters whose keys are the lone surrogates U+D800 and
  U+D801 and whose values are \<open>a\<close> and \<open>b\<close> are two defined scalar fields.
  \<open>URLSearchParams\<close> takes both keys for U+FFFD, the second \<open>set\<close> replaces the first, and
  what is read back under the first field's name is \<open>b\<close>, which decodes to \<open>b\<close> and is
  not the double encoding of \<open>a\<close>. And for a value with a lone surrogate there is no URL:
  \<open>encodeURIComponent\<close> throws.
\<close>

theorem query_values_double_encoded_counterexample:
  "read_back colliding None (js ''connection_info[filters]['' @ [0xD800] @ js '']'') =
     Inr (Some (js ''b'')) \<and>
   decodeURIComponent (js ''b'') = Inr (js ''b'') \<and>
   double_encode (JStr (js ''a'')) = Inr (js ''a'') \<and>
   js ''b'' \<noteq> js ''a'' \<and>
   generateBigCommercePreprocessorUrl [(js ''access_token'', JStr lone_surrogate)] None =
     Inl uri_malformed"
proof -
  let ?p = "js ''connection_info'' @ js ''['' @ js ''filters'' @ js '']['' "
  let ?f1 = "(js ''connection_info'' @ js ''['' @ js ''client'' @ js '']'', JStr (js ''bigcommerce''))"
  let ?f2 = "(js ''connection_info'' @ js ''['' @ js ''protocol'' @ js '']'', JStr (js ''api''))"
  let ?f3 = "(?p @ [0xD800] @ js '']'', JStr (js ''a''))"
  let ?f4 = "(?p @ [0xD801] @ js '']'', JStr (js ''b''))"
  have f: "url_fields colliding None = [?f1, ?f2, ?f3, ?f4]"
    by (simp add: url_fields_def colliding_def connection_fields_def nested_fields_def)
  have a: "ascii (js ''bigcommerce'')" "ascii (js ''api'')" "ascii (js ''a'')" "ascii (js ''b'')"
    by (simp_all add: js_def)
  have e: "\<forall>nv\<in>set (url_fields colliding None). encodable (snd nv)"
    unfolding f using a by (simp add: encodable_ascii)
  have p: "?p = js ''connection_info[filters]['' " "ascii (js ''connection_info[filters]['')"
    by (simp_all add: js_append [symmetric]) (simp add: js_def)
  have s: "usv (0xD800 # js '']'') = 0xFFFD # js '']''" "usv (0xD801 # js '']'') = 0xFFFD # js '']''"
    by (simp_all add: usv_def js_def is_lead_def is_trail_def utf16_encode_def)
  have u: "usv (js ''connection_info[filters]['' @ 0xD800 # js '']'') =
             js ''connection_info[filters]['' @ 0xFFFD # js '']''"
    "usv (js ''connection_info[filters]['' @ 0xD801 # js '']'') =
             js ''connection_info[filters]['' @ 0xFFFD # js '']''"
    by (simp_all only: usv_append_ascii [OF p(2)] s)
  have t: "twice_encoded (JStr (js ''b'')) = js ''b''" "double_encode (JStr (js ''a'')) = Inr (js ''a'')"
    by (simp_all add: twice_encoded_def double_encode_def and_then_def encode_examples)
  have "read_back colliding None (js ''connection_info[filters]['' @ [0xD800] @ js '']'') =
          Inr (Some (js ''b''))"
    unfolding read_back_lookup [OF e] f
    by (simp add: p(1) u t)
  moreover have "decodeURIComponent (js ''b'') = Inr (js ''b'')"
    using encode_examples(6) by (rule decode_encode)
  moreover have "js ''b'' \<noteq> js ''a''"
    by (simp add: js_eq_iff)
  moreover have "generateBigCommercePreprocessorUrl [(js ''access_token'', JStr lone_surrogate)]
      None = Inl uri_malformed"
    using generate_throws [of "[]" "JStr lone_surrogate" uri_malformed "js ''access_token''" "[]" None]
      lone_surrogate_throws by simp
  ultimately show ?thesis
    using t(2) by simp
qed

section \<open>Get or create\<close>

text \<open>
  When the exports cannot be fetched, \<open>createOrUpdateExport\<close> returns the failure and sends
  nothing more.
\<close>

lemma createOrUpdateExport_stops_after_failed_fetch:
  "fst (createOrUpdateExport (platform_of imports_down) ftp file None (with_db ''1'')) =
     Inr (failure (js ''Getting existing export: Error getting exports: Boom'')) \<and>
   map (\<lambda>r. (http_method r, url r))
     (sent (snd (createOrUpdateExport (platform_of imports_down) ftp file None (with_db ''1'')))) =
     [(js ''GET'', js ''/dbs/1/exports'')]"
proof -
  have g: "exports (remote (platform_of imports_down)) (with_db ''1'') =
        (Inr \<lparr>success = False, data = JUndefined, error = JStr (js ''Boom''), status = JNum 500\<rparr>,
         sending (with_db ''1'') [req ''GET'' (js ''/dbs/1/exports'') JUndefined])"
    by (simp add: exports_def platform_of_def imports_down_def scripted_def boom_def
          with_db_def no_dbId_def dbs_path_def request_def Let_def get_prop_def own_def
          opt_prop_def js_or_def req_def sending_def js_eq_iff js_append [symmetric])
  have "createOrUpdateExport (platform_of imports_down) ftp file None (with_db ''1'') =
        (Inr (failure (js ''Getting existing export: Error getting exports: Boom'')),
         sending (with_db ''1'') [req ''GET'' (js ''/dbs/1/exports'') JUndefined])"
    by (simp add: createOrUpdateExport_def getExistingExport_def await_def g failed_def
          compute_def ret_def failure_def js_append [symmetric])
  then show ?thesis
    by (simp add: with_db_def req_def)
qed

text \<open>
  Claim C4. A get-or-create operation whose initial fetch fails returns a labelled failure
  and issues no create call. \<open>createOrUpdateImport\<close> does not: on a client whose database
  is 1, with a server that answers the fetch of the imports with status 500 and the creation
  with the record 9, \<open>retrieveImport\<close> returns the failure \<open>Error getting imports: Boom\<close>, and
  \<open>createOrUpdateImport\<close> goes on to create the import and returns a success.
\<close>

theorem createOrUpdateImport_creates_after_failed_fetch:
  "fst (retrieveImport (platform_of imports_down) (with_db ''1'')) =
     Inr (failure (js ''Error getting imports: Boom'')) \<and>
   fst (createOrUpdateImport (platform_of imports_down) store_12345 (JNum 1) True (with_db ''1'')) =
     Inr (succeeded (JObj [(js ''id'', JNum 9)])) \<and>
   map (\<lambda>r. (http_method r, url r))
     (sent (snd (createOrUpdateImport (platform_of imports_down) store_12345 (JNum 1) True
        (with_db ''1'')))) =
     [(js ''GET'', js ''/dbs/1/imports''), (js ''POST'', js ''/dbs/1/imports'')]"
proof -
  have "scalar (user_id store_12345)" "ascii (user_storeHash store_12345)" "scalar (JNum 1)"
    by (simp_all add: store_12345_def js_def)
  then obtain c where c: "buildImportConfig store_12345 (JNum 1) True = Inr c"
    using buildImportConfig_total by blast
  have g: "imports_fdx (remote (platform_of imports_down)) (with_db ''1'') =
        (Inr \<lparr>success = False, data = JUndefined, error = JStr (js ''Boom''), status = JNum 500\<rparr>,
         sending (with_db ''1'') [req ''GET'' (js ''/dbs/1/imports'') JUndefined])"
    by (simp add: imports_fdx_def platform_of_def imports_down_def scripted_def boom_def
          with_db_def no_dbId_def dbs_path_def request_def Let_def get_prop_def own_def
          opt_prop_def js_or_def req_def sending_def js_eq_iff js_append [symmetric])
  have r: "retrieveImport (platform_of imports_down) (with_db ''1'') =
        (Inr (failure (js ''Error getting imports: Boom'')),
         sending (with_db ''1'') [req ''GET'' (js ''/dbs/1/imports'') JUndefined])"
    by (simp add: retrieveImport_def await_def g failed_def compute_def ret_def
          js_append [symmetric])
  have p: "createImport (remote (platform_of imports_down)) c
             (sending (with_db ''1'') [req ''GET'' (js ''/dbs/1/imports'') JUndefined]) =
        (Inr \<lparr>success = True, data = JObj [(js ''id'', JNum 9)], error = JUndefined,
              status = JNum 201\<rparr>,
         sending (with_db ''1'') [req ''GET'' (js ''/dbs/1/imports'') JUndefined,
                                  req ''POST'' (js ''/dbs/1/imports'') c])"
    by (simp add: createImport_def platform_of_def imports_down_def scripted_def ok_def
          with_db_def no_dbId_def dbs_path_def request_def Let_def processResponse_def
          req_def sending_def js_eq_iff js_append [symmetric])
  have "createOrUpdateImport (platform_of imports_down) store_12345 (JNum 1) True (with_db ''1'') =
        (Inr (succeeded (JObj [(js ''id'', JNum 9)])),
         sending (with_db ''1'') [req ''GET'' (js ''/dbs/1/imports'') JUndefined,
                                  req ''POST'' (js ''/dbs/1/imports'') c])"
    by (simp add: createOrUpdateImport_def c await_def r p failure_def ret_def)
  with r show ?thesis
    by (simp add: with_db_def req_def)
qed

section \<open>Updating what exists\<close>

text \<open>
  Claim C5. When the list of imports holds an import of the fixed name,
  \<open>createOrUpdateImport\<close> fetches the list, sends an update to the path of that import's
  identifier and, the update succeeding, returns the import it found, not the body of the
  update's response. \<open>createOrUpdateExport\<close> does the same with the list of exports and the
  export named \<open>Export Google\<close>, and still returns the export it found when it goes on to
  set the schedule of a time slot. When the vault rows hold an entry named \<open>bc_credentials\<close>,
  \<open>updateVaultEntries\<close> fetches the rows, deletes the entry of the old name if there is one,
  sends an update to the path of the entry's identifier and returns the body of the
  update's response. In each case the requests named are all that is sent.
\<close>

theorem existing_record_is_updated:
  "(dbId (cl s) = Some db \<and> db \<noteq> [] \<and>
    buildImportConfig user channel isCreate = Inr importConfig \<and>
    remote pf (sent s) (req ''GET'' (js ''/dbs/'' @ db @ js ''/imports'') JUndefined) =
      Resolved \<lparr>resp_status = st, resp_data = JArr xs\<rparr> \<and> 200 \<le> st \<and> st < 300 \<and>
    find_named MAIN_IMPORT_NAME xs = Inr x \<and> x \<noteq> JUndefined \<and>
    to_string (getp x ''id'') = Inr i \<and>
    remote pf (sent s @ [req ''GET'' (js ''/dbs/'' @ db @ js ''/imports'') JUndefined])
      (req ''PUT'' (js ''/dbs/'' @ db @ js ''/imports/'' @ i) importConfig) =
      Resolved \<lparr>resp_status = st', resp_data = b\<rparr> \<and> 200 \<le> st' \<and> st' < 300
    \<longrightarrow>
    createOrUpdateImport pf user channel isCreate s =
      (Inr (succeeded x),
       sending s [req ''GET'' (js ''/dbs/'' @ db @ js ''/imports'') JUndefined,
                  req ''PUT'' (js ''/dbs/'' @ db @ js ''/imports/'' @ i) importConfig])) \<and>
   (dbId (cl s) = Some db \<and> db \<noteq> [] \<and>
    remote pf (sent s) (req ''GET'' (js ''/dbs/'' @ db @ js ''/exports'') JUndefined) =
      Resolved \<lparr>resp_status = st, resp_data = JArr xs\<rparr> \<and> 200 \<le> st \<and> st < 300 \<and>
    find_named EXPORT_NAME xs = Inr x \<and> x \<noteq> JUndefined \<and>
    to_string (getp x ''id'') = Inr i \<and>
    remote pf (sent s @ [req ''GET'' (js ''/dbs/'' @ db @ js ''/exports'') JUndefined])
      (req ''PUT'' (js ''/dbs/'' @ db @ js ''/exports/'' @ i) (buildExportConfig ftp filename)) =
      Resolved \<lparr>resp_status = st', resp_data = b\<rparr> \<and> 200 \<le> st' \<and> st' < 300
    \<longrightarrow>
    createOrUpdateExport pf ftp filename None s =
      (Inr (succeeded x),
       sending s [req ''GET'' (js ''/dbs/'' @ db @ js ''/exports'') JUndefined,
                  req ''PUT'' (js ''/dbs/'' @ db @ js ''/exports/'' @ i) (buildExportConfig ftp filename)])) \<and>
   (dbId (cl s) = Some db \<and> db \<noteq> [] \<and>
    remote pf (sent s) (req ''GET'' (js ''/dbs/'' @ db @ js ''/exports'') JUndefined) =
      Resolved \<lparr>resp_status = st, resp_data = JArr xs\<rparr> \<and> 200 \<le> st \<and> st < 300 \<and>
    find_named EXPORT_NAME xs = Inr x \<and> x \<noteq> JUndefined \<and>
    to_string (getp x ''id'') = Inr i \<and>
    remote pf (sent s @ [req ''GET'' (js ''/dbs/'' @ db @ js ''/exports'') JUndefined])
      (req ''PUT'' (js ''/dbs/'' @ db @ js ''/exports/'' @ i) (buildExportConfig ftp filename)) =
      Resolved \<lparr>resp_status = st', resp_data = b\<rparr> \<and> 200 \<le> st' \<and> st' < 300 \<and>
    remote pf (sent s @ [req ''GET'' (js ''/dbs/'' @ db @ js ''/exports'') JUndefined,
                         req ''PUT'' (js ''/dbs/'' @ db @ js ''/exports/'' @ i) (buildExportConfig ftp filename)])
      (req ''POST'' (js ''/dbs/'' @ db @ js ''/exports/'' @ i @ js ''/schedule'')
         (schedule_object (js ''*'') (slot_hour ts) (slot_minutes ts))) =
      Resolved \<lparr>resp_status = st'', resp_data = b'\<rparr> \<and> 200 \<le> st'' \<and> st'' < 300
    \<longrightarrow>
    createOrUpdateExport pf ftp filename (Some ts) s =
      (Inr (succeeded x),
       sending s [req ''GET'' (js ''/dbs/'' @ db @ js ''/exports'') JUndefined,
                  req ''PUT'' (js ''/dbs/'' @ db @ js ''/exports/'' @ i) (buildExportConfig ftp filename),
                  req ''POST'' (js ''/dbs/'' @ db @ js ''/exports/'' @ i @ js ''/schedule'')
         (schedule_object (js ''*'') (slot_hour ts) (slot_minutes ts))])) \<and>
   (remote pf (sent s) (req ''GET'' (js ''/vault'') JUndefined) =
      Resolved \<lparr>resp_status = st, resp_data = d\<rparr> \<and> 200 \<le> st \<and> st < 300 \<and>
    opt_prop (opt_prop d ''data'') ''vault_rows'' = JArr xs \<and>
    find_named ''BigCommerce Credentials'' xs = Inr JUndefined \<and>
    find_named ''bc_credentials'' xs = Inr x \<and> x \<noteq> JUndefined \<and>
    to_string (getp x ''id'') = Inr i \<and>
    remote pf (sent s @ [req ''GET'' (js ''/vault'') JUndefined])
      (req ''PUT'' (js ''/vault/'' @ i)
         (JObj [(js ''name'', JStr (js ''bc_credentials'')),
            (js ''expiration'', JStr (expiration pf)),
            (js ''credentials_type'', JStr (js ''none'')),
            (js ''credentials'',
             JStr (stringify pf (JObj [(js ''access_token'', JStr token)])))])) =
      Resolved \<lparr>resp_status = st', resp_data = b\<rparr> \<and> 200 \<le> st' \<and> st' < 300
    \<longrightarrow>
    updateVaultEntries pf token s =
      (Inr (succeeded b),
       sending s [req ''GET'' (js ''/vault'') JUndefined,
                  req ''PUT'' (js ''/vault/'' @ i)
         (JObj [(js ''name'', JStr (js ''bc_credentials'')),
            (js ''expiration'', JStr (expiration pf)),
            (js ''credentials_type'', JStr (js ''none'')),
            (js ''credentials'',
             JStr (stringify pf (JObj [(js ''access_token'', JStr token)])))])])) \<and>
   (remote pf (sent s) (req ''GET'' (js ''/vault'') JUndefined) =
      Resolved \<lparr>resp_status = st, resp_data = d\<rparr> \<and> 200 \<le> st \<and> st < 300 \<and>
    opt_prop (opt_prop d ''data'') ''vault_rows'' = JArr xs \<and>
    find_named ''BigCommerce Credentials'' xs = Inr y \<and> y \<noteq> JUndefined \<and>
    to_string (getp y ''id'') = Inr j \<and>
    remote pf (sent s @ [req ''GET'' (js ''/vault'') JUndefined]) (req ''DELETE'' (js ''/vault/'' @ j) JUndefined) =
      Resolved \<lparr>resp_status = st'', resp_data = b'\<rparr> \<and> 200 \<le> st'' \<and> st'' < 300 \<and>
    find_named ''bc_credentials'' xs = Inr x \<and> x \<noteq> JUndefined \<and>
    to_string (getp x ''id'') = Inr i \<and>
    remote pf (sent s @ [req ''GET'' (js ''/vault'') JUndefined, req ''DELETE'' (js ''/vault/'' @ j) JUndefined])
      (req ''PUT'' (js ''/vault/'' @ i)
         (JObj [(js ''name'', JStr (js ''bc_credentials'')),
            (js ''expiration'', JStr (expiration pf)),
            (js ''credentials_type'', JStr (js ''none'')),
            (js ''credentials'',
             JStr (stringify pf (JObj [(js ''access_token'', JStr token)])))])) =
      Resolved \<lparr>resp_status = st', resp_data = b\<rparr> \<and> 200 \<le> st' \<and> st' < 300
    \<longrightarrow>
    updateVaultEntries pf token s =
      (Inr (succeeded b),
       sending s [req ''GET'' (js ''/vault'') JUndefined, req ''DELETE'' (js ''/vault/'' @ j) JUndefined,
                  req ''PUT'' (js ''/vault/'' @ i)
         (JObj [(js ''name'', JStr (js ''bc_credentials'')),
            (js ''expiration'', JStr (expiration pf)),
            (js ''credentials_type'', JStr (js ''none'')),
            (js ''credentials'',
             JStr (stringify pf (JObj [(js ''access_token'', JStr token)])))])]))"
proof (intro conjI impI; elim conjE)
  show "createOrUpdateImport pf user channel isCreate s =
      (Inr (succeeded x),
       sending s [req ''GET'' (js ''/dbs/'' @ db @ js ''/imports'') JUndefined,
                  req ''PUT'' (js ''/dbs/'' @ db @ js ''/imports/'' @ i) importConfig])"
    if "dbId (cl s) = Some db" "db \<noteq> []"
      "buildImportConfig user channel isCreate = Inr importConfig"
      "remote pf (sent s) (req ''GET'' (js ''/dbs/'' @ db @ js ''/imports'') JUndefined) =
         Resolved \<lparr>resp_status = st, resp_data = JArr xs\<rparr>"
      "200 \<le> st" "st < 300"
      "find_named MAIN_IMPORT_NAME xs = Inr x" "x \<noteq> JUndefined"
      "to_string (getp x ''id'') = Inr i"
      "remote pf (sent s @ [req ''GET'' (js ''/dbs/'' @ db @ js ''/imports'') JUndefined])
         (req ''PUT'' (js ''/dbs/'' @ db @ js ''/imports/'' @ i) importConfig) =
         Resolved \<lparr>resp_status = st', resp_data = b\<rparr>"
      "200 \<le> st'" "st' < 300"
    using that by (rule createOrUpdateImport_updates)
next
  let ?get = "req ''GET'' (js ''/dbs/'' @ db @ js ''/exports'') JUndefined"
  let ?put = "req ''PUT'' (js ''/dbs/'' @ db @ js ''/exports/'' @ i) (buildExportConfig ftp filename)"
  assume h: "dbId (cl s) = Some db" "db \<noteq> []"
    "remote pf (sent s) ?get = Resolved \<lparr>resp_status = st, resp_data = JArr xs\<rparr>"
    "200 \<le> st" "st < 300"
    "find_named EXPORT_NAME xs = Inr x" "x \<noteq> JUndefined"
    "to_string (getp x ''id'') = Inr i"
    "remote pf (sent s @ [?get]) ?put = Resolved \<lparr>resp_status = st', resp_data = b\<rparr>"
    "200 \<le> st'" "st' < 300"
  from h(6,7) have tx: "truthy x" by (rule find_named_found)
  have f: "getExistingExport pf s = (Inr (succeeded x), sending s [?get])"
    using h(1-7) by (rule getExistingExport_found)
  have u: "handleExistingExport pf x ftp filename (sending s [?get]) =
             (Inr (succeeded x), sending s [?get, ?put])"
    using handleExistingExport_updates [of "sending s [?get]" db x i pf ftp filename st' b]
      h tx by simp
  show "createOrUpdateExport pf ftp filename None s =
      (Inr (succeeded x),
       sending s [req ''GET'' (js ''/dbs/'' @ db @ js ''/exports'') JUndefined,
                  req ''PUT'' (js ''/dbs/'' @ db @ js ''/exports/'' @ i) (buildExportConfig ftp filename)])"
    by (simp add: createOrUpdateExport_def await_def f u succeeded_def ret_def)
next
  let ?get = "req ''GET'' (js ''/dbs/'' @ db @ js ''/exports'') JUndefined"
  let ?put = "req ''PUT'' (js ''/dbs/'' @ db @ js ''/exports/'' @ i) (buildExportConfig ftp filename)"
  let ?post = "req ''POST'' (js ''/dbs/'' @ db @ js ''/exports/'' @ i @ js ''/schedule'')
         (schedule_object (js ''*'') (slot_hour ts) (slot_minutes ts))"
  assume h: "dbId (cl s) = Some db" "db \<noteq> []"
    "remote pf (sent s) ?get = Resolved \<lparr>resp_status = st, resp_data = JArr xs\<rparr>"
    "200 \<le> st" "st < 300"
    "find_named EXPORT_NAME xs = Inr x" "x \<noteq> JUndefined"
    "to_string (getp x ''id'') = Inr i"
    "remote pf (sent s @ [?get]) ?put = Resolved \<lparr>resp_status = st', resp_data = b\<rparr>"
    "200 \<le> st'" "st' < 300"
    "remote pf (sent s @ [?get, ?put]) ?post = Resolved \<lparr>resp_status = st'', resp_data = b'\<rparr>"
    "200 \<le> st''" "st'' < 300"
  from h(6,7) have tx: "truthy x" by (rule find_named_found)
  have f: "getExistingExport pf s = (Inr (succeeded x), sending s [?get])"
    using h(1-7) by (rule getExistingExport_found)
  have u: "handleExistingExport pf x ftp filename (sending s [?get]) =
             (Inr (succeeded x), sending s [?get, ?put])"
    using handleExistingExport_updates [of "sending s [?get]" db x i pf ftp filename st' b]
      h tx by simp
  have r: "runExportSchedule pf x ts (sending s [?get, ?put]) =
             (Inr (succeeded x), sending s [?get, ?put, ?post])"
    using runExportSchedule_ok [of "sending s [?get, ?put]" db x i pf ts st'' b']
      h tx by simp
  show "createOrUpdateExport pf ftp filename (Some ts) s =
      (Inr (succeeded x),
       sending s [req ''GET'' (js ''/dbs/'' @ db @ js ''/exports'') JUndefined,
                  req ''PUT'' (js ''/dbs/'' @ db @ js ''/exports/'' @ i) (buildExportConfig ftp filename),
                  req ''POST'' (js ''/dbs/'' @ db @ js ''/exports/'' @ i @ js ''/schedule'')
         (schedule_object (js ''*'') (slot_hour ts) (slot_minutes ts))])"
    by (simp add: createOrUpdateExport_def await_def f u r succeeded_def)
next
  let ?get = "req ''GET'' (js ''/vault'') JUndefined"
  let ?put = "req ''PUT'' (js ''/vault/'' @ i)
         (JObj [(js ''name'', JStr (js ''bc_credentials'')),
            (js ''expiration'', JStr (expiration pf)),
            (js ''credentials_type'', JStr (js ''none'')),
            (js ''credentials'',
             JStr (stringify pf (JObj [(js ''access_token'', JStr token)])))])"
  assume h: "remote pf (sent s) ?get = Resolved \<lparr>resp_status = st, resp_data = d\<rparr>"
    "200 \<le> st" "st < 300"
    "opt_prop (opt_prop d ''data'') ''vault_rows'' = JArr xs"
    "find_named ''BigCommerce Credentials'' xs = Inr JUndefined"
    "find_named ''bc_credentials'' xs = Inr x" "x \<noteq> JUndefined"
    "to_string (getp x ''id'') = Inr i"
    "remote pf (sent s @ [?get]) ?put = Resolved \<lparr>resp_status = st', resp_data = b\<rparr>"
    "200 \<le> st'" "st' < 300"
  have v: "vault (remote pf) s =
             (Inr \<lparr>success = True, data = d, error = JUndefined, status = JNum st\<rparr>,
              sending s [?get])"
    using h(1-3) by (rule vault_fetched)
  have u: "createOrUpdateVaultEntry pf (JArr xs) token (sending s [?get]) =
             (Inr (succeeded b), sending s [?get, ?put])"
    using createOrUpdateVaultEntry_updates [of xs x i pf "sending s [?get]" token st' b] h
    by simp
  show "updateVaultEntries pf token s =
      (Inr (succeeded b),
       sending s [req ''GET'' (js ''/vault'') JUndefined,
                  req ''PUT'' (js ''/vault/'' @ i)
         (JObj [(js ''name'', JStr (js ''bc_credentials'')),
            (js ''expiration'', JStr (expiration pf)),
            (js ''credentials_type'', JStr (js ''none'')),
            (js ''credentials'',
             JStr (stringify pf (JObj [(js ''access_token'', JStr token)])))])])"
    by (simp add: updateVaultEntries_def await_def v Let_def h(4) js_or_def
          deleteOldEntry_none [OF h(5)] u)
next
  let ?get = "req ''GET'' (js ''/vault'') JUndefined"
  let ?del = "req ''DELETE'' (js ''/vault/'' @ j) JUndefined"
  let ?put = "req ''PUT'' (js ''/vault/'' @ i)
         (JObj [(js ''name'', JStr (js ''bc_credentials'')),
            (js ''expiration'', JStr (expiration pf)),
            (js ''credentials_type'', JStr (js ''none'')),
            (js ''credentials'',
             JStr (stringify pf (JObj [(js ''access_token'', JStr token)])))])"
  assume h: "remote pf (sent s) ?get = Resolved \<lparr>resp_status = st, resp_data = d\<rparr>"
    "200 \<le> st" "st < 300"
    "opt_prop (opt_prop d ''data'') ''vault_rows'' = JArr xs"
    "find_named ''BigCommerce Credentials'' xs = Inr y" "y \<noteq> JUndefined"
    "to_string (getp y ''id'') = Inr j"
    "remote pf (sent s @ [?get]) ?del = Resolved \<lparr>resp_status = st'', resp_data = b'\<rparr>"
    "200 \<le> st''" "st'' < 300"
    "find_named ''bc_credentials'' xs = Inr x" "x \<noteq> JUndefined"
    "to_string (getp x ''id'') = Inr i"
    "remote pf (sent s @ [?get, ?del]) ?put = Resolved \<lparr>resp_status = st', resp_data = b\<rparr>"
    "200 \<le> st'" "st' < 300"
  have v: "vault (remote pf) s =
             (Inr \<lparr>success = True, data = d, error = JUndefined, status = JNum st\<rparr>,
              sending s [?get])"
    using h(1-3) by (rule vault_fetched)
  have dl: "deleteOldEntry pf (JArr xs) (sending s [?get]) =
             (Inr (Some (succeeded b')), sending s [?get, ?del])"
    using deleteOldEntry_deleted [of xs y j pf "sending s [?get]" st'' b'] h by simp
  have u: "createOrUpdateVaultEntry pf (JArr xs) token (sending s [?get, ?del]) =
             (Inr (succeeded b), sending s [?get, ?del, ?put])"
    using createOrUpdateVaultEntry_updates [of xs x i pf "sending s [?get, ?del]" token st' b] h
    by simp
  show "updateVaultEntries pf token s =
      (Inr (succeeded b),
       sending s [req ''GET'' (js ''/vault'') JUndefined, req ''DELETE'' (js ''/vault/'' @ j) JUndefined,
                  req ''PUT'' (js ''/vault/'' @ i)
         (JObj [(js ''name'', JStr (js ''bc_credentials'')),
            (js ''expiration'', JStr (expiration pf)),
            (js ''credentials_type'', JStr (js ''none'')),
            (js ''credentials'',
             JStr (stringify pf (JObj [(js ''access_token'', JStr token)])))])])"
    by (simp add: updateVaultEntries_def await_def v Let_def h(4) js_or_def dl u succeeded_def)
qed


theorem existing_record_is_updated_witness:
  "fst (createOrUpdateImport
          (platform_of (scripted [ok 200 (JArr [JObj [(js ''id'', JNum 1), (js ''name'', JStr (js ''BigCommerceImport''))]]), ok 200 (JObj [(js ''updated'', JBool True)])]))
          \<lparr>user_id = JNum 12345, user_storeHash = js ''abc123''\<rparr> (JNum 1) False (with_db ''1'')) =
     Inr (succeeded (JObj [(js ''id'', JNum 1), (js ''name'', JStr (js ''BigCommerceImport''))])) \<and>
   map (\<lambda>r. (http_method r, url r)) (sent (snd (createOrUpdateImport
          (platform_of (scripted [ok 200 (JArr [JObj [(js ''id'', JNum 1), (js ''name'', JStr (js ''BigCommerceImport''))]]), ok 200 (JObj [(js ''updated'', JBool True)])]))
          \<lparr>user_id = JNum 12345, user_storeHash = js ''abc123''\<rparr> (JNum 1) False (with_db ''1'')))) =
     [(js ''GET'', js ''/dbs/1/imports''), (js ''PUT'', js ''/dbs/1/imports/1'')] \<and>
   fst (createOrUpdateExport
          (platform_of (scripted [ok 200 (JArr [JObj [(js ''id'', JNum 2), (js ''name'', JStr (js ''Export Google''))]]), ok 200 (JObj [(js ''updated'', JBool True)])]))
          \<lparr>ftp_host = js ''ftp.example.com'', ftp_username = js ''user'', ftp_password = js ''pass''\<rparr> (js ''feed.csv'') None (with_db ''1'')) =
     Inr (succeeded (JObj [(js ''id'', JNum 2), (js ''name'', JStr (js ''Export Google''))])) \<and>
   map (\<lambda>r. (http_method r, url r)) (sent (snd (createOrUpdateExport
          (platform_of (scripted [ok 200 (JArr [JObj [(js ''id'', JNum 2), (js ''name'', JStr (js ''Export Google''))]]), ok 200 (JObj [(js ''updated'', JBool True)])]))
          \<lparr>ftp_host = js ''ftp.example.com'', ftp_username = js ''user'', ftp_password = js ''pass''\<rparr> (js ''feed.csv'') None (with_db ''1'')))) =
     [(js ''GET'', js ''/dbs/1/exports''), (js ''PUT'', js ''/dbs/1/exports/2'')] \<and>
   fst (createOrUpdateExport
          (platform_of (scripted [ok 200 (JArr [JObj [(js ''id'', JNum 2), (js ''name'', JStr (js ''Export Google''))]]), ok 200 (JObj [(js ''updated'', JBool True)]), ok 200 JNull]))
          \<lparr>ftp_host = js ''ftp.example.com'', ftp_username = js ''user'', ftp_password = js ''pass''\<rparr> (js ''feed.csv'')
          (Some \<lparr>slot_hour = js ''3'', slot_minutes = js ''30''\<rparr>) (with_db ''1'')) =
     Inr (succeeded (JObj [(js ''id'', JNum 2), (js ''name'', JStr (js ''Export Google''))])) \<and>
   map (\<lambda>r. (http_method r, url r)) (sent (snd (createOrUpdateExport
          (platform_of (scripted [ok 200 (JArr [JObj [(js ''id'', JNum 2), (js ''name'', JStr (js ''Export Google''))]]), ok 200 (JObj [(js ''updated'', JBool True)]), ok 200 JNull]))
          \<lparr>ftp_host = js ''ftp.example.com'', ftp_username = js ''user'', ftp_password = js ''pass''\<rparr> (js ''feed.csv'')
          (Some \<lparr>slot_hour = js ''3'', slot_minutes = js ''30''\<rparr>) (with_db ''1'')))) =
     [(js ''GET'', js ''/dbs/1/exports''), (js ''PUT'', js ''/dbs/1/exports/2''),
      (js ''POST'', js ''/dbs/1/exports/2/schedule'')] \<and>
   fst (updateVaultEntries
          (platform_of (scripted [ok 200 (JObj [(js ''data'', JObj [(js ''vault_rows'', JArr [JObj [(js ''id'', JNum 3), (js ''name'', JStr (js ''bc_credentials''))]])])]), ok 200 (JObj [(js ''id'', JNum 3), (js ''updated'', JBool True)])]))
          (js ''token'') fresh) =
     Inr (succeeded (JObj [(js ''id'', JNum 3), (js ''updated'', JBool True)])) \<and>
   map (\<lambda>r. (http_method r, url r)) (sent (snd (updateVaultEntries
          (platform_of (scripted [ok 200 (JObj [(js ''data'', JObj [(js ''vault_rows'', JArr [JObj [(js ''id'', JNum 3), (js ''name'', JStr (js ''bc_credentials''))]])])]), ok 200 (JObj [(js ''id'', JNum 3), (js ''updated'', JBool True)])]))
          (js ''token'') fresh))) =
     [(js ''GET'', js ''/vault''), (js ''PUT'', js ''/vault/3'')] \<and>
   fst (updateVaultEntries
          (platform_of (scripted [ok 200 (JObj [(js ''data'', JObj [(js ''vault_rows'', JArr [JObj [(js ''id'', JNum 4), (js ''name'', JStr (js ''BigCommerce Credentials''))], JObj [(js ''id'', JNum 3), (js ''name'', JStr (js ''bc_credentials''))]])])]), ok 200 JNull, ok 200 (JObj [(js ''id'', JNum 3), (js ''updated'', JBool True)])]))
          (js ''token'') fresh) =
     Inr (succeeded (JObj [(js ''id'', JNum 3), (js ''updated'', JBool True)])) \<and>
   map (\<lambda>r. (http_method r, url r)) (sent (snd (updateVaultEntries
          (platform_of (scripted [ok 200 (JObj [(js ''data'', JObj [(js ''vault_rows'', JArr [JObj [(js ''id'', JNum 4), (js ''name'', JStr (js ''BigCommerce Credentials''))], JObj [(js ''id'', JNum 3), (js ''name'', JStr (js ''bc_credentials''))]])])]), ok 200 JNull, ok 200 (JObj [(js ''id'', JNum 3), (js ''updated'', JBool True)])]))
          (js ''token'') fresh))) =
     [(js ''GET'', js ''/vault''), (js ''DELETE'', js ''/vault/4''), (js ''PUT'', js ''/vault/3'')]"
proof -
  let ?x = "JObj [(js ''id'', JNum 1), (js ''name'', JStr (js ''BigCommerceImport''))]"
  let ?y = "JObj [(js ''id'', JNum 2), (js ''name'', JStr (js ''Export Google''))]"
  let ?z = "JObj [(js ''id'', JNum 3), (js ''name'', JStr (js ''bc_credentials''))]"
  let ?w = "JObj [(js ''id'', JNum 4), (js ''name'', JStr (js ''BigCommerce Credentials''))]"
  let ?upd = "JObj [(js ''updated'', JBool True)]"
  let ?b = "JObj [(js ''id'', JNum 3), (js ''updated'', JBool True)]"
  let ?user = "\<lparr>user_id = JNum 12345, user_storeHash = js ''abc123''\<rparr>"
  let ?ftp = "\<lparr>ftp_host = js ''ftp.example.com'', ftp_username = js ''user'', ftp_password = js ''pass''\<rparr>"
  let ?ts = "\<lparr>slot_hour = js ''3'', slot_minutes = js ''30''\<rparr>"
  let ?pf1 = "platform_of (scripted [ok 200 (JArr [?x]), ok 200 ?upd])"
  let ?pf2 = "platform_of (scripted [ok 200 (JArr [?y]), ok 200 ?upd])"
  let ?pf3 = "platform_of (scripted [ok 200 (JArr [?y]), ok 200 ?upd, ok 200 JNull])"
  let ?d4 = "JObj [(js ''data'', JObj [(js ''vault_rows'', JArr [?z])])]"
  let ?d5 = "JObj [(js ''data'', JObj [(js ''vault_rows'', JArr [?w, ?z])])]"
  let ?pf4 = "platform_of (scripted [ok 200 ?d4, ok 200 ?b])"
  let ?pf5 = "platform_of (scripted [ok 200 ?d5, ok 200 JNull, ok 200 ?b])"
  obtain c where c: "buildImportConfig ?user (JNum 1) False = Inr c"
    using buildImportConfig_total [of ?user "JNum 1" False] by (auto simp: js_def)
  have db: "dbId (cl (with_db ''1'')) = Some (js ''1'')" "js ''1'' \<noteq> []" "sent (with_db ''1'') = []"
    "sent fresh = []"
    by (simp_all add: with_db_def fresh_def)
  have ids: "to_string (getp ?x ''id'') = Inr (js ''1'')" "to_string (getp ?y ''id'') = Inr (js ''2'')"
    "to_string (getp ?z ''id'') = Inr (js ''3'')" "to_string (getp ?w ''id'') = Inr (js ''4'')"
    by (simp_all add: own_def show_int_def show_nat.simps digit_def js_def)
  have found: "find_named MAIN_IMPORT_NAME [?x] = Inr ?x" "find_named EXPORT_NAME [?y] = Inr ?y"
    "find_named ''bc_credentials'' [?z] = Inr ?z"
    "find_named ''BigCommerce Credentials'' [?z] = Inr JUndefined"
    "find_named ''bc_credentials'' [?w, ?z] = Inr ?z"
    "find_named ''BigCommerce Credentials'' [?w, ?z] = Inr ?w"
    by (simp_all add: MAIN_IMPORT_NAME_def EXPORT_NAME_def and_then_def get_prop_def own_def
          js_eq_iff)
  have rows: "opt_prop (opt_prop ?d4 ''data'') ''vault_rows'' = JArr [?z]"
    "opt_prop (opt_prop ?d5 ''data'') ''vault_rows'' = JArr [?w, ?z]"
    by (simp_all add: opt_prop_def own_def js_eq_iff)
  have p: "js ''/dbs/'' @ js ''1'' @ js ''/imports'' = js ''/dbs/1/imports''"
    "js ''/dbs/'' @ js ''1'' @ js ''/imports/'' @ js ''1'' = js ''/dbs/1/imports/1''"
    "js ''/dbs/'' @ js ''1'' @ js ''/exports'' = js ''/dbs/1/exports''"
    "js ''/dbs/'' @ js ''1'' @ js ''/exports/'' @ js ''2'' = js ''/dbs/1/exports/2''"
    "js ''/dbs/'' @ js ''1'' @ js ''/exports/'' @ js ''2'' @ js ''/schedule'' =
       js ''/dbs/1/exports/2/schedule''"
    "js ''/vault/'' @ js ''3'' = js ''/vault/3''" "js ''/vault/'' @ js ''4'' = js ''/vault/4''"
    by (simp_all add: js_append [symmetric])
  have 1: "createOrUpdateImport ?pf1 ?user (JNum 1) False (with_db ''1'') =
             (Inr (succeeded ?x),
              sending (with_db ''1'')
                [req ''GET'' (js ''/dbs/1/imports'') JUndefined,
                 req ''PUT'' (js ''/dbs/1/imports/1'') c])"
    using existing_record_is_updated [THEN conjunct1, rule_format,
        where s = "with_db ''1''" and db = "js ''1''" and user = ?user and channel = "JNum 1"
          and isCreate = False and importConfig = c and pf = ?pf1 and st = 200 and xs = "[?x]"
          and x = ?x and i = "js ''1''" and st' = 200 and b = ?upd] c db ids found
    by (simp add: platform_of_def scripted_def ok_def p)
  have 2: "createOrUpdateExport ?pf2 ?ftp (js ''feed.csv'') None (with_db ''1'') =
             (Inr (succeeded ?y),
              sending (with_db ''1'')
                [req ''GET'' (js ''/dbs/1/exports'') JUndefined,
                 req ''PUT'' (js ''/dbs/1/exports/2'') (buildExportConfig ?ftp (js ''feed.csv''))])"
    using existing_record_is_updated [THEN conjunct2, THEN conjunct1, rule_format,
        where s = "with_db ''1''" and db = "js ''1''" and pf = ?pf2 and st = 200 and xs = "[?y]"
          and x = ?y and i = "js ''2''" and st' = 200 and b = ?upd and ftp = ?ftp
          and filename = "js ''feed.csv''"] db ids found
    by (simp add: platform_of_def scripted_def ok_def p)
  have 3: "createOrUpdateExport ?pf3 ?ftp (js ''feed.csv'') (Some ?ts) (with_db ''1'') =
             (Inr (succeeded ?y),
              sending (with_db ''1'')
                [req ''GET'' (js ''/dbs/1/exports'') JUndefined,
                 req ''PUT'' (js ''/dbs/1/exports/2'') (buildExportConfig ?ftp (js ''feed.csv'')),
                 req ''POST'' (js ''/dbs/1/exports/2/schedule'')
                   (schedule_object (js ''*'') (js ''3'') (js ''30''))])"
    using existing_record_is_updated [THEN conjunct2, THEN conjunct2, THEN conjunct1, rule_format,
        where s = "with_db ''1''" and db = "js ''1''" and pf = ?pf3 and st = 200 and xs = "[?y]"
          and x = ?y and i = "js ''2''" and st' = 200 and b = ?upd and ftp = ?ftp
          and filename = "js ''feed.csv''" and ts = ?ts and st'' = 200 and b' = JNull]
      db ids found
    by (simp add: platform_of_def scripted_def ok_def p)
  have 4: "updateVaultEntries ?pf4 (js ''token'') fresh =
             (Inr (succeeded ?b),
              sending fresh
                [req ''GET'' (js ''/vault'') JUndefined,
                 req ''PUT'' (js ''/vault/3'')
                   (JObj [(js ''name'', JStr (js ''bc_credentials'')),
                          (js ''expiration'', JStr (expiration ?pf4)),
                          (js ''credentials_type'', JStr (js ''none'')),
                          (js ''credentials'',
                           JStr (stringify ?pf4 (JObj [(js ''access_token'', JStr (js ''token''))])))])])"
    using existing_record_is_updated [THEN conjunct2, THEN conjunct2, THEN conjunct2,
        THEN conjunct1, rule_format,
        where s = fresh and pf = ?pf4 and st = 200 and d = ?d4 and xs = "[?z]"
          and x = ?z and i = "js ''3''" and st' = 200 and b = ?b and token = "js ''token''"]
      db ids found rows
    by (simp add: platform_of_def scripted_def ok_def p)
  have 5: "updateVaultEntries ?pf5 (js ''token'') fresh =
             (Inr (succeeded ?b),
              sending fresh
                [req ''GET'' (js ''/vault'') JUndefined,
                 req ''DELETE'' (js ''/vault/4'') JUndefined,
                 req ''PUT'' (js ''/vault/3'')
                   (JObj [(js ''name'', JStr (js ''bc_credentials'')),
                          (js ''expiration'', JStr (expiration ?pf5)),
                          (js ''credentials_type'', JStr (js ''none'')),
                          (js ''credentials'',
                           JStr (stringify ?pf5 (JObj [(js ''access_token'', JStr (js ''token''))])))])])"
    using existing_record_is_updated [THEN conjunct2, THEN conjunct2, THEN conjunct2,
        THEN conjunct2, rule_format,
        where s = fresh and pf = ?pf5 and st = 200 and d = ?d5 and xs = "[?w, ?z]"
          and y = ?w and j = "js ''4''" and st'' = 200 and b' = JNull
          and x = ?z and i = "js ''3''" and st' = 200 and b = ?b and token = "js ''token''"]
      db ids found rows
    by (simp add: platform_of_def scripted_def ok_def p)
  show ?thesis
    unfolding 1 2 3 4 5 by (simp add: req_def db)
qed

section \<open>The setup stops at the first failure\<close>

text \<open>
  Claim C6, as amended. When the call of a step of \<open>setupBigCommerceIntegration\<close> returns a
  failure envelope, the steps before it having gone well, the workflow returns a failure and
  the session it leaves is the session as that call left it: nothing is sent after the
  failing call. The failure's message is that step's label followed by the step's error
  as a string. Where the error has no string, because the conversion throws, the message
  is that of the catch-all: \<open>BigCommerce setup failed: \<close> followed by the message of what
  was thrown. This holds for each of the eight steps.
\<close>

theorem setup_stops_at_first_failure:
  "(createBigCommerceAccount (remote pf) (accountName params) s = (Inr r, s1) \<and>
    \<not> success r \<longrightarrow>
    setupBigCommerceIntegration pf params s =
      (Inr (failure (case to_string (error r) of
                      Inr m \<Rightarrow> js ''Failed to create account: '' @ m
                    | Inl ex \<Rightarrow> js ''BigCommerce setup failed: '' @ message ex)), s1)) \<and>
   (account_created pf params s a s1 \<and> given (userEmail params) \<and>
    invitePrimaryUser (remote pf) a (or_else (userEmail params) []) s1 = (Inr r, s2) \<and>
    \<not> success r \<longrightarrow>
    setupBigCommerceIntegration pf params s =
      (Inr (failure (case to_string (error r) of
                      Inr m \<Rightarrow> js ''Failed to invite user: '' @ m
                    | Inl ex \<Rightarrow> js ''BigCommerce setup failed: '' @ message ex)), s2)) \<and>
   (account_created pf params s a s1 \<and> user_invited pf params a s1 s2 \<and>
    createDb (remote pf) a (or_else (dbName params) (js ''BC Store '' @ storeHash params)) s2 =
      (Inr r, s3) \<and>
    \<not> success r \<longrightarrow>
    setupBigCommerceIntegration pf params s =
      (Inr (failure (case to_string (error r) of
                      Inr m \<Rightarrow> js ''Failed to create database: '' @ m
                    | Inl ex \<Rightarrow> js ''BigCommerce setup failed: '' @ message ex)), s3)) \<and>
   (account_created pf params s a s1 \<and> user_invited pf params a s1 s2 \<and>
    database_created pf params a s2 db s3 \<and> given (groupName params) \<and>
    moveDbintoNewDbGroup (remote pf) db (or_else (groupName params) []) s3 = (Inr r, s4) \<and>
    \<not> success r \<longrightarrow>
    setupBigCommerceIntegration pf params s =
      (Inr (failure (case to_string (error r) of
                      Inr m \<Rightarrow> js ''Failed to move database to group: '' @ m
                    | Inl ex \<Rightarrow> js ''BigCommerce setup failed: '' @ message ex)), s4)) \<and>
   (account_created pf params s a s1 \<and> user_invited pf params a s1 s2 \<and>
    database_created pf params a s2 db s3 \<and> moved_to_group pf params db s3 s4 \<and>
    addDbVaultEntry (remote pf) db (setup_vault_entry pf params) s4 = (Inr r, s5) \<and>
    \<not> success r \<longrightarrow>
    setupBigCommerceIntegration pf params s =
      (Inr (failure (case to_string (error r) of
                      Inr m \<Rightarrow> js ''Failed to create vault entry: '' @ m
                    | Inl ex \<Rightarrow> js ''BigCommerce setup failed: '' @ message ex)), s5)) \<and>
   (account_created pf params s a s1 \<and> user_invited pf params a s1 s2 \<and>
    database_created pf params a s2 db s3 \<and> moved_to_group pf params db s3 s4 \<and>
    vault_entry_added pf params db s4 v s5 \<and>
    generateBigCommercePreprocessorUrl (setup_connection_info params) (Some setup_file_info) =
      Inr u \<and>
    createImport (remote pf) (setup_import_config params u) s5 = (Inr r, s6) \<and>
    \<not> success r \<longrightarrow>
    setupBigCommerceIntegration pf params s =
      (Inr (failure (case to_string (error r) of
                      Inr m \<Rightarrow> js ''Failed to create import: '' @ m
                    | Inl ex \<Rightarrow> js ''BigCommerce setup failed: '' @ message ex)), s6)) \<and>
   (account_created pf params s a s1 \<and> user_invited pf params a s1 s2 \<and>
    database_created pf params a s2 db s3 \<and> moved_to_group pf params db s3 s4 \<and>
    vault_entry_added pf params db s4 v s5 \<and> import_created pf params s5 i s6 \<and>
    importSchedule params = Some sch \<and>
    updateImportSchedule (remote pf) i (schedule_json sch) s6 = (Inr r, s7) \<and>
    \<not> success r \<longrightarrow>
    setupBigCommerceIntegration pf params s =
      (Inr (failure (case to_string (error r) of
                      Inr m \<Rightarrow> js ''Failed to update import schedule: '' @ m
                    | Inl ex \<Rightarrow> js ''BigCommerce setup failed: '' @ message ex)), s7)) \<and>
   (account_created pf params s a s1 \<and> user_invited pf params a s1 s2 \<and>
    database_created pf params a s2 db s3 \<and> moved_to_group pf params db s3 s4 \<and>
    vault_entry_added pf params db s4 v s5 \<and> import_created pf params s5 i s6 \<and>
    schedule_set pf params i s6 s7 \<and> given (buildTemplate params) \<and>
    applyAutomateBuildTemplate (remote pf) i (or_else (buildTemplate params) []) s7 =
      (Inr r, s8) \<and>
    \<not> success r \<longrightarrow>
    setupBigCommerceIntegration pf params s =
      (Inr (failure (case to_string (error r) of
                      Inr m \<Rightarrow> js ''Failed to apply build template: '' @ m
                    | Inl ex \<Rightarrow> js ''BigCommerce setup failed: '' @ message ex)), s8))"
proof (intro conjI impI; elim conjE)
  show "setupBigCommerceIntegration pf params s =
          (Inr (failure (case to_string (error r) of
                      Inr m \<Rightarrow> js ''Failed to create account: '' @ m
                    | Inl ex \<Rightarrow> js ''BigCommerce setup failed: '' @ message ex)), s1)"
    if "createBigCommerceAccount (remote pf) (accountName params) s = (Inr r, s1)"
      "\<not> success r"
    using that by (intro setup_failed stop1)
  show "setupBigCommerceIntegration pf params s =
          (Inr (failure (case to_string (error r) of
                      Inr m \<Rightarrow> js ''Failed to invite user: '' @ m
                    | Inl ex \<Rightarrow> js ''BigCommerce setup failed: '' @ message ex)), s2)"
    if "account_created pf params s a s1" "given (userEmail params)"
      "invitePrimaryUser (remote pf) a (or_else (userEmail params) []) s1 = (Inr r, s2)"
      "\<not> success r"
    using that by (intro setup_failed) (simp add: reach2 stop2)
  show "setupBigCommerceIntegration pf params s =
          (Inr (failure (case to_string (error r) of
                      Inr m \<Rightarrow> js ''Failed to create database: '' @ m
                    | Inl ex \<Rightarrow> js ''BigCommerce setup failed: '' @ message ex)), s3)"
    if "account_created pf params s a s1" "user_invited pf params a s1 s2"
      "createDb (remote pf) a (or_else (dbName params) (js ''BC Store '' @ storeHash params)) s2 =
         (Inr r, s3)"
      "\<not> success r"
    using that by (intro setup_failed) (simp add: reach2 reach3 stop3)
  show "setupBigCommerceIntegration pf params s =
          (Inr (failure (case to_string (error r) of
                      Inr m \<Rightarrow> js ''Failed to move database to group: '' @ m
                    | Inl ex \<Rightarrow> js ''BigCommerce setup failed: '' @ message ex)), s4)"
    if "account_created pf params s a s1" "user_invited pf params a s1 s2"
      "database_created pf params a s2 db s3" "given (groupName params)"
      "moveDbintoNewDbGroup (remote pf) db (or_else (groupName params) []) s3 = (Inr r, s4)"
      "\<not> success r"
    using that by (intro setup_failed) (simp add: reach2 reach3 reach4 stop4)
  show "setupBigCommerceIntegration pf params s =
          (Inr (failure (case to_string (error r) of
                      Inr m \<Rightarrow> js ''Failed to create vault entry: '' @ m
                    | Inl ex \<Rightarrow> js ''BigCommerce setup failed: '' @ message ex)), s5)"
    if "account_created pf params s a s1" "user_invited pf params a s1 s2"
      "database_created pf params a s2 db s3" "moved_to_group pf params db s3 s4"
      "addDbVaultEntry (remote pf) db (setup_vault_entry pf params) s4 = (Inr r, s5)"
      "\<not> success r"
    using that
    by (intro setup_failed) (simp add: reach2 reach3 reach4 reach5 [of pf params db s3 s4] stop5)
  show "setupBigCommerceIntegration pf params s =
          (Inr (failure (case to_string (error r) of
                      Inr m \<Rightarrow> js ''Failed to create import: '' @ m
                    | Inl ex \<Rightarrow> js ''BigCommerce setup failed: '' @ message ex)), s6)"
    if "account_created pf params s a s1" "user_invited pf params a s1 s2"
      "database_created pf params a s2 db s3" "moved_to_group pf params db s3 s4"
      "vault_entry_added pf params db s4 v s5"
      "generateBigCommercePreprocessorUrl (setup_connection_info params) (Some setup_file_info) =
         Inr u"
      "createImport (remote pf) (setup_import_config params u) s5 = (Inr r, s6)"
      "\<not> success r"
    using that
    by (intro setup_failed)
      (simp add: reach2 reach3 reach4 reach5 [of pf params db s3 s4]
         reach6 [of pf params db s4 v s5] stop6)
  show "setupBigCommerceIntegration pf params s =
          (Inr (failure (case to_string (error r) of
                      Inr m \<Rightarrow> js ''Failed to update import schedule: '' @ m
                    | Inl ex \<Rightarrow> js ''BigCommerce setup failed: '' @ message ex)), s7)"
    if "account_created pf params s a s1" "user_invited pf params a s1 s2"
      "database_created pf params a s2 db s3" "moved_to_group pf params db s3 s4"
      "vault_entry_added pf params db s4 v s5" "import_created pf params s5 i s6"
      "importSchedule params = Some sch"
      "updateImportSchedule (remote pf) i (schedule_json sch) s6 = (Inr r, s7)"
      "\<not> success r"
    using that
    by (intro setup_failed)
      (simp add: reach2 reach3 reach4 reach5 [of pf params db s3 s4]
         reach6 [of pf params db s4 v s5] reach7 [of pf params s5 i s6] stop7)
  show "setupBigCommerceIntegration pf params s =
          (Inr (failure (case to_string (error r) of
                      Inr m \<Rightarrow> js ''Failed to apply build template: '' @ m
                    | Inl ex \<Rightarrow> js ''BigCommerce setup failed: '' @ message ex)), s8)"
    if "account_created pf params s a s1" "user_invited pf params a s1 s2"
      "database_created pf params a s2 db s3" "moved_to_group pf params db s3 s4"
      "vault_entry_added pf params db s4 v s5" "import_created pf params s5 i s6"
      "schedule_set pf params i s6 s7" "given (buildTemplate params)"
      "applyAutomateBuildTemplate (remote pf) i (or_else (buildTemplate params) []) s7 =
         (Inr r, s8)"
      "\<not> success r"
    using that
    by (intro setup_failed)
      (simp add: reach2 reach3 reach4 reach5 [of pf params db s3 s4]
         reach6 [of pf params db s4 v s5] reach7 [of pf params s5 i s6]
         reach8 [of pf params i s6 s7] stop8)
qed

theorem setup_stops_at_first_failure_witness:
  "fst (setupBigCommerceIntegration (platform_of (failing_at 0 boom)) demo_params fresh) =
     Inr (failure (js ''Failed to create account: Boom'')) \<and>
   length (sent (snd (setupBigCommerceIntegration (platform_of (failing_at 0 boom)) demo_params fresh))) = 1 \<and>
   fst (setupBigCommerceIntegration (platform_of (failing_at 1 boom)) demo_params fresh) =
     Inr (failure (js ''Failed to invite user: Boom'')) \<and>
   length (sent (snd (setupBigCommerceIntegration (platform_of (failing_at 1 boom)) demo_params fresh))) = 2 \<and>
   fst (setupBigCommerceIntegration (platform_of (failing_at 2 boom)) demo_params fresh) =
     Inr (failure (js ''Failed to create database: Boom'')) \<and>
   length (sent (snd (setupBigCommerceIntegration (platform_of (failing_at 2 boom)) demo_params fresh))) = 3 \<and>
   fst (setupBigCommerceIntegration (platform_of (failing_at 3 boom)) demo_params fresh) =
     Inr (failure (js ''Failed to move database to group: Boom'')) \<and>
   length (sent (snd (setupBigCommerceIntegration (platform_of (failing_at 3 boom)) demo_params fresh))) = 4 \<and>
   fst (setupBigCommerceIntegration (platform_of (failing_at 4 boom)) demo_params fresh) =
     Inr (failure (js ''Failed to create vault entry: Boom'')) \<and>
   length (sent (snd (setupBigCommerceIntegration (platform_of (failing_at 4 boom)) demo_params fresh))) = 5 \<and>
   fst (setupBigCommerceIntegration (platform_of (failing_at 5 boom)) demo_params fresh) =
     Inr (failure (js ''Failed to create import: Boom'')) \<and>
   length (sent (snd (setupBigCommerceIntegration (platform_of (failing_at 5 boom)) demo_params fresh))) = 6 \<and>
   fst (setupBigCommerceIntegration (platform_of (failing_at 6 boom)) demo_params fresh) =
     Inr (failure (js ''Failed to update import schedule: Boom'')) \<and>
   length (sent (snd (setupBigCommerceIntegration (platform_of (failing_at 6 boom)) demo_params fresh))) = 7 \<and>
   fst (setupBigCommerceIntegration (platform_of (failing_at 7 boom)) demo_params fresh) =
     Inr (failure (js ''Failed to apply build template: Boom'')) \<and>
   length (sent (snd (setupBigCommerceIntegration (platform_of (failing_at 7 boom)) demo_params fresh))) = 8 \<and>
   fst (setupBigCommerceIntegration (platform_of (failing_at 2 odd_error)) demo_params fresh) =
     Inr (failure (js ''BigCommerce setup failed: Cannot convert object to primitive value'')) \<and>
   length (sent (snd (setupBigCommerceIntegration (platform_of (failing_at 2 odd_error)) demo_params
     fresh))) = 3"
proof -
  let ?bad = "\<lparr>success = False, data = JUndefined, error = JStr (js ''Boom''), status = JNum 500\<rparr>"
  let ?id = "JStr (js ''77'')"
  have "ascii (accessToken demo_params)" "ascii (storeHash demo_params)"
    "ascii (or_else (clientId demo_params) [])" "ascii (or_else (storeUrl demo_params) [])"
    by (simp_all add: demo_params_def or_else_def js_def)
  then obtain u where u: "generateBigCommercePreprocessorUrl (setup_connection_info demo_params)
      (Some setup_file_info) = Inr u"
    using setup_url_total [of demo_params] by blast
  have z: "demo_after 0 u = fresh"
    by (simp add: demo_after_def sending_def)
  have g: "given (userEmail demo_params)" "given (groupName demo_params)"
    "given (buildTemplate demo_params)"
    "importSchedule demo_params =
       Some \<lparr>sched_day = js ''*'', sched_hour = js ''*/4'', sched_minute = js ''0''\<rparr>"
    by (simp_all add: demo_params_def given_def)
  have f0: "createBigCommerceAccount (remote (platform_of (failing_at 0 boom))) (accountName demo_params) (demo_after 0 u) = (Inr ?bad, demo_failed_at 0 u)"
    by (simp add: createBigCommerceAccount_def demo_failed_at_def demo_eval)
  have f1: "invitePrimaryUser (remote (platform_of (failing_at 1 boom))) ?id (or_else (userEmail demo_params) []) (demo_after 1 u) = (Inr ?bad, demo_failed_at 1 u)"
    by (simp add: invitePrimaryUser_def demo_failed_at_def demo_eval)
  have f2: "createDb (remote (platform_of (failing_at 2 boom))) ?id (or_else (dbName demo_params) (js ''BC Store '' @ storeHash demo_params)) (demo_after 2 u) = (Inr ?bad, demo_failed_at 2 u)"
    by (simp add: createDb_def demo_failed_at_def demo_eval)
  have f3: "moveDbintoNewDbGroup (remote (platform_of (failing_at 3 boom))) ?id (or_else (groupName demo_params) []) (demo_after 3 u) = (Inr ?bad, demo_failed_at 3 u)"
    by (simp add: moveDbintoNewDbGroup_def demo_failed_at_def demo_eval)
  have f4: "addDbVaultEntry (remote (platform_of (failing_at 4 boom))) ?id (setup_vault_entry (platform_of (failing_at 4 boom)) demo_params) (demo_after 4 u) = (Inr ?bad, demo_failed_at 4 u)"
    by (simp add: addDbVaultEntry_def setup_vault_entry_def demo_failed_at_def demo_eval)
  have f5: "createImport (remote (platform_of (failing_at 5 boom))) (setup_import_config demo_params u) (demo_after 5 u) = (Inr ?bad, demo_failed_at 5 u)"
    by (simp add: createImport_def demo_failed_at_def demo_eval)
  have f6: "updateImportSchedule (remote (platform_of (failing_at 6 boom))) ?id (schedule_json \<lparr>sched_day = js ''*'', sched_hour = js ''*/4'', sched_minute = js ''0''\<rparr>) (demo_after 6 u) = (Inr ?bad, demo_failed_at 6 u)"
    by (simp add: updateImportSchedule_def schedule_json_def schedule_object_def demo_failed_at_def demo_eval)
  have f7: "applyAutomateBuildTemplate (remote (platform_of (failing_at 7 boom))) ?id (or_else (buildTemplate demo_params) []) (demo_after 7 u) = (Inr ?bad, demo_failed_at 7 u)"
    by (simp add: applyAutomateBuildTemplate_def demo_failed_at_def demo_eval)
  have r0: "setupBigCommerceIntegration (platform_of (failing_at 0 boom)) demo_params fresh =
             (Inr (failure (js ''Failed to create account: '' @ js ''Boom'')), demo_failed_at 0 u)"
    using setup_stops_at_first_failure [where pf = "platform_of (failing_at 0 boom)" and params = demo_params and s = fresh and r = ?bad and ?s1.0 = "demo_failed_at 0 u",
        THEN conjunct1, rule_format]
      f0 z 
    by simp
  have r1: "setupBigCommerceIntegration (platform_of (failing_at 1 boom)) demo_params fresh =
             (Inr (failure (js ''Failed to invite user: '' @ js ''Boom'')), demo_failed_at 1 u)"
    using setup_stops_at_first_failure [where pf = "platform_of (failing_at 1 boom)" and params = demo_params and s = fresh and r = ?bad and ?s1.0 = "demo_after 1 u" and ?s2.0 = "demo_failed_at 1 u" and a = ?id,
        THEN conjunct2, THEN conjunct1, rule_format]
      f1 z demo_step1 [where k = 1 and bad = boom and u = u and su = None] g
    by (simp add: demo_store_url)
  have r2: "setupBigCommerceIntegration (platform_of (failing_at 2 boom)) demo_params fresh =
             (Inr (failure (js ''Failed to create database: '' @ js ''Boom'')), demo_failed_at 2 u)"
    using setup_stops_at_first_failure [where pf = "platform_of (failing_at 2 boom)" and params = demo_params and s = fresh and r = ?bad and ?s1.0 = "demo_after 1 u" and ?s2.0 = "demo_after 2 u" and ?s3.0 = "demo_failed_at 2 u" and a = ?id,
        THEN conjunct2, THEN conjunct2, THEN conjunct1, rule_format]
      f2 z demo_step1 [where k = 2 and bad = boom and u = u and su = None] demo_step2 [where k = 2 and bad = boom and u = u and su = None]
    by (simp add: demo_store_url)
  have r3: "setupBigCommerceIntegration (platform_of (failing_at 3 boom)) demo_params fresh =
             (Inr (failure (js ''Failed to move database to group: '' @ js ''Boom'')), demo_failed_at 3 u)"
    using setup_stops_at_first_failure [where pf = "platform_of (failing_at 3 boom)" and params = demo_params and s = fresh and r = ?bad and ?s1.0 = "demo_after 1 u" and ?s2.0 = "demo_after 2 u" and ?s3.0 = "demo_after 3 u" and ?s4.0 = "demo_failed_at 3 u" and a = ?id and db = ?id,
        THEN conjunct2, THEN conjunct2, THEN conjunct2, THEN conjunct1, rule_format]
      f3 z demo_step1 [where k = 3 and bad = boom and u = u and su = None] demo_step2 [where k = 3 and bad = boom and u = u and su = None] demo_step3 [where k = 3 and bad = boom and u = u and su = None] g
    by (simp add: demo_store_url)
  have r4: "setupBigCommerceIntegration (platform_of (failing_at 4 boom)) demo_params fresh =
             (Inr (failure (js ''Failed to create vault entry: '' @ js ''Boom'')), demo_failed_at 4 u)"
    using setup_stops_at_first_failure [where pf = "platform_of (failing_at 4 boom)" and params = demo_params and s = fresh and r = ?bad and ?s1.0 = "demo_after 1 u" and ?s2.0 = "demo_after 2 u" and ?s3.0 = "demo_after 3 u" and ?s4.0 = "demo_after 4 u" and ?s5.0 = "demo_failed_at 4 u" and a = ?id and db = ?id,
        THEN conjunct2, THEN conjunct2, THEN conjunct2, THEN conjunct2, THEN conjunct1, rule_format]
      f4 z demo_step1 [where k = 4 and bad = boom and u = u and su = None] demo_step2 [where k = 4 and bad = boom and u = u and su = None] demo_step3 [where k = 4 and bad = boom and u = u and su = None] demo_step4 [where k = 4 and bad = boom and u = u and su = None]
    by (simp add: demo_store_url)
  have r5: "setupBigCommerceIntegration (platform_of (failing_at 5 boom)) demo_params fresh =
             (Inr (failure (js ''Failed to create import: '' @ js ''Boom'')), demo_failed_at 5 u)"
    using setup_stops_at_first_failure [where pf = "platform_of (failing_at 5 boom)" and params = demo_params and s = fresh and r = ?bad and ?s1.0 = "demo_after 1 u" and ?s2.0 = "demo_after 2 u" and ?s3.0 = "demo_after 3 u" and ?s4.0 = "demo_after 4 u" and ?s5.0 = "demo_after 5 u" and ?s6.0 = "demo_failed_at 5 u" and a = ?id and db = ?id and v = "JStr (js ''5'')" and u = u,
        THEN conjunct2, THEN conjunct2, THEN conjunct2, THEN conjunct2, THEN conjunct2, THEN conjunct1, rule_format]
      f5 z demo_step1 [where k = 5 and bad = boom and u = u and su = None] demo_step2 [where k = 5 and bad = boom and u = u and su = None] demo_step3 [where k = 5 and bad = boom and u = u and su = None] demo_step4 [where k = 5 and bad = boom and u = u and su = None] demo_step5 [where k = 5 and bad = boom and u = u and su = None] u
    by (simp add: demo_store_url)
  have r6: "setupBigCommerceIntegration (platform_of (failing_at 6 boom)) demo_params fresh =
             (Inr (failure (js ''Failed to update import schedule: '' @ js ''Boom'')), demo_failed_at 6 u)"
    using setup_stops_at_first_failure [where pf = "platform_of (failing_at 6 boom)" and params = demo_params and s = fresh and r = ?bad and ?s1.0 = "demo_after 1 u" and ?s2.0 = "demo_after 2 u" and ?s3.0 = "demo_after 3 u" and ?s4.0 = "demo_after 4 u" and ?s5.0 = "demo_after 5 u" and ?s6.0 = "demo_after 6 u" and ?s7.0 = "demo_failed_at 6 u" and a = ?id and db = ?id and v = "JStr (js ''5'')" and i = ?id and sch = "\<lparr>sched_day = js ''*'', sched_hour = js ''*/4'', sched_minute = js ''0''\<rparr>",
        THEN conjunct2, THEN conjunct2, THEN conjunct2, THEN conjunct2, THEN conjunct2, THEN conjunct2, THEN conjunct1, rule_format]
      f6 z demo_step1 [where k = 6 and bad = boom and u = u and su = None] demo_step2 [where k = 6 and bad = boom and u = u and su = None] demo_step3 [where k = 6 and bad = boom and u = u and su = None] demo_step4 [where k = 6 and bad = boom and u = u and su = None] demo_step5 [where k = 6 and bad = boom and u = u and su = None] demo_step6 [where k = 6 and bad = boom and u = u, OF _ u] g
    by (simp add: demo_store_url)
  have r7: "setupBigCommerceIntegration (platform_of (failing_at 7 boom)) demo_params fresh =
             (Inr (failure (js ''Failed to apply build template: '' @ js ''Boom'')), demo_failed_at 7 u)"
    using setup_stops_at_first_failure [where pf = "platform_of (failing_at 7 boom)" and params = demo_params and s = fresh and r = ?bad and ?s1.0 = "demo_after 1 u" and ?s2.0 = "demo_after 2 u" and ?s3.0 = "demo_after 3 u" and ?s4.0 = "demo_after 4 u" and ?s5.0 = "demo_after 5 u" and ?s6.0 = "demo_after 6 u" and ?s7.0 = "demo_after 7 u" and ?s8.0 = "demo_failed_at 7 u" and a = ?id and db = ?id and v = "JStr (js ''5'')" and i = ?id,
        THEN conjunct2, THEN conjunct2, THEN conjunct2, THEN conjunct2, THEN conjunct2, THEN conjunct2, THEN conjunct2, rule_format]
      f7 z demo_step1 [where k = 7 and bad = boom and u = u and su = None] demo_step2 [where k = 7 and bad = boom and u = u and su = None] demo_step3 [where k = 7 and bad = boom and u = u and su = None] demo_step4 [where k = 7 and bad = boom and u = u and su = None] demo_step5 [where k = 7 and bad = boom and u = u and su = None] demo_step6 [where k = 7 and bad = boom and u = u, OF _ u] demo_step7 [where k = 7 and bad = boom and u = u] g
    by (simp add: demo_store_url)
  let ?odd = "\<lparr>success = False, data = JUndefined, error = JObj [(js ''toString'', JNum 1)],
                status = JNum 500\<rparr>"
  have fo: "createDb (remote (platform_of (failing_at 2 odd_error))) ?id (or_else (dbName demo_params) (js ''BC Store '' @ storeHash demo_params)) (demo_after 2 u) = (Inr ?odd, demo_failed_at 2 u)"
    by (simp add: createDb_def demo_failed_at_def demo_eval request_odd_error)
  have ro: "setupBigCommerceIntegration (platform_of (failing_at 2 odd_error)) demo_params fresh =
             (Inr (failure (js ''BigCommerce setup failed: '' @ message not_primitive)),
              demo_failed_at 2 u)"
    using setup_stops_at_first_failure [where pf = "platform_of (failing_at 2 odd_error)" and params = demo_params and s = fresh and r = ?odd and ?s1.0 = "demo_after 1 u" and ?s2.0 = "demo_after 2 u" and ?s3.0 = "demo_failed_at 2 u" and a = ?id,
        THEN conjunct2, THEN conjunct2, THEN conjunct1, rule_format]
      fo z demo_step1 [where k = 2 and bad = odd_error and u = u and su = None] demo_step2 [where k = 2 and bad = odd_error and u = u and su = None]
    by (simp add: demo_store_url)
  have j: "js a @ js ''Boom'' = js (a @ ''Boom'')" for a
    by (simp add: js_append)
  have n: "js ''BigCommerce setup failed: '' @ message not_primitive =
             js ''BigCommerce setup failed: Cannot convert object to primitive value''"
    by (simp add: not_primitive_def js_append [symmetric])
  from r0 r1 r2 r3 r4 r5 r6 r7 ro show ?thesis
    by (simp add: j n demo_length)
qed

text \<open>
  Claim C6 as the specification states it fails where the failing step's error has no
  string. A server that answers the creation of the account with status 500 and the body
  \<open>{"message": {"toString": 1}}\<close> makes the first step return a failure envelope; the label
  with that error throws, and the workflow's message is the catch-all's, which does not start
  with \<open>Failed to create account: \<close>.
\<close>

theorem setup_stops_at_first_failure_counterexample:
  "fst (createBigCommerceAccount (remote (platform_of (answers odd_error)))
          (accountName demo_params) fresh) =
     Inr \<lparr>success = False, data = JUndefined, error = JObj [(js ''toString'', JNum 1)],
          status = JNum 500\<rparr> \<and>
   fst (setupBigCommerceIntegration (platform_of (answers odd_error)) demo_params fresh) =
     Inr (failure (js ''BigCommerce setup failed: Cannot convert object to primitive value'')) \<and>
   take (length ''Failed to create account: '')
     (js ''BigCommerce setup failed: Cannot convert object to primitive value'') \<noteq>
     js ''Failed to create account: ''"
proof -
  have c: "createBigCommerceAccount (remote (platform_of (answers odd_error)))
             (accountName demo_params) fresh =
           (Inr \<lparr>success = False, data = JUndefined, error = JObj [(js ''toString'', JNum 1)],
                 status = JNum 500\<rparr>,
            sending fresh [req ''POST'' (js ''/bigcommerce/account'')
                             (JObj [(js ''name'', JStr (accountName demo_params))])])"
    by (simp add: createBigCommerceAccount_def platform_of_def request_odd_error)
  have "setup_step1 (platform_of (answers odd_error)) demo_params fresh =
          (Inl not_primitive,
           sending fresh [req ''POST'' (js ''/bigcommerce/account'')
                            (JObj [(js ''name'', JStr (accountName demo_params))])])"
    by (simp add: stop1 [OF c] failed_eval)
  then have "fst (setupBigCommerceIntegration (platform_of (answers odd_error)) demo_params fresh) =
          Inr (failure (js ''BigCommerce setup failed: '' @ message not_primitive))"
    by (simp add: body_caught)
  moreover have "js ''BigCommerce setup failed: '' @ message not_primitive =
             js ''BigCommerce setup failed: Cannot convert object to primitive value''"
    by (simp add: not_primitive_def js_append [symmetric])
  moreover have "take (length ''Failed to create account: '')
     (js ''BigCommerce setup failed: Cannot convert object to primitive value'') \<noteq>
     js ''Failed to create account: ''"
    by (simp add: js_def)
  ultimately show ?thesis
    using c by simp
qed


section \<open>The setup catches what its steps throw\<close>

text \<open>
  Claim C7. \<open>setupBigCommerceIntegration\<close> always returns an envelope: nothing that is thrown
  inside it reaches the caller. When the body of its \<open>try\<close> throws, the envelope is a failure
  whose message is \<open>BigCommerce setup failed: \<close> followed by the message of what was thrown,
  and the session is the one the throwing step left. This is so for whichever step throws:
  each of the eight calls of the client, the steps before it having gone well, and the
  building of the import's URL.
\<close>

theorem setup_catches_exceptions:
  "(\<exists>e s'. setupBigCommerceIntegration pf params s = (Inr e, s')) \<and>
   (setup_step1 pf params s = (Inl ex, s') \<longrightarrow>
    setupBigCommerceIntegration pf params s =
      (Inr (failure (js ''BigCommerce setup failed: '' @ message ex)), s')) \<and>
   (createBigCommerceAccount (remote pf) (accountName params) s = (Inl ex, s1) \<longrightarrow>
    setupBigCommerceIntegration pf params s =
      (Inr (failure (js ''BigCommerce setup failed: '' @ message ex)), s1)) \<and>
   (account_created pf params s a s1 \<and> given (userEmail params) \<and>
    invitePrimaryUser (remote pf) a (or_else (userEmail params) []) s1 = (Inl ex, s2) \<longrightarrow>
    setupBigCommerceIntegration pf params s =
      (Inr (failure (js ''BigCommerce setup failed: '' @ message ex)), s2)) \<and>
   (account_created pf params s a s1 \<and> user_invited pf params a s1 s2 \<and>
    createDb (remote pf) a (or_else (dbName params) (js ''BC Store '' @ storeHash params)) s2 =
      (Inl ex, s3) \<longrightarrow>
    setupBigCommerceIntegration pf params s =
      (Inr (failure (js ''BigCommerce setup failed: '' @ message ex)), s3)) \<and>
   (account_created pf params s a s1 \<and> user_invited pf params a s1 s2 \<and>
    database_created pf params a s2 db s3 \<and> given (groupName params) \<and>
    moveDbintoNewDbGroup (remote pf) db (or_else (groupName params) []) s3 = (Inl ex, s4) \<longrightarrow>
    setupBigCommerceIntegration pf params s =
      (Inr (failure (js ''BigCommerce setup failed: '' @ message ex)), s4)) \<and>
   (account_created pf params s a s1 \<and> user_invited pf params a s1 s2 \<and>
    database_created pf params a s2 db s3 \<and> moved_to_group pf params db s3 s4 \<and>
    addDbVaultEntry (remote pf) db (setup_vault_entry pf params) s4 = (Inl ex, s5) \<longrightarrow>
    setupBigCommerceIntegration pf params s =
      (Inr (failure (js ''BigCommerce setup failed: '' @ message ex)), s5)) \<and>
   (account_created pf params s a s1 \<and> user_invited pf params a s1 s2 \<and>
    database_created pf params a s2 db s3 \<and> moved_to_group pf params db s3 s4 \<and>
    vault_entry_added pf params db s4 v s5 \<and>
    generateBigCommercePreprocessorUrl (setup_connection_info params) (Some setup_file_info) =
      Inl ex \<longrightarrow>
    setupBigCommerceIntegration pf params s =
      (Inr (failure (js ''BigCommerce setup failed: '' @ message ex)), s5)) \<and>
   (account_created pf params s a s1 \<and> user_invited pf params a s1 s2 \<and>
    database_created pf params a s2 db s3 \<and> moved_to_group pf params db s3 s4 \<and>
    vault_entry_added pf params db s4 v s5 \<and>
    generateBigCommercePreprocessorUrl (setup_connection_info params) (Some setup_file_info) =
      Inr u \<and>
    createImport (remote pf) (setup_import_config params u) s5 = (Inl ex, s6) \<longrightarrow>
    setupBigCommerceIntegration pf params s =
      (Inr (failure (js ''BigCommerce setup failed: '' @ message ex)), s6)) \<and>
   (account_created pf params s a s1 \<and> user_invited pf params a s1 s2 \<and>
    database_created pf params a s2 db s3 \<and> moved_to_group pf params db s3 s4 \<and>
    vault_entry_added pf params db s4 v s5 \<and> import_created pf params s5 i s6 \<and>
    importSchedule params = Some sch \<and>
    updateImportSchedule (remote pf) i (schedule_json sch) s6 = (Inl ex, s7) \<longrightarrow>
    setupBigCommerceIntegration pf params s =
      (Inr (failure (js ''BigCommerce setup failed: '' @ message ex)), s7)) \<and>
   (account_created pf params s a s1 \<and> user_invited pf params a s1 s2 \<and>
    database_created pf params a s2 db s3 \<and> moved_to_group pf params db s3 s4 \<and>
    vault_entry_added pf params db s4 v s5 \<and> import_created pf params s5 i s6 \<and>
    schedule_set pf params i s6 s7 \<and> given (buildTemplate params) \<and>
    applyAutomateBuildTemplate (remote pf) i (or_else (buildTemplate params) []) s7 =
      (Inl ex, s8) \<longrightarrow>
    setupBigCommerceIntegration pf params s =
      (Inr (failure (js ''BigCommerce setup failed: '' @ message ex)), s8))"
proof (intro conjI impI; (elim conjE)?)
  show "\<exists>e s'. setupBigCommerceIntegration pf params s = (Inr e, s')"
    by (rule setup_never_throws)
  show "setupBigCommerceIntegration pf params s =
          (Inr (failure (js ''BigCommerce setup failed: '' @ message ex)), s')"
    if "setup_step1 pf params s = (Inl ex, s')"
    using that by (rule body_caught)
  show "setupBigCommerceIntegration pf params s =
          (Inr (failure (js ''BigCommerce setup failed: '' @ message ex)), s1)"
    if "createBigCommerceAccount (remote pf) (accountName params) s = (Inl ex, s1)"
    using that by (intro body_caught throw1)
  show "setupBigCommerceIntegration pf params s =
          (Inr (failure (js ''BigCommerce setup failed: '' @ message ex)), s2)"
    if "account_created pf params s a s1" "given (userEmail params)"
      "invitePrimaryUser (remote pf) a (or_else (userEmail params) []) s1 = (Inl ex, s2)"
    using that by (intro body_caught) (simp add: reach2 throw2)
  show "setupBigCommerceIntegration pf params s =
          (Inr (failure (js ''BigCommerce setup failed: '' @ message ex)), s3)"
    if "account_created pf params s a s1" "user_invited pf params a s1 s2"
      "createDb (remote pf) a (or_else (dbName params) (js ''BC Store '' @ storeHash params)) s2 =
         (Inl ex, s3)"
    using that by (intro body_caught) (simp add: reach2 reach3 throw3)
  show "setupBigCommerceIntegration pf params s =
          (Inr (failure (js ''BigCommerce setup failed: '' @ message ex)), s4)"
    if "account_created pf params s a s1" "user_invited pf params a s1 s2"
      "database_created pf params a s2 db s3" "given (groupName params)"
      "moveDbintoNewDbGroup (remote pf) db (or_else (groupName params) []) s3 = (Inl ex, s4)"
    using that by (intro body_caught) (simp add: reach2 reach3 reach4 throw4)
  show "setupBigCommerceIntegration pf params s =
          (Inr (failure (js ''BigCommerce setup failed: '' @ message ex)), s5)"
    if "account_created pf params s a s1" "user_invited pf params a s1 s2"
      "database_created pf params a s2 db s3" "moved_to_group pf params db s3 s4"
      "addDbVaultEntry (remote pf) db (setup_vault_entry pf params) s4 = (Inl ex, s5)"
    using that
    by (intro body_caught) (simp add: reach2 reach3 reach4 reach5 [of pf params db s3 s4] throw5)
  show "setupBigCommerceIntegration pf params s =
          (Inr (failure (js ''BigCommerce setup failed: '' @ message ex)), s5)"
    if "account_created pf params s a s1" "user_invited pf params a s1 s2"
      "database_created pf params a s2 db s3" "moved_to_group pf params db s3 s4"
      "vault_entry_added pf params db s4 v s5"
      "generateBigCommercePreprocessorUrl (setup_connection_info params) (Some setup_file_info) =
         Inl ex"
    using that
    by (intro body_caught)
      (simp add: reach2 reach3 reach4 reach5 [of pf params db s3 s4]
         reach6 [of pf params db s4 v s5] throw_url)
  show "setupBigCommerceIntegration pf params s =
          (Inr (failure (js ''BigCommerce setup failed: '' @ message ex)), s6)"
    if "account_created pf params s a s1" "user_invited pf params a s1 s2"
      "database_created pf params a s2 db s3" "moved_to_group pf params db s3 s4"
      "vault_entry_added pf params db s4 v s5"
      "generateBigCommercePreprocessorUrl (setup_connection_info params) (Some setup_file_info) =
         Inr u"
      "createImport (remote pf) (setup_import_config params u) s5 = (Inl ex, s6)"
    using that
    by (intro body_caught)
      (simp add: reach2 reach3 reach4 reach5 [of pf params db s3 s4]
         reach6 [of pf params db s4 v s5] throw6)
  show "setupBigCommerceIntegration pf params s =
          (Inr (failure (js ''BigCommerce setup failed: '' @ message ex)), s7)"
    if "account_created pf params s a s1" "user_invited pf params a s1 s2"
      "database_created pf params a s2 db s3" "moved_to_group pf params db s3 s4"
      "vault_entry_added pf params db s4 v s5" "import_created pf params s5 i s6"
      "importSchedule params = Some sch"
      "updateImportSchedule (remote pf) i (schedule_json sch) s6 = (Inl ex, s7)"
    using that
    by (intro body_caught)
      (simp add: reach2 reach3 reach4 reach5 [of pf params db s3 s4]
         reach6 [of pf params db s4 v s5] reach7 [of pf params s5 i s6] throw7)
  show "setupBigCommerceIntegration pf params s =
          (Inr (failure (js ''BigCommerce setup failed: '' @ message ex)), s8)"
    if "account_created pf params s a s1" "user_invited pf params a s1 s2"
      "database_created pf params a s2 db s3" "moved_to_group pf params db s3 s4"
      "vault_entry_added pf params db s4 v s5" "import_created pf params s5 i s6"
      "schedule_set pf params i s6 s7" "given (buildTemplate params)"
      "applyAutomateBuildTemplate (remote pf) i (or_else (buildTemplate params) []) s7 =
         (Inl ex, s8)"
    using that
    by (intro body_caught)
      (simp add: reach2 reach3 reach4 reach5 [of pf params db s3 s4]
         reach6 [of pf params db s4 v s5] reach7 [of pf params s5 i s6]
         reach8 [of pf params i s6 s7] throw8)
qed

theorem setup_catches_exceptions_witness:
  "fst (setupBigCommerceIntegration (platform_of (answers odd_error)) demo_params fresh) =
     Inr (failure (js ''BigCommerce setup failed: Cannot convert object to primitive value'')) \<and>
   length (sent (snd (setupBigCommerceIntegration (platform_of (answers odd_error)) demo_params
     fresh))) = 1 \<and>
   fst (setupBigCommerceIntegration (platform_of (failing_at 0 (Rejected JNull))) demo_params fresh) =
     Inr (failure (js ''BigCommerce setup failed: '' @ message (read_of_nullish JNull ''response''))) \<and>
   length (sent (snd (setupBigCommerceIntegration (platform_of (failing_at 0 (Rejected JNull))) demo_params
     fresh))) = 1 \<and>
   fst (setupBigCommerceIntegration (platform_of (failing_at 1 (Rejected JNull))) demo_params fresh) =
     Inr (failure (js ''BigCommerce setup failed: '' @ message (read_of_nullish JNull ''response''))) \<and>
   length (sent (snd (setupBigCommerceIntegration (platform_of (failing_at 1 (Rejected JNull))) demo_params
     fresh))) = 2 \<and>
   fst (setupBigCommerceIntegration (platform_of (failing_at 2 (Rejected JNull))) demo_params fresh) =
     Inr (failure (js ''BigCommerce setup failed: '' @ message (read_of_nullish JNull ''response''))) \<and>
   length (sent (snd (setupBigCommerceIntegration (platform_of (failing_at 2 (Rejected JNull))) demo_params
     fresh))) = 3 \<and>
   fst (setupBigCommerceIntegration (platform_of (failing_at 3 (Rejected JNull))) demo_params fresh) =
     Inr (failure (js ''BigCommerce setup failed: '' @ message (read_of_nullish JNull ''response''))) \<and>
   length (sent (snd (setupBigCommerceIntegration (platform_of (failing_at 3 (Rejected JNull))) demo_params
     fresh))) = 4 \<and>
   fst (setupBigCommerceIntegration (platform_of (failing_at 4 (Rejected JNull))) demo_params fresh) =
     Inr (failure (js ''BigCommerce setup failed: '' @ message (read_of_nullish JNull ''response''))) \<and>
   length (sent (snd (setupBigCommerceIntegration (platform_of (failing_at 4 (Rejected JNull))) demo_params
     fresh))) = 5 \<and>
   fst (setupBigCommerceIntegration (platform_of (failing_at 5 (Rejected JNull))) demo_params fresh) =
     Inr (failure (js ''BigCommerce setup failed: '' @ message (read_of_nullish JNull ''response''))) \<and>
   length (sent (snd (setupBigCommerceIntegration (platform_of (failing_at 5 (Rejected JNull))) demo_params
     fresh))) = 6 \<and>
   fst (setupBigCommerceIntegration (platform_of (failing_at 6 (Rejected JNull))) demo_params fresh) =
     Inr (failure (js ''BigCommerce setup failed: '' @ message (read_of_nullish JNull ''response''))) \<and>
   length (sent (snd (setupBigCommerceIntegration (platform_of (failing_at 6 (Rejected JNull))) demo_params
     fresh))) = 7 \<and>
   fst (setupBigCommerceIntegration (platform_of (failing_at 7 (Rejected JNull))) demo_params fresh) =
     Inr (failure (js ''BigCommerce setup failed: '' @ message (read_of_nullish JNull ''response''))) \<and>
   length (sent (snd (setupBigCommerceIntegration (platform_of (failing_at 7 (Rejected JNull))) demo_params
     fresh))) = 8 \<and>
   fst (setupBigCommerceIntegration (platform_of (failing_at 8 boom))
          (demo_params\<lparr>storeUrl := Some lone_surrogate\<rparr>) fresh) =
     Inr (failure (js ''BigCommerce setup failed: URI malformed'')) \<and>
   length (sent (snd (setupBigCommerceIntegration (platform_of (failing_at 8 boom))
     (demo_params\<lparr>storeUrl := Some lone_surrogate\<rparr>) fresh))) = 5"
proof -
  let ?ex = "read_of_nullish JNull ''response''"
  let ?id = "JStr (js ''77'')"
  let ?bad = "demo_params\<lparr>storeUrl := Some lone_surrogate\<rparr>"
  have "ascii (accessToken demo_params)" "ascii (storeHash demo_params)"
    "ascii (or_else (clientId demo_params) [])" "ascii (or_else (storeUrl demo_params) [])"
    by (simp_all add: demo_params_def or_else_def js_def)
  then obtain u where u: "generateBigCommercePreprocessorUrl (setup_connection_info demo_params)
      (Some setup_file_info) = Inr u"
    using setup_url_total [of demo_params] by blast
  have z: "demo_after 0 u = fresh" "demo_after 0 [] = fresh"
    by (simp_all add: demo_after_def sending_def)
  have g: "given (userEmail demo_params)" "given (groupName demo_params)"
    "given (buildTemplate demo_params)"
    "importSchedule demo_params =
       Some \<lparr>sched_day = js ''*'', sched_hour = js ''*/4'', sched_minute = js ''0''\<rparr>"
    by (simp_all add: demo_params_def given_def)
  have o: "setup_step1 (platform_of (answers odd_error)) demo_params fresh =
             (Inl not_primitive, demo_failed_at 0 u)"
    by (simp add: setup_step1_def createBigCommerceAccount_def await_def failed_def compute_def
          request_odd_error demo_failed_at_def demo_eval)
  have ro: "setupBigCommerceIntegration (platform_of (answers odd_error)) demo_params fresh =
             (Inr (failure (js ''BigCommerce setup failed: '' @ message not_primitive)),
              demo_failed_at 0 u)"
    using setup_catches_exceptions [where pf = "platform_of (answers odd_error)"
        and params = demo_params and s = fresh and ex = not_primitive
        and s' = "demo_failed_at 0 u", THEN conjunct2, THEN conjunct1, rule_format] o
    by simp
  have f0: "createBigCommerceAccount (remote (platform_of (failing_at 0 (Rejected JNull)))) (accountName demo_params) (demo_after 0 u) =
      (Inl ?ex, demo_failed_at 0 u)"
    by (simp add: createBigCommerceAccount_def demo_failed_at_def demo_eval request_null)
  have r0: "setupBigCommerceIntegration (platform_of (failing_at 0 (Rejected JNull))) demo_params fresh =
             (Inr (failure (js ''BigCommerce setup failed: '' @ message ?ex)), demo_failed_at 0 u)"
    using setup_catches_exceptions [where pf = "platform_of (failing_at 0 (Rejected JNull))" and params = demo_params and s = fresh and ex = ?ex and ?s1.0 = "demo_failed_at 0 u",
        THEN conjunct2, THEN conjunct2, THEN conjunct1, rule_format]
      f0 z g
    by (simp add: demo_store_url)
  have f1: "invitePrimaryUser (remote (platform_of (failing_at 1 (Rejected JNull)))) ?id (or_else (userEmail demo_params) []) (demo_after 1 u) =
      (Inl ?ex, demo_failed_at 1 u)"
    by (simp add: invitePrimaryUser_def demo_failed_at_def demo_eval request_null)
  have r1: "setupBigCommerceIntegration (platform_of (failing_at 1 (Rejected JNull))) demo_params fresh =
             (Inr (failure (js ''BigCommerce setup failed: '' @ message ?ex)), demo_failed_at 1 u)"
    using setup_catches_exceptions [where pf = "platform_of (failing_at 1 (Rejected JNull))" and params = demo_params and s = fresh and ex = ?ex and ?s1.0 = "demo_after 1 u" and ?s2.0 = "demo_failed_at 1 u" and a = ?id,
        THEN conjunct2, THEN conjunct2, THEN conjunct2, THEN conjunct1, rule_format]
      f1 z demo_step1 [where k = 1 and bad = "Rejected JNull" and u = u and su = None] g
    by (simp add: demo_store_url)
  have f2: "createDb (remote (platform_of (failing_at 2 (Rejected JNull)))) ?id (or_else (dbName demo_params) (js ''BC Store '' @ storeHash demo_params)) (demo_after 2 u) =
      (Inl ?ex, demo_failed_at 2 u)"
    by (simp add: createDb_def demo_failed_at_def demo_eval request_null)
  have r2: "setupBigCommerceIntegration (platform_of (failing_at 2 (Rejected JNull))) demo_params fresh =
             (Inr (failure (js ''BigCommerce setup failed: '' @ message ?ex)), demo_failed_at 2 u)"
    using setup_catches_exceptions [where pf = "platform_of (failing_at 2 (Rejected JNull))" and params = demo_params and s = fresh and ex = ?ex and ?s1.0 = "demo_after 1 u" and ?s2.0 = "demo_after 2 u" and ?s3.0 = "demo_failed_at 2 u" and a = ?id,
        THEN conjunct2, THEN conjunct2, THEN conjunct2, THEN conjunct2, THEN conjunct1, rule_format]
      f2 z demo_step1 [where k = 2 and bad = "Rejected JNull" and u = u and su = None] demo_step2 [where k = 2 and bad = "Rejected JNull" and u = u and su = None] g
    by (simp add: demo_store_url)
  have f3: "moveDbintoNewDbGroup (remote (platform_of (failing_at 3 (Rejected JNull)))) ?id (or_else (groupName demo_params) []) (demo_after 3 u) =
      (Inl ?ex, demo_failed_at 3 u)"
    by (simp add: moveDbintoNewDbGroup_def demo_failed_at_def demo_eval request_null)
  have r3: "setupBigCommerceIntegration (platform_of (failing_at 3 (Rejected JNull))) demo_params fresh =
             (Inr (failure (js ''BigCommerce setup failed: '' @ message ?ex)), demo_failed_at 3 u)"
    using setup_catches_exceptions [where pf = "platform_of (failing_at 3 (Rejected JNull))" and params = demo_params and s = fresh and ex = ?ex and ?s1.0 = "demo_after 1 u" and ?s2.0 = "demo_after 2 u" and ?s3.0 = "demo_after 3 u" and ?s4.0 = "demo_failed_at 3 u" and a = ?id and db = ?id,
        THEN conjunct2, THEN conjunct2, THEN conjunct2, THEN conjunct2, THEN conjunct2, THEN conjunct1, rule_format]
      f3 z demo_step1 [where k = 3 and bad = "Rejected JNull" and u = u and su = None] demo_step2 [where k = 3 and bad = "Rejected JNull" and u = u and su = None] demo_step3 [where k = 3 and bad = "Rejected JNull" and u = u and su = None] g
    by (simp add: demo_store_url)
  have f4: "addDbVaultEntry (remote (platform_of (failing_at 4 (Rejected JNull)))) ?id (setup_vault_entry (platform_of (failing_at 4 (Rejected JNull))) demo_params) (demo_after 4 u) =
      (Inl ?ex, demo_failed_at 4 u)"
    by (simp add: addDbVaultEntry_def setup_vault_entry_def demo_failed_at_def demo_eval request_null)
  have r4: "setupBigCommerceIntegration (platform_of (failing_at 4 (Rejected JNull))) demo_params fresh =
             (Inr (failure (js ''BigCommerce setup failed: '' @ message ?ex)), demo_failed_at 4 u)"
    using setup_catches_exceptions [where pf = "platform_of (failing_at 4 (Rejected JNull))" and params = demo_params and s = fresh and ex = ?ex and ?s1.0 = "demo_after 1 u" and ?s2.0 = "demo_after 2 u" and ?s3.0 = "demo_after 3 u" and ?s4.0 = "demo_after 4 u" and ?s5.0 = "demo_failed_at 4 u" and a = ?id and db = ?id,
        THEN conjunct2, THEN conjunct2, THEN conjunct2, THEN conjunct2, THEN conjunct2, THEN conjunct2, THEN conjunct1, rule_format]
      f4 z demo_step1 [where k = 4 and bad = "Rejected JNull" and u = u and su = None] demo_step2 [where k = 4 and bad = "Rejected JNull" and u = u and su = None] demo_step3 [where k = 4 and bad = "Rejected JNull" and u = u and su = None] demo_step4 [where k = 4 and bad = "Rejected JNull" and u = u and su = None] g
    by (simp add: demo_store_url)
  have f5: "createImport (remote (platform_of (failing_at 5 (Rejected JNull)))) (setup_import_config demo_params u) (demo_after 5 u) =
      (Inl ?ex, demo_failed_at 5 u)"
    by (simp add: createImport_def demo_failed_at_def demo_eval request_null)
  have r5: "setupBigCommerceIntegration (platform_of (failing_at 5 (Rejected JNull))) demo_params fresh =
             (Inr (failure (js ''BigCommerce setup failed: '' @ message ?ex)), demo_failed_at 5 u)"
    using setup_catches_exceptions [where pf = "platform_of (failing_at 5 (Rejected JNull))" and params = demo_params and s = fresh and ex = ?ex and ?s1.0 = "demo_after 1 u" and ?s2.0 = "demo_after 2 u" and ?s3.0 = "demo_after 3 u" and ?s4.0 = "demo_after 4 u" and ?s5.0 = "demo_after 5 u" and ?s6.0 = "demo_failed_at 5 u" and a = ?id and db = ?id and v = "JStr (js ''5'')" and u = u,
        THEN conjunct2, THEN conjunct2, THEN conjunct2, THEN conjunct2, THEN conjunct2, THEN conjunct2, THEN conjunct2, THEN conjunct2, THEN conjunct1, rule_format]
      f5 z demo_step1 [where k = 5 and bad = "Rejected JNull" and u = u and su = None] demo_step2 [where k = 5 and bad = "Rejected JNull" and u = u and su = None] demo_step3 [where k = 5 and bad = "Rejected JNull" and u = u and su = None] demo_step4 [where k = 5 and bad = "Rejected JNull" and u = u and su = None] demo_step5 [where k = 5 and bad = "Rejected JNull" and u = u and su = None] u g
    by (simp add: demo_store_url)
  have f6: "updateImportSchedule (remote (platform_of (failing_at 6 (Rejected JNull)))) ?id (schedule_json \<lparr>sched_day = js ''*'', sched_hour = js ''*/4'', sched_minute = js ''0''\<rparr>) (demo_after 6 u) =
      (Inl ?ex, demo_failed_at 6 u)"
    by (simp add: updateImportSchedule_def schedule_json_def schedule_object_def demo_failed_at_def demo_eval request_null)
  have r6: "setupBigCommerceIntegration (platform_of (failing_at 6 (Rejected JNull))) demo_params fresh =
             (Inr (failure (js ''BigCommerce setup failed: '' @ message ?ex)), demo_failed_at 6 u)"
    using setup_catches_exceptions [where pf = "platform_of (failing_at 6 (Rejected JNull))" and params = demo_params and s = fresh and ex = ?ex and ?s1.0 = "demo_after 1 u" and ?s2.0 = "demo_after 2 u" and ?s3.0 = "demo_after 3 u" and ?s4.0 = "demo_after 4 u" and ?s5.0 = "demo_after 5 u" and ?s6.0 = "demo_after 6 u" and ?s7.0 = "demo_failed_at 6 u" and a = ?id and db = ?id and v = "JStr (js ''5'')" and i = ?id and sch = "\<lparr>sched_day = js ''*'', sched_hour = js ''*/4'', sched_minute = js ''0''\<rparr>",
        THEN conjunct2, THEN conjunct2, THEN conjunct2, THEN conjunct2, THEN conjunct2, THEN conjunct2, THEN conjunct2, THEN conjunct2, THEN conjunct2, THEN conjunct1, rule_format]
      f6 z demo_step1 [where k = 6 and bad = "Rejected JNull" and u = u and su = None] demo_step2 [where k = 6 and bad = "Rejected JNull" and u = u and su = None] demo_step3 [where k = 6 and bad = "Rejected JNull" and u = u and su = None] demo_step4 [where k = 6 and bad = "Rejected JNull" and u = u and su = None] demo_step5 [where k = 6 and bad = "Rejected JNull" and u = u and su = None] demo_step6 [where k = 6 and bad = "Rejected JNull" and u = u, OF _ u] g
    by (simp add: demo_store_url)
  have f7: "applyAutomateBuildTemplate (remote (platform_of (failing_at 7 (Rejected JNull)))) ?id (or_else (buildTemplate demo_params) []) (demo_after 7 u) =
      (Inl ?ex, demo_failed_at 7 u)"
    by (simp add: applyAutomateBuildTemplate_def demo_failed_at_def demo_eval request_null)
  have r7: "setupBigCommerceIntegration (platform_of (failing_at 7 (Rejected JNull))) demo_params fresh =
             (Inr (failure (js ''BigCommerce setup failed: '' @ message ?ex)), demo_failed_at 7 u)"
    using setup_catches_exceptions [where pf = "platform_of (failing_at 7 (Rejected JNull))" and params = demo_params and s = fresh and ex = ?ex and ?s1.0 = "demo_after 1 u" and ?s2.0 = "demo_after 2 u" and ?s3.0 = "demo_after 3 u" and ?s4.0 = "demo_after 4 u" and ?s5.0 = "demo_after 5 u" and ?s6.0 = "demo_after 6 u" and ?s7.0 = "demo_after 7 u" and ?s8.0 = "demo_failed_at 7 u" and a = ?id and db = ?id and v = "JStr (js ''5'')" and i = ?id,
        THEN conjunct2, THEN conjunct2, THEN conjunct2, THEN conjunct2, THEN conjunct2, THEN conjunct2, THEN conjunct2, THEN conjunct2, THEN conjunct2, THEN conjunct2, rule_format]
      f7 z demo_step1 [where k = 7 and bad = "Rejected JNull" and u = u and su = None] demo_step2 [where k = 7 and bad = "Rejected JNull" and u = u and su = None] demo_step3 [where k = 7 and bad = "Rejected JNull" and u = u and su = None] demo_step4 [where k = 7 and bad = "Rejected JNull" and u = u and su = None] demo_step5 [where k = 7 and bad = "Rejected JNull" and u = u and su = None] demo_step6 [where k = 7 and bad = "Rejected JNull" and u = u, OF _ u] demo_step7 [where k = 7 and bad = "Rejected JNull" and u = u] g
    by (simp add: demo_store_url)
  have ru: "setupBigCommerceIntegration (platform_of (failing_at 8 boom)) ?bad fresh =
             (Inr (failure (js ''BigCommerce setup failed: '' @ message uri_malformed)),
              demo_after 5 [])"
    using setup_catches_exceptions [where pf = "platform_of (failing_at 8 boom)" and params = ?bad and s = fresh and ex = uri_malformed and ?s1.0 = "demo_after 1 []" and ?s2.0 = "demo_after 2 []" and ?s3.0 = "demo_after 3 []" and ?s4.0 = "demo_after 4 []" and ?s5.0 = "demo_after 5 []" and a = ?id and db = ?id and v = "JStr (js ''5'')",
        THEN conjunct2, THEN conjunct2, THEN conjunct2, THEN conjunct2, THEN conjunct2, THEN conjunct2, THEN conjunct2, THEN conjunct1, rule_format]
      z demo_url_throws demo_step1 [where k = 8 and bad = boom and u = "[]" and su = "Some lone_surrogate"] demo_step2 [where k = 8 and bad = boom and u = "[]" and su = "Some lone_surrogate"] demo_step3 [where k = 8 and bad = boom and u = "[]" and su = "Some lone_surrogate"] demo_step4 [where k = 8 and bad = boom and u = "[]" and su = "Some lone_surrogate"] demo_step5 [where k = 8 and bad = boom and u = "[]" and su = "Some lone_surrogate"]
    by simp
  have m: "js ''BigCommerce setup failed: '' @ message not_primitive =
             js ''BigCommerce setup failed: Cannot convert object to primitive value''"
    "js ''BigCommerce setup failed: '' @ message uri_malformed =
       js ''BigCommerce setup failed: URI malformed''"
    by (simp_all add: not_primitive_def uri_malformed_def js_append [symmetric])
  have l: "length (sent (demo_after 5 [])) = 5"
    by (simp add: demo_after_def demo_requests_def fresh_def setDbId_def sending_def)
  from ro r0 r1 r2 r3 r4 r5 r6 r7 ru show ?thesis
    by (simp add: m l demo_length)
qed

section \<open>The invariant of the envelope\<close>

text \<open>
  Claim C8. Whatever the server answers, every envelope that a public operation of the
  client or of the service returns satisfies the invariant: when \<open>success\<close> is true the
  error is absent, and when it is false the data is absent and the error is present.
\<close>

theorem envelopes_well_formed:
  "returns_well_formed (request srv m u d cfg) \<and>
   returns_well_formed (invitePrimaryUser srv i email) \<and>
   returns_well_formed (applyAutomateBuildTemplate srv i template) \<and>
   returns_well_formed (feedBuild srv i) \<and>
   returns_well_formed (cancelBuild srv i) \<and>
   returns_well_formed (accounts srv) \<and>
   returns_well_formed (dbs srv i) \<and>
   returns_well_formed (createDb srv i name) \<and>
   returns_well_formed (deleteDb srv i) \<and>
   returns_well_formed (vault srv) \<and>
   returns_well_formed (createVault srv d) \<and>
   returns_well_formed (updateVault srv i d) \<and>
   returns_well_formed (deleteVault srv i) \<and>
   returns_well_formed (ftpAccounts srv) \<and>
   returns_well_formed (createFtpAccounts srv d) \<and>
   returns_well_formed (imports_fdx srv) \<and>
   returns_well_formed (createImport srv d) \<and>
   returns_well_formed (updateImport srv i d) \<and>
   returns_well_formed (updateImportSchedule srv i d) \<and>
   returns_well_formed (exports srv) \<and>
   returns_well_formed (createExport srv d) \<and>
   returns_well_formed (updateExport srv i d) \<and>
   returns_well_formed (scheduleExport srv i d) \<and>
   returns_well_formed (transformers srv) \<and>
   returns_well_formed (createTransformer srv d) \<and>
   returns_well_formed (updateTransformer srv i d) \<and>
   returns_well_formed (updateDbFields srv d) \<and>
   returns_well_formed (createJoinImport srv d) \<and>
   returns_well_formed (joinImports srv) \<and>
   returns_well_formed (groups srv i) \<and>
   returns_well_formed (createGroup srv name) \<and>
   returns_well_formed (moveDbToGroup srv d) \<and>
   returns_well_formed (login srv username password name) \<and>
   returns_well_formed (createBigCommerceAccount srv name) \<and>
   returns_well_formed (moveDbintoNewDbGroup srv i name) \<and>
   returns_well_formed (moveDbFromSourceToTargetDbGroup srv i source target name) \<and>
   returns_well_formed (addDbVaultEntry srv i d) \<and>
   returns_well_formed (dbFields srv i) \<and>
   returns_well_formed (deleteDbField srv i j) \<and>
   returns_well_formed (retrieveAccounts pf) \<and>
   returns_well_formed (getOrCreateAccount pf i) \<and>
   returns_well_formed (createAccount pf name) \<and>
   returns_well_formed (service_moveDbToGroup pf i name) \<and>
   returns_well_formed (updateVaultEntries pf token) \<and>
   returns_well_formed (getFtpCredentials pf) \<and>
   returns_well_formed (service_deleteDb pf i) \<and>
   returns_well_formed (service_createDb pf i name) \<and>
   returns_well_formed (retrieveImport pf) \<and>
   returns_well_formed (createOrUpdateImport pf user i isCreate) \<and>
   returns_well_formed (service_updateImportSchedule pf i day hour minute) \<and>
   returns_well_formed (createOrUpdateExport pf ftp name slot) \<and>
   returns_well_formed (getExistingExport pf) \<and>
   returns_well_formed (createTransformers pf ds) \<and>
   returns_well_formed (service_updateDbFields pf ds) \<and>
   returns_well_formed (service_createJoinImport pf ftp name) \<and>
   returns_well_formed (runImport pf name) \<and>
   returns_well_formed (runExport pf name) \<and>
   returns_well_formed (setupBigCommerceIntegration pf params)"
  by (simp add: rwf_request rwf_client rwf_retrieveAccounts rwf_getOrCreateAccount rwf_createAccount
        rwf_service_moveDbToGroup rwf_updateVaultEntries rwf_getFtpCredentials
        rwf_service_deleteDb rwf_service_createDb rwf_retrieveImport rwf_createOrUpdateImport
        rwf_service_updateImportSchedule rwf_createOrUpdateExport rwf_getExistingExport
        createTransformers_def rwf_create_each service_updateDbFields_def rwf_update_each
        rwf_service_createJoinImport rwf_runImport rwf_runExport
        rwf_setupBigCommerceIntegration)

theorem envelopes_well_formed_witness:
  "fst (accounts (answers (Rejected (JObj [(js ''message'', JStr (js ''Network error''))])))
          fresh) =
     Inr \<lparr>success = False, data = JUndefined, error = JStr (js ''Network error''),
          status = JUndefined\<rparr> \<and>
   well_formed \<lparr>success = False, data = JUndefined, error = JStr (js ''Network error''),
                status = JUndefined\<rparr>"
proof -
  let ?srv = "answers (Rejected (JObj [(js ''message'', JStr (js ''Network error''))]))"
  let ?e = "\<lparr>success = False, data = JUndefined, error = JStr (js ''Network error''),
             status = JUndefined\<rparr>"
  have run: "fst (accounts ?srv fresh) = Inr ?e"
    by (simp add: accounts_def request_def answers_def get_prop_def own_def js_or_def js_def)
  from envelopes_well_formed [where srv = ?srv]
  have "returns_well_formed (accounts ?srv)"
    by simp
  with run have "well_formed ?e"
    unfolding returns_well_formed_def by blast
  with run show ?thesis
    by blast
qed

section \<open>Moving a database to a group\<close>

text \<open>
  Claim C9. When the group lookup of \<open>FdxService.moveDbToGroup\<close> succeeds and finds no
  group whose name starts with \<open>BC-\<close> (the account has no groups, or none of that name),
  the operation sends exactly two requests, the lookup and the creation of a group, so
  the request that moves a database is never sent; and when the creation succeeds, its
  response body is the success payload.
\<close>

theorem moveDbToGroup_without_group:
  assumes "to_string accountId = Inr a"
    and "remote pf (sent s) (req ''GET'' (js ''/accounts/'' @ a @ js ''/groups'') JUndefined) =
           Resolved \<lparr>resp_status = st, resp_data = d\<rparr>"
    and "200 \<le> st" and "st < 300"
    and "nullish d \<or> (\<exists>gs. d = JArr gs \<and> find_prefixed gs = Inr JUndefined)"
  shows "snd (service_moveDbToGroup pf accountId accName s) =
           sending s [req ''GET'' (js ''/accounts/'' @ a @ js ''/groups'') JUndefined,
                      req ''POST'' (js ''/groups'') (JObj [(js ''name'', JStr accName)])] \<and>
         (\<forall>st' b. remote pf (sent s @ [req ''GET'' (js ''/accounts/'' @ a @ js ''/groups'') JUndefined])
                    (req ''POST'' (js ''/groups'') (JObj [(js ''name'', JStr accName)])) =
                  Resolved \<lparr>resp_status = st', resp_data = b\<rparr> \<and> 200 \<le> st' \<and> st' < 300 \<longrightarrow>
                fst (service_moveDbToGroup pf accountId accName s) = Inr (succeeded b))"
proof -
  let ?get = "req ''GET'' (js ''/accounts/'' @ a @ js ''/groups'') JUndefined"
  let ?post = "req ''POST'' (js ''/groups'') (JObj [(js ''name'', JStr accName)])"
  have g: "groups (remote pf) accountId s =
             (Inr \<lparr>success = True, data = d, error = JUndefined, status = JNum st\<rparr>,
              sending s [?get])"
    using assms(1-4) by (simp add: groups_def with_str_Inr request_ok)
  have f: "findGroup pf accountId s = (Inr (succeeded JUndefined), sending s [?get])"
    using assms(5) by (auto simp: findGroup_def await_def g ret_def compute_def)
  have m: "service_moveDbToGroup pf accountId accName s =
             await (createGroup (remote pf) accName) (\<lambda>result.
               if \<not> success result then failed ''Error moving db to group: '' (error result)
               else ret (succeeded (data result))) (sending s [?get])"
    by (simp add: service_moveDbToGroup_def await_def f succeeded_def)
  have c: "snd (createGroup (remote pf) accName (sending s [?get])) = sending s [?get, ?post]"
    by (simp add: createGroup_def request_session)
  have 1: "snd (service_moveDbToGroup pf accountId accName s) = sending s [?get, ?post]"
    using c unfolding m
    by (auto simp: await_def failed_def ret_def compute_def split: prod.splits sum.splits)
  have 2: "fst (service_moveDbToGroup pf accountId accName s) = Inr (succeeded b)"
    if "remote pf (sent s @ [?get]) ?post = Resolved \<lparr>resp_status = st', resp_data = b\<rparr>"
      and "200 \<le> st'" and "st' < 300" for st' b
  proof -
    have "createGroup (remote pf) accName (sending s [?get]) =
            (Inr \<lparr>success = True, data = b, error = JUndefined, status = JNum st'\<rparr>,
             sending s [?get, ?post])"
      using that by (simp add: createGroup_def request_ok)
    then show ?thesis
      unfolding m by (simp add: await_def ret_def)
  qed
  from 1 2 show ?thesis by blast
qed

theorem moveDbToGroup_without_group_witness:
  "service_moveDbToGroup
     (platform_of (scripted [ok 200 (JArr [JObj [(js ''id'', JNum 1), (js ''name'', JStr (js ''Other''))]]),
                             ok 201 (JObj [(js ''id'', JNum 5)])]))
     (JNum 7) (js ''BC-9'') fresh =
   (Inr (succeeded (JObj [(js ''id'', JNum 5)])),
    sending fresh [req ''GET'' (js ''/accounts/7/groups'') JUndefined,
                   req ''POST'' (js ''/groups'') (JObj [(js ''name'', JStr (js ''BC-9''))])])"
proof -
  let ?gs = "[JObj [(js ''id'', JNum 1), (js ''name'', JStr (js ''Other''))]]"
  let ?pf = "platform_of (scripted [ok 200 (JArr ?gs), ok 201 (JObj [(js ''id'', JNum 5)])])"
  let ?get = "req ''GET'' (js ''/accounts/'' @ js ''7'' @ js ''/groups'') JUndefined"
  let ?post = "req ''POST'' (js ''/groups'') (JObj [(js ''name'', JStr (js ''BC-9''))])"
  have a: "to_string (JNum 7) = Inr (js ''7'')"
    by (simp add: show_int_def show_nat.simps digit_def js_def)
  have g: "remote ?pf (sent fresh) ?get = Resolved \<lparr>resp_status = 200, resp_data = JArr ?gs\<rparr>"
    by (simp add: platform_of_def scripted_def ok_def fresh_def)
  have n: "nullish (JArr ?gs) \<or> (\<exists>gs. JArr ?gs = JArr gs \<and> find_prefixed gs = Inr JUndefined)"
    by (simp add: starts_with_prefix_def get_prop_def own_def and_then_def ACCOUNT_PREFIX_def
          js_def)
  have p: "remote ?pf (sent fresh @ [?get]) ?post =
             Resolved \<lparr>resp_status = 201, resp_data = JObj [(js ''id'', JNum 5)]\<rparr>"
    by (simp add: platform_of_def scripted_def ok_def fresh_def)
  from moveDbToGroup_without_group [of "JNum 7" "js ''7''" ?pf fresh 200 "JArr ?gs" "js ''BC-9''",
      OF a g _ _ n] p
  have "snd (service_moveDbToGroup ?pf (JNum 7) (js ''BC-9'') fresh) = sending fresh [?get, ?post]"
    and "fst (service_moveDbToGroup ?pf (JNum 7) (js ''BC-9'') fresh) =
           Inr (succeeded (JObj [(js ''id'', JNum 5)]))"
    by auto
  then show ?thesis
    by (simp add: prod_eq_iff js_def)
qed

section \<open>The active database after the setup\<close>

text \<open>
  Claim C10. Whatever \<open>setupBigCommerceIntegration\<close> returns, the client's token, base URL,
  timeout and verbose flag are after it what they were before it. Once the database is
  created (the account created and the user invited before it), the client's active database
  is the new database's identifier as a string when the workflow returns, whether the later
  steps succeed, fail or throw: nothing sets it back.
\<close>

theorem active_database_persists:
  "apiToken (cl (snd (setupBigCommerceIntegration pf params s))) = apiToken (cl s) \<and>
   baseUrl (cl (snd (setupBigCommerceIntegration pf params s))) = baseUrl (cl s) \<and>
   timeout (cl (snd (setupBigCommerceIntegration pf params s))) = timeout (cl s) \<and>
   verbose (cl (snd (setupBigCommerceIntegration pf params s))) = verbose (cl s) \<and>
   (account_created pf params s a s1 \<and> user_invited pf params a s1 s2 \<and>
    database_created pf params a s2 db s3 \<and> method_toString db ''dbId'' = Inr d \<longrightarrow>
    dbId (cl (snd (setupBigCommerceIntegration pf params s))) = Some d)"
proof -
  obtain x where "cl (snd (setupBigCommerceIntegration pf params s)) = (cl s)\<lparr>dbId := x\<rparr>"
    using db_setup by blast
  then have "apiToken (cl (snd (setupBigCommerceIntegration pf params s))) = apiToken (cl s)"
    "baseUrl (cl (snd (setupBigCommerceIntegration pf params s))) = baseUrl (cl s)"
    "timeout (cl (snd (setupBigCommerceIntegration pf params s))) = timeout (cl s)"
    "verbose (cl (snd (setupBigCommerceIntegration pf params s))) = verbose (cl s)"
    by simp_all
  moreover have "dbId (cl (snd (setupBigCommerceIntegration pf params s))) = Some d"
    if "account_created pf params s a s1" "user_invited pf params a s1 s2"
      "database_created pf params a s2 db s3" "method_toString db ''dbId'' = Inr d"
  proof -
    from that(3,4) have "dbId (cl s3) = Some d"
      by (auto simp: database_created_def setDbId_def)
    with db_kept [OF that(1-3)] show ?thesis by simp
  qed
  ultimately show ?thesis by blast
qed


theorem active_database_persists_witness:
  "fst (setupBigCommerceIntegration (platform_of (failing_at 4 boom)) demo_params fresh) =
     Inr (failure (js ''Failed to create vault entry: Boom'')) \<and>
   dbId (cl fresh) = None \<and>
   dbId (cl (snd (setupBigCommerceIntegration (platform_of (failing_at 4 boom)) demo_params fresh))) = Some (js ''77'') \<and>
   apiToken (cl (snd (setupBigCommerceIntegration (platform_of (failing_at 4 boom)) demo_params fresh))) = js ''token'' \<and>
   baseUrl (cl (snd (setupBigCommerceIntegration (platform_of (failing_at 4 boom)) demo_params fresh))) = js ''https://meta.feedonomics.com/api.php'' \<and>
   timeout (cl (snd (setupBigCommerceIntegration (platform_of (failing_at 4 boom)) demo_params fresh))) = 60000 \<and>
   verbose (cl (snd (setupBigCommerceIntegration (platform_of (failing_at 4 boom)) demo_params fresh))) = False"
proof -
  let ?pf = "platform_of (failing_at 4 boom)"
  let ?id = "JStr (js ''77'')"
  let ?bad = "\<lparr>success = False, data = JUndefined, error = JStr (js ''Boom''), status = JNum 500\<rparr>"
  have z: "demo_after 0 [] = fresh"
    by (simp add: demo_after_def sending_def)
  have s1: "account_created ?pf demo_params fresh ?id (demo_after 1 [])"
    using demo_step1 [where k = 4 and bad = boom and u = "[]" and su = None]
    by (simp add: demo_store_url)
  have s2: "user_invited ?pf demo_params ?id (demo_after 1 []) (demo_after 2 [])"
    using demo_step2 [where k = 4 and bad = boom and u = "[]" and su = None]
    by (simp add: demo_store_url)
  have s3: "database_created ?pf demo_params ?id (demo_after 2 []) ?id (demo_after 3 [])"
    using demo_step3 [where k = 4 and bad = boom and u = "[]" and su = None]
    by (simp add: demo_store_url)
  have s4: "moved_to_group ?pf demo_params ?id (demo_after 3 []) (demo_after 4 [])"
    using demo_step4 [where k = 4 and bad = boom and u = "[]" and su = None]
    by (simp add: demo_store_url)
  have t: "method_toString ?id ''dbId'' = Inr (js ''77'')"
    by (simp add: method_toString_def)
  have f: "addDbVaultEntry (remote ?pf) ?id (setup_vault_entry ?pf demo_params) (demo_after 4 []) =
             (Inr ?bad, demo_failed_at 4 [])"
    by (simp add: addDbVaultEntry_def setup_vault_entry_def demo_failed_at_def demo_eval)
  have "setup_step1 ?pf demo_params fresh =
          (Inr (failure (js ''Failed to create vault entry: '' @ js ''Boom'')), demo_failed_at 4 [])"
    using s1 s2 s3 s4 f
    by (simp add: reach2 reach3 reach4 reach5 [of ?pf demo_params ?id "demo_after 3 []" "demo_after 4 []"]
          fail5)
  then have r: "fst (setupBigCommerceIntegration (platform_of (failing_at 4 boom)) demo_params fresh) =
      Inr (failure (js ''Failed to create vault entry: Boom''))"
    by (simp add: setup_returns js_append [symmetric])
  have c: "cl fresh = fresh_client"
    by (simp add: fresh_def)
  from active_database_persists [where pf = ?pf and params = demo_params and s = fresh
      and a = ?id and ?s1.0 = "demo_after 1 []" and ?s2.0 = "demo_after 2 []" and db = ?id
      and ?s3.0 = "demo_after 3 []" and d = "js ''77''"] s1 s2 s3 t r
  show ?thesis
    by (simp add: c fresh_client_def)
qed


end
